theory Spec2Isabelle
  imports Main "HOL-Library.Word"
begin

unbundle bit_operations_syntax

section \<open>tek-game-runtime: the Steam API interception engine\<close>

text \<open>
  A shallow embedding of \<^verbatim>\<open>src/steam_api.cpp\<close>, \<^verbatim>\<open>src/steam_api.hpp\<close>,
  \<^verbatim>\<open>src/settings.hpp\<close> and of the Steam Workshop wrappers of
  \<^verbatim>\<open>src/steam/346110.cpp\<close>.

  Machine integers keep their width: \<^verbatim>\<open>std::uint32_t\<close> is \<^typ>\<open>32 word\<close>,
  \<^verbatim>\<open>std::uint64_t\<close> is \<^typ>\<open>64 word\<close>, and a C \<^verbatim>\<open>int\<close> is a
  \<^typ>\<open>32 word\<close> read through \<^const>\<open>sint\<close>. Addresses name pointer-sized cells
  of one flat store, so that two tables may or may not overlap. Whatever the C++ leaves
  undefined (an index outside an array, a null pointer followed) is a \<open>fault\<close> value:
  the functions return \<open>fault + result\<close>.
\<close>

subsection \<open>Basic types\<close>

type_synonym version = "64 word"
type_synonym addr = nat
type_synonym cell = nat
type_synonym store = "addr \<Rightarrow> cell"

datatype fault =
    OutOfBoundsRead int
  | OutOfBoundsWrite int
  | NullDereference
  | AccessViolation

text \<open>Sequencing of steps that may fault: the first fault ends the run.\<close>

definition and_then :: "fault + 'a \<Rightarrow> ('a \<Rightarrow> fault + 'b) \<Rightarrow> fault + 'b" where
  "and_then r f = (case r of Inl e \<Rightarrow> Inl e | Inr x \<Rightarrow> f x)"

subsection \<open>Settings (\<^verbatim>\<open>settings.hpp\<close>)\<close>

record steam_options =
  app_id :: "32 word"
  spoof_app_id :: "32 word"
  dlc :: "(32 word \<times> string) list"
  installed_dlc :: "32 word set"
  tek_sc_path :: string
  auto_update_dlc :: bool

subsection \<open>Common Steam API method wrappers (\<^verbatim>\<open>steam_api.cpp\<close>, lines 39--138)\<close>

text \<open>
  \<^verbatim>\<open>SteamApps_BIsSubscribedApp\<close>. The captured original method
  \<^verbatim>\<open>SteamApps_BIsSubscribedApp_orig\<close> is the parameter \<open>orig\<close>; the second
  component of the result lists the calls made to it, in order.
\<close>

definition SteamApps_BIsSubscribedApp ::
  "steam_options \<Rightarrow> (addr \<Rightarrow> 32 word \<Rightarrow> bool) \<Rightarrow> addr \<Rightarrow> 32 word
     \<Rightarrow> bool \<times> (addr \<times> 32 word) list" where
  "SteamApps_BIsSubscribedApp s orig ifc a =
     (if a = app_id s \<or> a \<in> set (map fst (dlc s)) then (True, [])
      else (orig ifc a, [(ifc, a)]))"

definition SteamApps_BIsDlcInstalled :: "steam_options \<Rightarrow> 32 word \<Rightarrow> bool" where
  "SteamApps_BIsDlcInstalled s a = (a \<in> installed_dlc s)"

text \<open>\<^verbatim>\<open>SteamApps_GetDLCCount\<close>: the size of the list, converted to \<^verbatim>\<open>int\<close>.\<close>

definition SteamApps_GetDLCCount :: "steam_options \<Rightarrow> 32 word" where
  "SteamApps_GetDLCCount s = word_of_nat (length (dlc s))"

text \<open>
  \<^verbatim>\<open>SteamApps_BGetDLCDataByIndex\<close>. The three output parameters are the record
  \<open>dlc_out\<close>; \<open>name_buf\<close> is the caller's buffer, at least \<open>name_buf_size\<close> long.
  The guard is the source's: \<^verbatim>\<open>idx < static_cast<int>(dlc.size())\<close> returns false.
  \<^verbatim>\<open>dlc[idx]\<close> converts \<open>idx\<close> to \<^verbatim>\<open>size_t\<close>; outside the vector it is a fault.
\<close>

record dlc_out =
  out_app_id :: "32 word"
  out_available :: bool
  name_buf :: string

definition string_copy :: "string \<Rightarrow> nat \<Rightarrow> nat" where
  \<comment> \<open>\<^verbatim>\<open>name.copy(buf, count)\<close> returns the number of characters copied\<close>
  "string_copy name count = min count (length name)"

definition SteamApps_BGetDLCDataByIndex ::
  "steam_options \<Rightarrow> 32 word \<Rightarrow> dlc_out \<Rightarrow> 32 word \<Rightarrow> fault + (bool \<times> dlc_out)" where
  "SteamApps_BGetDLCDataByIndex s idx out name_buf_size =
     (if idx <s (word_of_nat (length (dlc s)) :: 32 word) then Inr (False, out)
      else
        let i = unat (scast idx :: 64 word) in
        if i < length (dlc s) then
          let (ident, name) = dlc s ! i;
              out1 = out\<lparr>out_app_id := ident, out_available := True\<rparr>
          in if 0 <s name_buf_size then
               let n = string_copy name (unat (name_buf_size - 1)) in
               Inr (True, out1\<lparr>name_buf :=
                      take n name @ [CHR 0x00] @ drop (Suc n) (name_buf out1)\<rparr>)
             else Inr (True, out1)
        else Inl (OutOfBoundsRead (sint idx)))"

subsection \<open>Version words and the ISteamApps shape (\<^verbatim>\<open>steam_api.cpp\<close>, lines 364--382)\<close>

definition max_supported_ver :: version where
  "max_supported_ver = 0x0009003C002C000A"

definition ISteamApps_num_methods_at :: "version \<Rightarrow> nat" where
  "ISteamApps_num_methods_at ver =
     (if ver \<ge> 0x0003002A003D0042 then 33
      else if ver \<ge> 0x0002003B0033002B then 24
      else if ver \<ge> 0x00010062001F0049 then 22
      else if ver \<ge> 0x0001001E0032002E then 20
      else if ver \<ge> 0x0000006000210030 then 14
      else 8)"

text \<open>
  The resolution algorithm in the specification's words (section 4.2): scan the ordered
  records top to bottom and return the first whose threshold is at most the version.
  \<open>ISteamApps_shape_table\<close> lists the thresholds of the source's chain in its order,
  the final \<^verbatim>\<open>else\<close> as threshold 0.
\<close>

fun spec_resolve :: "(version \<times> nat) list \<Rightarrow> version \<Rightarrow> (version \<times> nat) option" where
  "spec_resolve [] v = None"
| "spec_resolve ((t, n) # rs) v = (if t \<le> v then Some (t, n) else spec_resolve rs v)"


subsection \<open>Virtual method enumerations (\<^verbatim>\<open>steam_api.hpp\<close>)\<close>

text \<open>
  Each enumerator is its numeric value; the last one of an enumeration is the number of
  methods in the highest supported interface version.
\<close>

named_theorems enum_defs \<open>values of the virtual method enumerators\<close>

definition ISteamApps_m_BIsSubscribed :: nat where [enum_defs]: "ISteamApps_m_BIsSubscribed = 0"
definition ISteamApps_m_BIsLowViolence :: nat where [enum_defs]: "ISteamApps_m_BIsLowViolence = 1"
definition ISteamApps_m_BIsCybercafe :: nat where [enum_defs]: "ISteamApps_m_BIsCybercafe = 2"
definition ISteamApps_m_BIsVACBanned :: nat where [enum_defs]: "ISteamApps_m_BIsVACBanned = 3"
definition ISteamApps_m_GetCurrentGameLanguage :: nat where [enum_defs]: "ISteamApps_m_GetCurrentGameLanguage = 4"
definition ISteamApps_m_GetAvailableGameLanguages :: nat where [enum_defs]: "ISteamApps_m_GetAvailableGameLanguages = 5"
definition ISteamApps_m_BIsSubscribedApp :: nat where [enum_defs]: "ISteamApps_m_BIsSubscribedApp = 6"
definition ISteamApps_m_BIsDlcInstalled :: nat where [enum_defs]: "ISteamApps_m_BIsDlcInstalled = 7"
definition ISteamApps_m_GetEarliestPurchaseUnixTime :: nat where [enum_defs]: "ISteamApps_m_GetEarliestPurchaseUnixTime = 8"
definition ISteamApps_m_BIsSubscribedFromFreeWeekend :: nat where [enum_defs]: "ISteamApps_m_BIsSubscribedFromFreeWeekend = 9"
definition ISteamApps_m_GetDLCCount :: nat where [enum_defs]: "ISteamApps_m_GetDLCCount = 10"
definition ISteamApps_m_BGetDLCDataByIndex :: nat where [enum_defs]: "ISteamApps_m_BGetDLCDataByIndex = 11"
definition ISteamApps_m_InstallDLC :: nat where [enum_defs]: "ISteamApps_m_InstallDLC = 12"
definition ISteamApps_m_UninstallDLC :: nat where [enum_defs]: "ISteamApps_m_UninstallDLC = 13"
definition ISteamApps_m_RequestAppProofOfPurchaseKey :: nat where [enum_defs]: "ISteamApps_m_RequestAppProofOfPurchaseKey = 14"
definition ISteamApps_m_GetCurrentBetaName :: nat where [enum_defs]: "ISteamApps_m_GetCurrentBetaName = 15"
definition ISteamApps_m_MarkContentCorrupt :: nat where [enum_defs]: "ISteamApps_m_MarkContentCorrupt = 16"
definition ISteamApps_m_GetInstalledDepots :: nat where [enum_defs]: "ISteamApps_m_GetInstalledDepots = 17"
definition ISteamApps_m_GetAppInstallDir :: nat where [enum_defs]: "ISteamApps_m_GetAppInstallDir = 18"
definition ISteamApps_m_BIsAppInstalled :: nat where [enum_defs]: "ISteamApps_m_BIsAppInstalled = 19"
definition ISteamApps_m_GetAppOwner :: nat where [enum_defs]: "ISteamApps_m_GetAppOwner = 20"
definition ISteamApps_m_GetLaunchQueryParam :: nat where [enum_defs]: "ISteamApps_m_GetLaunchQueryParam = 21"
definition ISteamApps_m_GetDlcDownloadProgress :: nat where [enum_defs]: "ISteamApps_m_GetDlcDownloadProgress = 22"
definition ISteamApps_m_GetAppBuildId :: nat where [enum_defs]: "ISteamApps_m_GetAppBuildId = 23"
definition ISteamApps_m_RequestAllProofOfPurchaseKeys :: nat where [enum_defs]: "ISteamApps_m_RequestAllProofOfPurchaseKeys = 24"
definition ISteamApps_m_GetFileDetails :: nat where [enum_defs]: "ISteamApps_m_GetFileDetails = 25"
definition ISteamApps_m_GetLaunchCommandLine :: nat where [enum_defs]: "ISteamApps_m_GetLaunchCommandLine = 26"
definition ISteamApps_m_BIsSubscribedFromFamilySharing :: nat where [enum_defs]: "ISteamApps_m_BIsSubscribedFromFamilySharing = 27"
definition ISteamApps_m_BIsTimedTrial :: nat where [enum_defs]: "ISteamApps_m_BIsTimedTrial = 28"
definition ISteamApps_m_SetDlcContext :: nat where [enum_defs]: "ISteamApps_m_SetDlcContext = 29"
definition ISteamApps_m_GetNumBetas :: nat where [enum_defs]: "ISteamApps_m_GetNumBetas = 30"
definition ISteamApps_m_GetBetaInfo :: nat where [enum_defs]: "ISteamApps_m_GetBetaInfo = 31"
definition ISteamApps_m_SetActiveBeta :: nat where [enum_defs]: "ISteamApps_m_SetActiveBeta = 32"
definition ISteamApps_num_methods :: nat where [enum_defs]: "ISteamApps_num_methods = 33"

definition ISteamMatchmaking_m_GetFavoriteGameCount :: nat where [enum_defs]: "ISteamMatchmaking_m_GetFavoriteGameCount = 0"
definition ISteamMatchmaking_m_GetFavoriteGame :: nat where [enum_defs]: "ISteamMatchmaking_m_GetFavoriteGame = 1"
definition ISteamMatchmaking_m_AddFavoriteGame :: nat where [enum_defs]: "ISteamMatchmaking_m_AddFavoriteGame = 2"
definition ISteamMatchmaking_m_RemoveFavoriteGame :: nat where [enum_defs]: "ISteamMatchmaking_m_RemoveFavoriteGame = 3"
definition ISteamMatchmaking_m_RequestLobbyList :: nat where [enum_defs]: "ISteamMatchmaking_m_RequestLobbyList = 4"
definition ISteamMatchmaking_m_AddRequestLobbyListStringFilter :: nat where [enum_defs]: "ISteamMatchmaking_m_AddRequestLobbyListStringFilter = 5"
definition ISteamMatchmaking_m_AddRequestLobbyListNumericalFilter :: nat where [enum_defs]: "ISteamMatchmaking_m_AddRequestLobbyListNumericalFilter = 6"
definition ISteamMatchmaking_m_AddRequestLobbyListNearValueFilter :: nat where [enum_defs]: "ISteamMatchmaking_m_AddRequestLobbyListNearValueFilter = 7"
definition ISteamMatchmaking_m_AddRequestLobbyListFilterSlotsAvailable :: nat where [enum_defs]: "ISteamMatchmaking_m_AddRequestLobbyListFilterSlotsAvailable = 8"
definition ISteamMatchmaking_m_AddRequestLobbyListDistanceFilter :: nat where [enum_defs]: "ISteamMatchmaking_m_AddRequestLobbyListDistanceFilter = 9"
definition ISteamMatchmaking_m_AddRequestLobbyListResultCountFilter :: nat where [enum_defs]: "ISteamMatchmaking_m_AddRequestLobbyListResultCountFilter = 10"
definition ISteamMatchmaking_m_AddRequestLobbyListCompatibleMembersFilter :: nat where [enum_defs]: "ISteamMatchmaking_m_AddRequestLobbyListCompatibleMembersFilter = 11"
definition ISteamMatchmaking_m_GetLobbyByIndex :: nat where [enum_defs]: "ISteamMatchmaking_m_GetLobbyByIndex = 12"
definition ISteamMatchmaking_m_CreateLobby :: nat where [enum_defs]: "ISteamMatchmaking_m_CreateLobby = 13"
definition ISteamMatchmaking_m_JoinLobby :: nat where [enum_defs]: "ISteamMatchmaking_m_JoinLobby = 14"
definition ISteamMatchmaking_m_LeaveLobby :: nat where [enum_defs]: "ISteamMatchmaking_m_LeaveLobby = 15"
definition ISteamMatchmaking_m_InviteUserToLobby :: nat where [enum_defs]: "ISteamMatchmaking_m_InviteUserToLobby = 16"
definition ISteamMatchmaking_m_GetNumLobbyMembers :: nat where [enum_defs]: "ISteamMatchmaking_m_GetNumLobbyMembers = 17"
definition ISteamMatchmaking_m_GetLobbyMemberByIndex :: nat where [enum_defs]: "ISteamMatchmaking_m_GetLobbyMemberByIndex = 18"
definition ISteamMatchmaking_m_GetLobbyData :: nat where [enum_defs]: "ISteamMatchmaking_m_GetLobbyData = 19"
definition ISteamMatchmaking_m_SetLobbyData :: nat where [enum_defs]: "ISteamMatchmaking_m_SetLobbyData = 20"
definition ISteamMatchmaking_m_GetLobbyDataCount :: nat where [enum_defs]: "ISteamMatchmaking_m_GetLobbyDataCount = 21"
definition ISteamMatchmaking_m_GetLobbyDataByIndex :: nat where [enum_defs]: "ISteamMatchmaking_m_GetLobbyDataByIndex = 22"
definition ISteamMatchmaking_m_DeleteLobbyData :: nat where [enum_defs]: "ISteamMatchmaking_m_DeleteLobbyData = 23"
definition ISteamMatchmaking_m_GetLobbyMemberData :: nat where [enum_defs]: "ISteamMatchmaking_m_GetLobbyMemberData = 24"
definition ISteamMatchmaking_m_SetLobbyMemberData :: nat where [enum_defs]: "ISteamMatchmaking_m_SetLobbyMemberData = 25"
definition ISteamMatchmaking_m_SendLobbyChatMsg :: nat where [enum_defs]: "ISteamMatchmaking_m_SendLobbyChatMsg = 26"
definition ISteamMatchmaking_m_GetLobbyChatEntry :: nat where [enum_defs]: "ISteamMatchmaking_m_GetLobbyChatEntry = 27"
definition ISteamMatchmaking_m_RequestLobbyData :: nat where [enum_defs]: "ISteamMatchmaking_m_RequestLobbyData = 28"
definition ISteamMatchmaking_m_SetLobbyGameServer :: nat where [enum_defs]: "ISteamMatchmaking_m_SetLobbyGameServer = 29"
definition ISteamMatchmaking_m_GetLobbyGameServer :: nat where [enum_defs]: "ISteamMatchmaking_m_GetLobbyGameServer = 30"
definition ISteamMatchmaking_m_SetLobbyMemberLimit :: nat where [enum_defs]: "ISteamMatchmaking_m_SetLobbyMemberLimit = 31"
definition ISteamMatchmaking_m_GetLobbyMemberLimit :: nat where [enum_defs]: "ISteamMatchmaking_m_GetLobbyMemberLimit = 32"
definition ISteamMatchmaking_m_SetLobbyType :: nat where [enum_defs]: "ISteamMatchmaking_m_SetLobbyType = 33"
definition ISteamMatchmaking_m_SetLobbyJoinable :: nat where [enum_defs]: "ISteamMatchmaking_m_SetLobbyJoinable = 34"
definition ISteamMatchmaking_m_GetLobbyOwner :: nat where [enum_defs]: "ISteamMatchmaking_m_GetLobbyOwner = 35"
definition ISteamMatchmaking_m_SetLobbyOwner :: nat where [enum_defs]: "ISteamMatchmaking_m_SetLobbyOwner = 36"
definition ISteamMatchmaking_m_SetLinkedLobby :: nat where [enum_defs]: "ISteamMatchmaking_m_SetLinkedLobby = 37"
definition ISteamMatchmaking_num_methods :: nat where [enum_defs]: "ISteamMatchmaking_num_methods = 38"

definition ISteamMatchmakingServers_m_RequestInternetServerList :: nat where [enum_defs]: "ISteamMatchmakingServers_m_RequestInternetServerList = 0"
definition ISteamMatchmakingServers_m_RequestLANServerList :: nat where [enum_defs]: "ISteamMatchmakingServers_m_RequestLANServerList = 1"
definition ISteamMatchmakingServers_m_RequestFriendsServerList :: nat where [enum_defs]: "ISteamMatchmakingServers_m_RequestFriendsServerList = 2"
definition ISteamMatchmakingServers_m_RequestFavoritesServerList :: nat where [enum_defs]: "ISteamMatchmakingServers_m_RequestFavoritesServerList = 3"
definition ISteamMatchmakingServers_m_RequestHistoryServerList :: nat where [enum_defs]: "ISteamMatchmakingServers_m_RequestHistoryServerList = 4"
definition ISteamMatchmakingServers_m_RequestSpectatorServerList :: nat where [enum_defs]: "ISteamMatchmakingServers_m_RequestSpectatorServerList = 5"
definition ISteamMatchmakingServers_m_ReleaseRequest :: nat where [enum_defs]: "ISteamMatchmakingServers_m_ReleaseRequest = 6"
definition ISteamMatchmakingServers_m_GetServerDetails :: nat where [enum_defs]: "ISteamMatchmakingServers_m_GetServerDetails = 7"
definition ISteamMatchmakingServers_m_CancelQuery :: nat where [enum_defs]: "ISteamMatchmakingServers_m_CancelQuery = 8"
definition ISteamMatchmakingServers_m_RefreshQuery :: nat where [enum_defs]: "ISteamMatchmakingServers_m_RefreshQuery = 9"
definition ISteamMatchmakingServers_m_IsRefreshing :: nat where [enum_defs]: "ISteamMatchmakingServers_m_IsRefreshing = 10"
definition ISteamMatchmakingServers_m_GetServerCount :: nat where [enum_defs]: "ISteamMatchmakingServers_m_GetServerCount = 11"
definition ISteamMatchmakingServers_m_RefreshServer :: nat where [enum_defs]: "ISteamMatchmakingServers_m_RefreshServer = 12"
definition ISteamMatchmakingServers_m_PingServer :: nat where [enum_defs]: "ISteamMatchmakingServers_m_PingServer = 13"
definition ISteamMatchmakingServers_m_PlayerDetails :: nat where [enum_defs]: "ISteamMatchmakingServers_m_PlayerDetails = 14"
definition ISteamMatchmakingServers_m_ServerRules :: nat where [enum_defs]: "ISteamMatchmakingServers_m_ServerRules = 15"
definition ISteamMatchmakingServers_m_CancelServerQuery :: nat where [enum_defs]: "ISteamMatchmakingServers_m_CancelServerQuery = 16"
definition ISteamMatchmakingServers_num_methods :: nat where [enum_defs]: "ISteamMatchmakingServers_num_methods = 17"

definition ISteamUGC_m_CreateQueryUserUGCRequest :: nat where [enum_defs]: "ISteamUGC_m_CreateQueryUserUGCRequest = 0"
definition ISteamUGC_m_CreateQueryAllUGCRequestCursor :: nat where [enum_defs]: "ISteamUGC_m_CreateQueryAllUGCRequestCursor = 1"
definition ISteamUGC_m_CreateQueryAllUGCRequestPage :: nat where [enum_defs]: "ISteamUGC_m_CreateQueryAllUGCRequestPage = 2"
definition ISteamUGC_m_CreateQueryUGCDetailsRequest :: nat where [enum_defs]: "ISteamUGC_m_CreateQueryUGCDetailsRequest = 3"
definition ISteamUGC_m_SendQueryUGCRequest :: nat where [enum_defs]: "ISteamUGC_m_SendQueryUGCRequest = 4"
definition ISteamUGC_m_GetQueryUGCResult :: nat where [enum_defs]: "ISteamUGC_m_GetQueryUGCResult = 5"
definition ISteamUGC_m_GetQueryUGCNumTags :: nat where [enum_defs]: "ISteamUGC_m_GetQueryUGCNumTags = 6"
definition ISteamUGC_m_GetQueryUGCTag :: nat where [enum_defs]: "ISteamUGC_m_GetQueryUGCTag = 7"
definition ISteamUGC_m_GetQueryUGCTagDisplayName :: nat where [enum_defs]: "ISteamUGC_m_GetQueryUGCTagDisplayName = 8"
definition ISteamUGC_m_GetQueryUGCPreviewURL :: nat where [enum_defs]: "ISteamUGC_m_GetQueryUGCPreviewURL = 9"
definition ISteamUGC_m_GetQueryUGCMetadata :: nat where [enum_defs]: "ISteamUGC_m_GetQueryUGCMetadata = 10"
definition ISteamUGC_m_GetQueryUGCChildren :: nat where [enum_defs]: "ISteamUGC_m_GetQueryUGCChildren = 11"
definition ISteamUGC_m_GetQueryUGCStatistic :: nat where [enum_defs]: "ISteamUGC_m_GetQueryUGCStatistic = 12"
definition ISteamUGC_m_GetQueryUGCNumAdditionalPreviews :: nat where [enum_defs]: "ISteamUGC_m_GetQueryUGCNumAdditionalPreviews = 13"
definition ISteamUGC_m_GetQueryUGCAdditionalPreview :: nat where [enum_defs]: "ISteamUGC_m_GetQueryUGCAdditionalPreview = 14"
definition ISteamUGC_m_GetQueryUGCNumKeyValueTags :: nat where [enum_defs]: "ISteamUGC_m_GetQueryUGCNumKeyValueTags = 15"
definition ISteamUGC_m_GetQueryFirstUGCKeyValueTag :: nat where [enum_defs]: "ISteamUGC_m_GetQueryFirstUGCKeyValueTag = 16"
definition ISteamUGC_m_GetQueryUGCKeyValueTag :: nat where [enum_defs]: "ISteamUGC_m_GetQueryUGCKeyValueTag = 17"
definition ISteamUGC_m_GetNumSupportedGameVersions :: nat where [enum_defs]: "ISteamUGC_m_GetNumSupportedGameVersions = 18"
definition ISteamUGC_m_GetSupportedGameVersionData :: nat where [enum_defs]: "ISteamUGC_m_GetSupportedGameVersionData = 19"
definition ISteamUGC_m_GetQueryUGCContentDescriptors :: nat where [enum_defs]: "ISteamUGC_m_GetQueryUGCContentDescriptors = 20"
definition ISteamUGC_m_ReleaseQueryUGCRequest :: nat where [enum_defs]: "ISteamUGC_m_ReleaseQueryUGCRequest = 21"
definition ISteamUGC_m_AddRequiredTag :: nat where [enum_defs]: "ISteamUGC_m_AddRequiredTag = 22"
definition ISteamUGC_m_AddRequiredTagGroup :: nat where [enum_defs]: "ISteamUGC_m_AddRequiredTagGroup = 23"
definition ISteamUGC_m_AddExcludedTag :: nat where [enum_defs]: "ISteamUGC_m_AddExcludedTag = 24"
definition ISteamUGC_m_SetReturnOnlyIDs :: nat where [enum_defs]: "ISteamUGC_m_SetReturnOnlyIDs = 25"
definition ISteamUGC_m_SetReturnKeyValueTags :: nat where [enum_defs]: "ISteamUGC_m_SetReturnKeyValueTags = 26"
definition ISteamUGC_m_SetReturnLongDescription :: nat where [enum_defs]: "ISteamUGC_m_SetReturnLongDescription = 27"
definition ISteamUGC_m_SetReturnMetadata :: nat where [enum_defs]: "ISteamUGC_m_SetReturnMetadata = 28"
definition ISteamUGC_m_SetReturnChildren :: nat where [enum_defs]: "ISteamUGC_m_SetReturnChildren = 29"
definition ISteamUGC_m_SetReturnAdditionalPreviews :: nat where [enum_defs]: "ISteamUGC_m_SetReturnAdditionalPreviews = 30"
definition ISteamUGC_m_SetReturnTotalOnly :: nat where [enum_defs]: "ISteamUGC_m_SetReturnTotalOnly = 31"
definition ISteamUGC_m_SetReturnPlaytimeStats :: nat where [enum_defs]: "ISteamUGC_m_SetReturnPlaytimeStats = 32"
definition ISteamUGC_m_SetLanguage :: nat where [enum_defs]: "ISteamUGC_m_SetLanguage = 33"
definition ISteamUGC_m_SetAllowCachedResponse :: nat where [enum_defs]: "ISteamUGC_m_SetAllowCachedResponse = 34"
definition ISteamUGC_m_SetAdminQuery :: nat where [enum_defs]: "ISteamUGC_m_SetAdminQuery = 35"
definition ISteamUGC_m_SetCloudFileNameFilter :: nat where [enum_defs]: "ISteamUGC_m_SetCloudFileNameFilter = 36"
definition ISteamUGC_m_SetMatchAnyTag :: nat where [enum_defs]: "ISteamUGC_m_SetMatchAnyTag = 37"
definition ISteamUGC_m_SetSearchText :: nat where [enum_defs]: "ISteamUGC_m_SetSearchText = 38"
definition ISteamUGC_m_SetRankedByTrendDays :: nat where [enum_defs]: "ISteamUGC_m_SetRankedByTrendDays = 39"
definition ISteamUGC_m_SetTimeCreatedDateRange :: nat where [enum_defs]: "ISteamUGC_m_SetTimeCreatedDateRange = 40"
definition ISteamUGC_m_SetTimeUpdatedDateRange :: nat where [enum_defs]: "ISteamUGC_m_SetTimeUpdatedDateRange = 41"
definition ISteamUGC_m_AddRequiredKeyValueTag :: nat where [enum_defs]: "ISteamUGC_m_AddRequiredKeyValueTag = 42"
definition ISteamUGC_m_RequestUGCDetails :: nat where [enum_defs]: "ISteamUGC_m_RequestUGCDetails = 43"
definition ISteamUGC_m_CreateItem :: nat where [enum_defs]: "ISteamUGC_m_CreateItem = 44"
definition ISteamUGC_m_StartItemUpdate :: nat where [enum_defs]: "ISteamUGC_m_StartItemUpdate = 45"
definition ISteamUGC_m_SetItemTitle :: nat where [enum_defs]: "ISteamUGC_m_SetItemTitle = 46"
definition ISteamUGC_m_SetItemDescription :: nat where [enum_defs]: "ISteamUGC_m_SetItemDescription = 47"
definition ISteamUGC_m_SetItemUpdateLanguage :: nat where [enum_defs]: "ISteamUGC_m_SetItemUpdateLanguage = 48"
definition ISteamUGC_m_SetItemMetadata :: nat where [enum_defs]: "ISteamUGC_m_SetItemMetadata = 49"
definition ISteamUGC_m_SetItemVisibility :: nat where [enum_defs]: "ISteamUGC_m_SetItemVisibility = 50"
definition ISteamUGC_m_SetItemTags :: nat where [enum_defs]: "ISteamUGC_m_SetItemTags = 51"
definition ISteamUGC_m_SetItemContent :: nat where [enum_defs]: "ISteamUGC_m_SetItemContent = 52"
definition ISteamUGC_m_SetItemPreview :: nat where [enum_defs]: "ISteamUGC_m_SetItemPreview = 53"
definition ISteamUGC_m_SetAllowLegacyUpload :: nat where [enum_defs]: "ISteamUGC_m_SetAllowLegacyUpload = 54"
definition ISteamUGC_m_RemoveAllItemKeyValueTags :: nat where [enum_defs]: "ISteamUGC_m_RemoveAllItemKeyValueTags = 55"
definition ISteamUGC_m_RemoveItemKeyValueTags :: nat where [enum_defs]: "ISteamUGC_m_RemoveItemKeyValueTags = 56"
definition ISteamUGC_m_AddItemKeyValueTag :: nat where [enum_defs]: "ISteamUGC_m_AddItemKeyValueTag = 57"
definition ISteamUGC_m_AddItemPreviewFile :: nat where [enum_defs]: "ISteamUGC_m_AddItemPreviewFile = 58"
definition ISteamUGC_m_AddItemPreviewVideo :: nat where [enum_defs]: "ISteamUGC_m_AddItemPreviewVideo = 59"
definition ISteamUGC_m_UpdateItemPreviewFile :: nat where [enum_defs]: "ISteamUGC_m_UpdateItemPreviewFile = 60"
definition ISteamUGC_m_UpdateItemPreviewVideo :: nat where [enum_defs]: "ISteamUGC_m_UpdateItemPreviewVideo = 61"
definition ISteamUGC_m_RemoveItemPreview :: nat where [enum_defs]: "ISteamUGC_m_RemoveItemPreview = 62"
definition ISteamUGC_m_AddContentDescriptor :: nat where [enum_defs]: "ISteamUGC_m_AddContentDescriptor = 63"
definition ISteamUGC_m_RemoveContentDescriptor :: nat where [enum_defs]: "ISteamUGC_m_RemoveContentDescriptor = 64"
definition ISteamUGC_m_SetRequiredGameVersions :: nat where [enum_defs]: "ISteamUGC_m_SetRequiredGameVersions = 65"
definition ISteamUGC_m_SubmitItemUpdate :: nat where [enum_defs]: "ISteamUGC_m_SubmitItemUpdate = 66"
definition ISteamUGC_m_GetItemUpdateProgress :: nat where [enum_defs]: "ISteamUGC_m_GetItemUpdateProgress = 67"
definition ISteamUGC_m_SetUserItemVote :: nat where [enum_defs]: "ISteamUGC_m_SetUserItemVote = 68"
definition ISteamUGC_m_GetUserItemVote :: nat where [enum_defs]: "ISteamUGC_m_GetUserItemVote = 69"
definition ISteamUGC_m_AddItemToFavorites :: nat where [enum_defs]: "ISteamUGC_m_AddItemToFavorites = 70"
definition ISteamUGC_m_RemoveItemFromFavorites :: nat where [enum_defs]: "ISteamUGC_m_RemoveItemFromFavorites = 71"
definition ISteamUGC_m_SubscribeItem :: nat where [enum_defs]: "ISteamUGC_m_SubscribeItem = 72"
definition ISteamUGC_m_UnsubscribeItem :: nat where [enum_defs]: "ISteamUGC_m_UnsubscribeItem = 73"
definition ISteamUGC_m_GetNumSubscribedItems :: nat where [enum_defs]: "ISteamUGC_m_GetNumSubscribedItems = 74"
definition ISteamUGC_m_GetSubscribedItems :: nat where [enum_defs]: "ISteamUGC_m_GetSubscribedItems = 75"
definition ISteamUGC_m_GetItemState :: nat where [enum_defs]: "ISteamUGC_m_GetItemState = 76"
definition ISteamUGC_m_GetItemInstallInfo :: nat where [enum_defs]: "ISteamUGC_m_GetItemInstallInfo = 77"
definition ISteamUGC_m_GetItemDownloadInfo :: nat where [enum_defs]: "ISteamUGC_m_GetItemDownloadInfo = 78"
definition ISteamUGC_m_GetItemUpdateInfo :: nat where [enum_defs]: "ISteamUGC_m_GetItemUpdateInfo = ISteamUGC_m_GetItemDownloadInfo"
definition ISteamUGC_m_DownloadItem :: nat where [enum_defs]: "ISteamUGC_m_DownloadItem = 79"
definition ISteamUGC_m_BInitWorkshopForGameServer :: nat where [enum_defs]: "ISteamUGC_m_BInitWorkshopForGameServer = 80"
definition ISteamUGC_m_SuspendDownloads :: nat where [enum_defs]: "ISteamUGC_m_SuspendDownloads = 81"
definition ISteamUGC_m_StartPlaytimeTracking :: nat where [enum_defs]: "ISteamUGC_m_StartPlaytimeTracking = 82"
definition ISteamUGC_m_StopPlaytimeTracking :: nat where [enum_defs]: "ISteamUGC_m_StopPlaytimeTracking = 83"
definition ISteamUGC_m_StopPlaytimeTrackingForAllItems :: nat where [enum_defs]: "ISteamUGC_m_StopPlaytimeTrackingForAllItems = 84"
definition ISteamUGC_m_AddDependency :: nat where [enum_defs]: "ISteamUGC_m_AddDependency = 85"
definition ISteamUGC_m_RemoveDependency :: nat where [enum_defs]: "ISteamUGC_m_RemoveDependency = 86"
definition ISteamUGC_m_AddAppDependency :: nat where [enum_defs]: "ISteamUGC_m_AddAppDependency = 87"
definition ISteamUGC_m_RemoveAppDependency :: nat where [enum_defs]: "ISteamUGC_m_RemoveAppDependency = 88"
definition ISteamUGC_m_GetAppDependencies :: nat where [enum_defs]: "ISteamUGC_m_GetAppDependencies = 89"
definition ISteamUGC_m_DeleteItem :: nat where [enum_defs]: "ISteamUGC_m_DeleteItem = 90"
definition ISteamUGC_m_ShowWorkshopEULA :: nat where [enum_defs]: "ISteamUGC_m_ShowWorkshopEULA = 91"
definition ISteamUGC_m_GetWorkshopEULAStatus :: nat where [enum_defs]: "ISteamUGC_m_GetWorkshopEULAStatus = 92"
definition ISteamUGC_m_GetUserContentDescriptorPreferences :: nat where [enum_defs]: "ISteamUGC_m_GetUserContentDescriptorPreferences = 93"
definition ISteamUGC_m_SetItemsDisabledLocally :: nat where [enum_defs]: "ISteamUGC_m_SetItemsDisabledLocally = 94"
definition ISteamUGC_m_SetSubscriptionsLoadOrder :: nat where [enum_defs]: "ISteamUGC_m_SetSubscriptionsLoadOrder = 95"
definition ISteamUGC_num_methods :: nat where [enum_defs]: "ISteamUGC_num_methods = 96"

definition ISteamUser_m_GetHSteamUser :: nat where [enum_defs]: "ISteamUser_m_GetHSteamUser = 0"
definition ISteamUser_m_BLoggedOn :: nat where [enum_defs]: "ISteamUser_m_BLoggedOn = 1"
definition ISteamUser_m_GetSteamID :: nat where [enum_defs]: "ISteamUser_m_GetSteamID = 2"
definition ISteamUser_m_InitiateGameConnection :: nat where [enum_defs]: "ISteamUser_m_InitiateGameConnection = 3"
definition ISteamUser_m_TerminateGameConnection :: nat where [enum_defs]: "ISteamUser_m_TerminateGameConnection = 4"
definition ISteamUser_m_TrackAppUsageEvent :: nat where [enum_defs]: "ISteamUser_m_TrackAppUsageEvent = 5"
definition ISteamUser_m_GetUserDataFolder :: nat where [enum_defs]: "ISteamUser_m_GetUserDataFolder = 6"
definition ISteamUser_m_StartVoiceRecording :: nat where [enum_defs]: "ISteamUser_m_StartVoiceRecording = 7"
definition ISteamUser_m_StopVoiceRecording :: nat where [enum_defs]: "ISteamUser_m_StopVoiceRecording = 8"
definition ISteamUser_m_GetAvailableVoice :: nat where [enum_defs]: "ISteamUser_m_GetAvailableVoice = 9"
definition ISteamUser_m_GetVoice :: nat where [enum_defs]: "ISteamUser_m_GetVoice = 10"
definition ISteamUser_m_DecompressVoice :: nat where [enum_defs]: "ISteamUser_m_DecompressVoice = 11"
definition ISteamUser_m_GetVoiceOptimalSampleRate :: nat where [enum_defs]: "ISteamUser_m_GetVoiceOptimalSampleRate = 12"
definition ISteamUser_m_GetAuthSessionTicket :: nat where [enum_defs]: "ISteamUser_m_GetAuthSessionTicket = 13"
definition ISteamUser_m_GetAuthTicketForWebApi :: nat where [enum_defs]: "ISteamUser_m_GetAuthTicketForWebApi = 14"
definition ISteamUser_m_BeginAuthSession :: nat where [enum_defs]: "ISteamUser_m_BeginAuthSession = 15"
definition ISteamUser_m_EndAuthSession :: nat where [enum_defs]: "ISteamUser_m_EndAuthSession = 16"
definition ISteamUser_m_CancelAuthTicket :: nat where [enum_defs]: "ISteamUser_m_CancelAuthTicket = 17"
definition ISteamUser_m_UserHasLicenseForApp :: nat where [enum_defs]: "ISteamUser_m_UserHasLicenseForApp = 18"
definition ISteamUser_m_BIsBehindNAT :: nat where [enum_defs]: "ISteamUser_m_BIsBehindNAT = 19"
definition ISteamUser_m_AdvertiseGame :: nat where [enum_defs]: "ISteamUser_m_AdvertiseGame = 20"
definition ISteamUser_m_RequestEncryptedAppTicket :: nat where [enum_defs]: "ISteamUser_m_RequestEncryptedAppTicket = 21"
definition ISteamUser_m_GetEncryptedAppTicket :: nat where [enum_defs]: "ISteamUser_m_GetEncryptedAppTicket = 22"
definition ISteamUser_m_GetGameBadgeLevel :: nat where [enum_defs]: "ISteamUser_m_GetGameBadgeLevel = 23"
definition ISteamUser_m_GetPlayerSteamLevel :: nat where [enum_defs]: "ISteamUser_m_GetPlayerSteamLevel = 24"
definition ISteamUser_m_RequestStoreAuthURL :: nat where [enum_defs]: "ISteamUser_m_RequestStoreAuthURL = 25"
definition ISteamUser_m_BIsPhoneVerified :: nat where [enum_defs]: "ISteamUser_m_BIsPhoneVerified = 26"
definition ISteamUser_m_BIsTwoFactorEnabled :: nat where [enum_defs]: "ISteamUser_m_BIsTwoFactorEnabled = 27"
definition ISteamUser_m_BIsPhoneIdentifying :: nat where [enum_defs]: "ISteamUser_m_BIsPhoneIdentifying = 28"
definition ISteamUser_m_BIsPhoneRequiringVerification :: nat where [enum_defs]: "ISteamUser_m_BIsPhoneRequiringVerification = 29"
definition ISteamUser_m_GetMarketEligibility :: nat where [enum_defs]: "ISteamUser_m_GetMarketEligibility = 30"
definition ISteamUser_m_GetDurationControl :: nat where [enum_defs]: "ISteamUser_m_GetDurationControl = 31"
definition ISteamUser_m_BSetDurationControlOnlineState :: nat where [enum_defs]: "ISteamUser_m_BSetDurationControlOnlineState = 32"
definition ISteamUser_num_methods :: nat where [enum_defs]: "ISteamUser_num_methods = 33"

definition ISteamUtils_m_GetSecondsSinceAppActive :: nat where [enum_defs]: "ISteamUtils_m_GetSecondsSinceAppActive = 0"
definition ISteamUtils_m_GetSecondsSinceComputerActive :: nat where [enum_defs]: "ISteamUtils_m_GetSecondsSinceComputerActive = 1"
definition ISteamUtils_m_GetConnectedUniverse :: nat where [enum_defs]: "ISteamUtils_m_GetConnectedUniverse = 2"
definition ISteamUtils_m_GetServerRealTime :: nat where [enum_defs]: "ISteamUtils_m_GetServerRealTime = 3"
definition ISteamUtils_m_GetIPCountry :: nat where [enum_defs]: "ISteamUtils_m_GetIPCountry = 4"
definition ISteamUtils_m_GetImageSize :: nat where [enum_defs]: "ISteamUtils_m_GetImageSize = 5"
definition ISteamUtils_m_GetImageRGBA :: nat where [enum_defs]: "ISteamUtils_m_GetImageRGBA = 6"
definition ISteamUtils_m_GetCSERIPPort :: nat where [enum_defs]: "ISteamUtils_m_GetCSERIPPort = 7"
definition ISteamUtils_m_GetCurrentBatteryPower :: nat where [enum_defs]: "ISteamUtils_m_GetCurrentBatteryPower = 8"
definition ISteamUtils_m_GetAppID :: nat where [enum_defs]: "ISteamUtils_m_GetAppID = 9"
definition ISteamUtils_m_SetOverlayNotificationPosition :: nat where [enum_defs]: "ISteamUtils_m_SetOverlayNotificationPosition = 10"
definition ISteamUtils_m_IsAPICallCompleted :: nat where [enum_defs]: "ISteamUtils_m_IsAPICallCompleted = 11"
definition ISteamUtils_m_GetAPICallFailureReason :: nat where [enum_defs]: "ISteamUtils_m_GetAPICallFailureReason = 12"
definition ISteamUtils_m_GetAPICallResult :: nat where [enum_defs]: "ISteamUtils_m_GetAPICallResult = 13"
definition ISteamUtils_m_RunFrame :: nat where [enum_defs]: "ISteamUtils_m_RunFrame = 14"
definition ISteamUtils_m_GetIPCCallCount :: nat where [enum_defs]: "ISteamUtils_m_GetIPCCallCount = 15"
definition ISteamUtils_m_SetWarningMessageHook :: nat where [enum_defs]: "ISteamUtils_m_SetWarningMessageHook = 16"
definition ISteamUtils_m_IsOverlayEnabled :: nat where [enum_defs]: "ISteamUtils_m_IsOverlayEnabled = 17"
definition ISteamUtils_m_BOverlayNeedsPresent :: nat where [enum_defs]: "ISteamUtils_m_BOverlayNeedsPresent = 18"
definition ISteamUtils_m_CheckFileSignature :: nat where [enum_defs]: "ISteamUtils_m_CheckFileSignature = 19"
definition ISteamUtils_m_ShowGamepadTextInput :: nat where [enum_defs]: "ISteamUtils_m_ShowGamepadTextInput = 20"
definition ISteamUtils_m_GetEnteredGamepadTextLength :: nat where [enum_defs]: "ISteamUtils_m_GetEnteredGamepadTextLength = 21"
definition ISteamUtils_m_GetEnteredGamepadTextInput :: nat where [enum_defs]: "ISteamUtils_m_GetEnteredGamepadTextInput = 22"
definition ISteamUtils_m_GetSteamUILanguage :: nat where [enum_defs]: "ISteamUtils_m_GetSteamUILanguage = 23"
definition ISteamUtils_m_IsSteamRunningInVR :: nat where [enum_defs]: "ISteamUtils_m_IsSteamRunningInVR = 24"
definition ISteamUtils_m_SetOverlayNotificationInset :: nat where [enum_defs]: "ISteamUtils_m_SetOverlayNotificationInset = 25"
definition ISteamUtils_m_IsSteamInBigPictureMode :: nat where [enum_defs]: "ISteamUtils_m_IsSteamInBigPictureMode = 26"
definition ISteamUtils_m_StartVRDashboard :: nat where [enum_defs]: "ISteamUtils_m_StartVRDashboard = 27"
definition ISteamUtils_m_IsVRHeadsetStreamingEnabled :: nat where [enum_defs]: "ISteamUtils_m_IsVRHeadsetStreamingEnabled = 28"
definition ISteamUtils_m_SetVRHeadsetStreamingEnabled :: nat where [enum_defs]: "ISteamUtils_m_SetVRHeadsetStreamingEnabled = 29"
definition ISteamUtils_m_IsSteamChinaLauncher :: nat where [enum_defs]: "ISteamUtils_m_IsSteamChinaLauncher = 30"
definition ISteamUtils_m_InitFilterText :: nat where [enum_defs]: "ISteamUtils_m_InitFilterText = 31"
definition ISteamUtils_m_FilterText :: nat where [enum_defs]: "ISteamUtils_m_FilterText = 32"
definition ISteamUtils_m_GetIPv6ConnectivityState :: nat where [enum_defs]: "ISteamUtils_m_GetIPv6ConnectivityState = 33"
definition ISteamUtils_m_IsSteamRunningOnSteamDeck :: nat where [enum_defs]: "ISteamUtils_m_IsSteamRunningOnSteamDeck = 34"
definition ISteamUtils_m_ShowFloatingGamepadTextInput :: nat where [enum_defs]: "ISteamUtils_m_ShowFloatingGamepadTextInput = 35"
definition ISteamUtils_m_SetGameLauncherMode :: nat where [enum_defs]: "ISteamUtils_m_SetGameLauncherMode = 36"
definition ISteamUtils_m_DismissFloatingGamepadTextInput :: nat where [enum_defs]: "ISteamUtils_m_DismissFloatingGamepadTextInput = 37"
definition ISteamUtils_m_DismissGamepadTextInput :: nat where [enum_defs]: "ISteamUtils_m_DismissGamepadTextInput = 38"
definition ISteamUtils_num_methods :: nat where [enum_defs]: "ISteamUtils_num_methods = 39"

subsection \<open>Slot tables of the interface versions (\<^verbatim>\<open>steam_api.cpp\<close>, lines 392--1681)\<close>

text \<open>
  One list per branch that assigns \<^verbatim>\<open>vm_idxs\<close> entry by entry: the pairs
  (enumerator, slot) in the order of the source's assignments. The list is named after
  the interface version the branch's comment gives.
\<close>

definition ISteamMatchmaking_idxs_008 :: "(nat \<times> int) list" where
  "ISteamMatchmaking_idxs_008 =
     [(ISteamMatchmaking_m_GetFavoriteGameCount, 0), (ISteamMatchmaking_m_GetFavoriteGame, 1),
      (ISteamMatchmaking_m_AddFavoriteGame, 2), (ISteamMatchmaking_m_RemoveFavoriteGame, 3),
      (ISteamMatchmaking_m_RequestLobbyList, 4),
      (ISteamMatchmaking_m_AddRequestLobbyListStringFilter, 5),
      (ISteamMatchmaking_m_AddRequestLobbyListNumericalFilter, 6),
      (ISteamMatchmaking_m_AddRequestLobbyListNearValueFilter, 7),
      (ISteamMatchmaking_m_AddRequestLobbyListFilterSlotsAvailable, 8),
      (ISteamMatchmaking_m_AddRequestLobbyListDistanceFilter, 9),
      (ISteamMatchmaking_m_AddRequestLobbyListResultCountFilter, 10),
      (ISteamMatchmaking_m_GetLobbyByIndex, 11), (ISteamMatchmaking_m_CreateLobby, 12),
      (ISteamMatchmaking_m_JoinLobby, 13), (ISteamMatchmaking_m_LeaveLobby, 14),
      (ISteamMatchmaking_m_InviteUserToLobby, 15), (ISteamMatchmaking_m_GetNumLobbyMembers, 16),
      (ISteamMatchmaking_m_GetLobbyMemberByIndex, 17), (ISteamMatchmaking_m_GetLobbyData, 18),
      (ISteamMatchmaking_m_SetLobbyData, 19), (ISteamMatchmaking_m_GetLobbyDataCount, 20),
      (ISteamMatchmaking_m_GetLobbyDataByIndex, 21), (ISteamMatchmaking_m_DeleteLobbyData, 22),
      (ISteamMatchmaking_m_GetLobbyMemberData, 23), (ISteamMatchmaking_m_SetLobbyMemberData, 24),
      (ISteamMatchmaking_m_SendLobbyChatMsg, 25), (ISteamMatchmaking_m_GetLobbyChatEntry, 26),
      (ISteamMatchmaking_m_RequestLobbyData, 27), (ISteamMatchmaking_m_SetLobbyGameServer, 28),
      (ISteamMatchmaking_m_GetLobbyGameServer, 29),
      (ISteamMatchmaking_m_SetLobbyMemberLimit, 30),
      (ISteamMatchmaking_m_GetLobbyMemberLimit, 31), (ISteamMatchmaking_m_SetLobbyType, 32),
      (ISteamMatchmaking_m_SetLobbyJoinable, 33), (ISteamMatchmaking_m_GetLobbyOwner, 34),
      (ISteamMatchmaking_m_SetLobbyOwner, 35)]"

definition ISteamUGC_idxs_018 :: "(nat \<times> int) list" where
  "ISteamUGC_idxs_018 =
     [(ISteamUGC_m_CreateQueryUserUGCRequest, 0),
      (ISteamUGC_m_CreateQueryAllUGCRequestCursor, 1),
      (ISteamUGC_m_CreateQueryAllUGCRequestPage, 2),
      (ISteamUGC_m_CreateQueryUGCDetailsRequest, 3), (ISteamUGC_m_SendQueryUGCRequest, 4),
      (ISteamUGC_m_GetQueryUGCResult, 5), (ISteamUGC_m_GetQueryUGCNumTags, 6),
      (ISteamUGC_m_GetQueryUGCTag, 7), (ISteamUGC_m_GetQueryUGCTagDisplayName, 8),
      (ISteamUGC_m_GetQueryUGCPreviewURL, 9), (ISteamUGC_m_GetQueryUGCMetadata, 10),
      (ISteamUGC_m_GetQueryUGCChildren, 11), (ISteamUGC_m_GetQueryUGCStatistic, 12),
      (ISteamUGC_m_GetQueryUGCNumAdditionalPreviews, 13),
      (ISteamUGC_m_GetQueryUGCAdditionalPreview, 14),
      (ISteamUGC_m_GetQueryUGCNumKeyValueTags, 15),
      (ISteamUGC_m_GetQueryFirstUGCKeyValueTag, 16), (ISteamUGC_m_GetQueryUGCKeyValueTag, 17),
      (ISteamUGC_m_GetQueryUGCContentDescriptors, 18), (ISteamUGC_m_ReleaseQueryUGCRequest, 19),
      (ISteamUGC_m_AddRequiredTag, 20), (ISteamUGC_m_AddRequiredTagGroup, 21),
      (ISteamUGC_m_AddExcludedTag, 22), (ISteamUGC_m_SetReturnOnlyIDs, 23),
      (ISteamUGC_m_SetReturnKeyValueTags, 24), (ISteamUGC_m_SetReturnLongDescription, 25),
      (ISteamUGC_m_SetReturnMetadata, 26), (ISteamUGC_m_SetReturnChildren, 27),
      (ISteamUGC_m_SetReturnAdditionalPreviews, 28), (ISteamUGC_m_SetReturnTotalOnly, 29),
      (ISteamUGC_m_SetReturnPlaytimeStats, 30), (ISteamUGC_m_SetLanguage, 31),
      (ISteamUGC_m_SetAllowCachedResponse, 32), (ISteamUGC_m_SetCloudFileNameFilter, 33),
      (ISteamUGC_m_SetMatchAnyTag, 34), (ISteamUGC_m_SetSearchText, 35),
      (ISteamUGC_m_SetRankedByTrendDays, 36), (ISteamUGC_m_SetTimeCreatedDateRange, 37),
      (ISteamUGC_m_SetTimeUpdatedDateRange, 38), (ISteamUGC_m_AddRequiredKeyValueTag, 39),
      (ISteamUGC_m_RequestUGCDetails, 40), (ISteamUGC_m_CreateItem, 41),
      (ISteamUGC_m_StartItemUpdate, 42), (ISteamUGC_m_SetItemTitle, 43),
      (ISteamUGC_m_SetItemDescription, 44), (ISteamUGC_m_SetItemUpdateLanguage, 45),
      (ISteamUGC_m_SetItemMetadata, 46), (ISteamUGC_m_SetItemVisibility, 47),
      (ISteamUGC_m_SetItemTags, 48), (ISteamUGC_m_SetItemContent, 49),
      (ISteamUGC_m_SetItemPreview, 50), (ISteamUGC_m_SetAllowLegacyUpload, 51),
      (ISteamUGC_m_RemoveAllItemKeyValueTags, 52), (ISteamUGC_m_RemoveItemKeyValueTags, 53),
      (ISteamUGC_m_AddItemKeyValueTag, 54), (ISteamUGC_m_AddItemPreviewFile, 55),
      (ISteamUGC_m_AddItemPreviewVideo, 56), (ISteamUGC_m_UpdateItemPreviewFile, 57),
      (ISteamUGC_m_UpdateItemPreviewVideo, 58), (ISteamUGC_m_RemoveItemPreview, 59),
      (ISteamUGC_m_AddContentDescriptor, 60), (ISteamUGC_m_RemoveContentDescriptor, 61),
      (ISteamUGC_m_SubmitItemUpdate, 62), (ISteamUGC_m_GetItemUpdateProgress, 63),
      (ISteamUGC_m_SetUserItemVote, 64), (ISteamUGC_m_GetUserItemVote, 65),
      (ISteamUGC_m_AddItemToFavorites, 66), (ISteamUGC_m_RemoveItemFromFavorites, 67),
      (ISteamUGC_m_SubscribeItem, 68), (ISteamUGC_m_UnsubscribeItem, 69),
      (ISteamUGC_m_GetNumSubscribedItems, 70), (ISteamUGC_m_GetSubscribedItems, 71),
      (ISteamUGC_m_GetItemState, 72), (ISteamUGC_m_GetItemInstallInfo, 73),
      (ISteamUGC_m_GetItemDownloadInfo, 74), (ISteamUGC_m_DownloadItem, 75),
      (ISteamUGC_m_BInitWorkshopForGameServer, 76), (ISteamUGC_m_SuspendDownloads, 77),
      (ISteamUGC_m_StartPlaytimeTracking, 78), (ISteamUGC_m_StopPlaytimeTracking, 79),
      (ISteamUGC_m_StopPlaytimeTrackingForAllItems, 80), (ISteamUGC_m_AddDependency, 81),
      (ISteamUGC_m_RemoveDependency, 82), (ISteamUGC_m_AddAppDependency, 83),
      (ISteamUGC_m_RemoveAppDependency, 84), (ISteamUGC_m_GetAppDependencies, 85),
      (ISteamUGC_m_DeleteItem, 86), (ISteamUGC_m_ShowWorkshopEULA, 87),
      (ISteamUGC_m_GetWorkshopEULAStatus, 88),
      (ISteamUGC_m_GetUserContentDescriptorPreferences, 89)]"

definition ISteamUGC_idxs_017 :: "(nat \<times> int) list" where
  "ISteamUGC_idxs_017 =
     [(ISteamUGC_m_CreateQueryUserUGCRequest, 0),
      (ISteamUGC_m_CreateQueryAllUGCRequestCursor, 1),
      (ISteamUGC_m_CreateQueryAllUGCRequestPage, 2),
      (ISteamUGC_m_CreateQueryUGCDetailsRequest, 3), (ISteamUGC_m_SendQueryUGCRequest, 4),
      (ISteamUGC_m_GetQueryUGCResult, 5), (ISteamUGC_m_GetQueryUGCNumTags, 6),
      (ISteamUGC_m_GetQueryUGCTag, 7), (ISteamUGC_m_GetQueryUGCTagDisplayName, 8),
      (ISteamUGC_m_GetQueryUGCPreviewURL, 9), (ISteamUGC_m_GetQueryUGCMetadata, 10),
      (ISteamUGC_m_GetQueryUGCChildren, 11), (ISteamUGC_m_GetQueryUGCStatistic, 12),
      (ISteamUGC_m_GetQueryUGCNumAdditionalPreviews, 13),
      (ISteamUGC_m_GetQueryUGCAdditionalPreview, 14),
      (ISteamUGC_m_GetQueryUGCNumKeyValueTags, 15),
      (ISteamUGC_m_GetQueryFirstUGCKeyValueTag, 16), (ISteamUGC_m_GetQueryUGCKeyValueTag, 17),
      (ISteamUGC_m_GetQueryUGCContentDescriptors, 18), (ISteamUGC_m_ReleaseQueryUGCRequest, 19),
      (ISteamUGC_m_AddRequiredTag, 20), (ISteamUGC_m_AddRequiredTagGroup, 21),
      (ISteamUGC_m_AddExcludedTag, 22), (ISteamUGC_m_SetReturnOnlyIDs, 23),
      (ISteamUGC_m_SetReturnKeyValueTags, 24), (ISteamUGC_m_SetReturnLongDescription, 25),
      (ISteamUGC_m_SetReturnMetadata, 26), (ISteamUGC_m_SetReturnChildren, 27),
      (ISteamUGC_m_SetReturnAdditionalPreviews, 28), (ISteamUGC_m_SetReturnTotalOnly, 29),
      (ISteamUGC_m_SetReturnPlaytimeStats, 30), (ISteamUGC_m_SetLanguage, 31),
      (ISteamUGC_m_SetAllowCachedResponse, 32), (ISteamUGC_m_SetCloudFileNameFilter, 33),
      (ISteamUGC_m_SetMatchAnyTag, 34), (ISteamUGC_m_SetSearchText, 35),
      (ISteamUGC_m_SetRankedByTrendDays, 36), (ISteamUGC_m_SetTimeCreatedDateRange, 37),
      (ISteamUGC_m_SetTimeUpdatedDateRange, 38), (ISteamUGC_m_AddRequiredKeyValueTag, 39),
      (ISteamUGC_m_RequestUGCDetails, 40), (ISteamUGC_m_CreateItem, 41),
      (ISteamUGC_m_StartItemUpdate, 42), (ISteamUGC_m_SetItemTitle, 43),
      (ISteamUGC_m_SetItemDescription, 44), (ISteamUGC_m_SetItemUpdateLanguage, 45),
      (ISteamUGC_m_SetItemMetadata, 46), (ISteamUGC_m_SetItemVisibility, 47),
      (ISteamUGC_m_SetItemTags, 48), (ISteamUGC_m_SetItemContent, 49),
      (ISteamUGC_m_SetItemPreview, 50), (ISteamUGC_m_SetAllowLegacyUpload, 51),
      (ISteamUGC_m_RemoveAllItemKeyValueTags, 52), (ISteamUGC_m_RemoveItemKeyValueTags, 53),
      (ISteamUGC_m_AddItemKeyValueTag, 54), (ISteamUGC_m_AddItemPreviewFile, 55),
      (ISteamUGC_m_AddItemPreviewVideo, 56), (ISteamUGC_m_UpdateItemPreviewFile, 57),
      (ISteamUGC_m_UpdateItemPreviewVideo, 58), (ISteamUGC_m_RemoveItemPreview, 59),
      (ISteamUGC_m_AddContentDescriptor, 60), (ISteamUGC_m_RemoveContentDescriptor, 61),
      (ISteamUGC_m_SubmitItemUpdate, 62), (ISteamUGC_m_GetItemUpdateProgress, 63),
      (ISteamUGC_m_SetUserItemVote, 64), (ISteamUGC_m_GetUserItemVote, 65),
      (ISteamUGC_m_AddItemToFavorites, 66), (ISteamUGC_m_RemoveItemFromFavorites, 67),
      (ISteamUGC_m_SubscribeItem, 68), (ISteamUGC_m_UnsubscribeItem, 69),
      (ISteamUGC_m_GetNumSubscribedItems, 70), (ISteamUGC_m_GetSubscribedItems, 71),
      (ISteamUGC_m_GetItemState, 72), (ISteamUGC_m_GetItemInstallInfo, 73),
      (ISteamUGC_m_GetItemDownloadInfo, 74), (ISteamUGC_m_DownloadItem, 75),
      (ISteamUGC_m_BInitWorkshopForGameServer, 76), (ISteamUGC_m_SuspendDownloads, 77),
      (ISteamUGC_m_StartPlaytimeTracking, 78), (ISteamUGC_m_StopPlaytimeTracking, 79),
      (ISteamUGC_m_StopPlaytimeTrackingForAllItems, 80), (ISteamUGC_m_AddDependency, 81),
      (ISteamUGC_m_RemoveDependency, 82), (ISteamUGC_m_AddAppDependency, 83),
      (ISteamUGC_m_RemoveAppDependency, 84), (ISteamUGC_m_GetAppDependencies, 85),
      (ISteamUGC_m_DeleteItem, 86), (ISteamUGC_m_ShowWorkshopEULA, 87),
      (ISteamUGC_m_GetWorkshopEULAStatus, 88)]"

definition ISteamUGC_idxs_016 :: "(nat \<times> int) list" where
  "ISteamUGC_idxs_016 =
     [(ISteamUGC_m_CreateQueryUserUGCRequest, 0),
      (ISteamUGC_m_CreateQueryAllUGCRequestCursor, 1),
      (ISteamUGC_m_CreateQueryAllUGCRequestPage, 2),
      (ISteamUGC_m_CreateQueryUGCDetailsRequest, 3), (ISteamUGC_m_SendQueryUGCRequest, 4),
      (ISteamUGC_m_GetQueryUGCResult, 5), (ISteamUGC_m_GetQueryUGCNumTags, 6),
      (ISteamUGC_m_GetQueryUGCTag, 7), (ISteamUGC_m_GetQueryUGCTagDisplayName, 8),
      (ISteamUGC_m_GetQueryUGCPreviewURL, 9), (ISteamUGC_m_GetQueryUGCMetadata, 10),
      (ISteamUGC_m_GetQueryUGCChildren, 11), (ISteamUGC_m_GetQueryUGCStatistic, 12),
      (ISteamUGC_m_GetQueryUGCNumAdditionalPreviews, 13),
      (ISteamUGC_m_GetQueryUGCAdditionalPreview, 14),
      (ISteamUGC_m_GetQueryUGCNumKeyValueTags, 15),
      (ISteamUGC_m_GetQueryFirstUGCKeyValueTag, 16), (ISteamUGC_m_GetQueryUGCKeyValueTag, 17),
      (ISteamUGC_m_ReleaseQueryUGCRequest, 18), (ISteamUGC_m_AddRequiredTag, 19),
      (ISteamUGC_m_AddRequiredTagGroup, 20), (ISteamUGC_m_AddExcludedTag, 21),
      (ISteamUGC_m_SetReturnOnlyIDs, 22), (ISteamUGC_m_SetReturnKeyValueTags, 23),
      (ISteamUGC_m_SetReturnLongDescription, 24), (ISteamUGC_m_SetReturnMetadata, 25),
      (ISteamUGC_m_SetReturnChildren, 26), (ISteamUGC_m_SetReturnAdditionalPreviews, 27),
      (ISteamUGC_m_SetReturnTotalOnly, 28), (ISteamUGC_m_SetReturnPlaytimeStats, 29),
      (ISteamUGC_m_SetLanguage, 30), (ISteamUGC_m_SetAllowCachedResponse, 31),
      (ISteamUGC_m_SetCloudFileNameFilter, 32), (ISteamUGC_m_SetMatchAnyTag, 33),
      (ISteamUGC_m_SetSearchText, 34), (ISteamUGC_m_SetRankedByTrendDays, 35),
      (ISteamUGC_m_SetTimeCreatedDateRange, 36), (ISteamUGC_m_SetTimeUpdatedDateRange, 37),
      (ISteamUGC_m_AddRequiredKeyValueTag, 38), (ISteamUGC_m_RequestUGCDetails, 39),
      (ISteamUGC_m_CreateItem, 40), (ISteamUGC_m_StartItemUpdate, 41),
      (ISteamUGC_m_SetItemTitle, 42), (ISteamUGC_m_SetItemDescription, 43),
      (ISteamUGC_m_SetItemUpdateLanguage, 44), (ISteamUGC_m_SetItemMetadata, 45),
      (ISteamUGC_m_SetItemVisibility, 46), (ISteamUGC_m_SetItemTags, 47),
      (ISteamUGC_m_SetItemContent, 48), (ISteamUGC_m_SetItemPreview, 49),
      (ISteamUGC_m_SetAllowLegacyUpload, 50), (ISteamUGC_m_RemoveAllItemKeyValueTags, 51),
      (ISteamUGC_m_RemoveItemKeyValueTags, 52), (ISteamUGC_m_AddItemKeyValueTag, 53),
      (ISteamUGC_m_AddItemPreviewFile, 54), (ISteamUGC_m_AddItemPreviewVideo, 55),
      (ISteamUGC_m_UpdateItemPreviewFile, 56), (ISteamUGC_m_UpdateItemPreviewVideo, 57),
      (ISteamUGC_m_RemoveItemPreview, 58), (ISteamUGC_m_SubmitItemUpdate, 59),
      (ISteamUGC_m_GetItemUpdateProgress, 60), (ISteamUGC_m_SetUserItemVote, 61),
      (ISteamUGC_m_GetUserItemVote, 62), (ISteamUGC_m_AddItemToFavorites, 63),
      (ISteamUGC_m_RemoveItemFromFavorites, 64), (ISteamUGC_m_SubscribeItem, 65),
      (ISteamUGC_m_UnsubscribeItem, 66), (ISteamUGC_m_GetNumSubscribedItems, 67),
      (ISteamUGC_m_GetSubscribedItems, 68), (ISteamUGC_m_GetItemState, 69),
      (ISteamUGC_m_GetItemInstallInfo, 70), (ISteamUGC_m_GetItemDownloadInfo, 71),
      (ISteamUGC_m_DownloadItem, 72), (ISteamUGC_m_BInitWorkshopForGameServer, 73),
      (ISteamUGC_m_SuspendDownloads, 74), (ISteamUGC_m_StartPlaytimeTracking, 75),
      (ISteamUGC_m_StopPlaytimeTracking, 76), (ISteamUGC_m_StopPlaytimeTrackingForAllItems, 77),
      (ISteamUGC_m_AddDependency, 78), (ISteamUGC_m_RemoveDependency, 79),
      (ISteamUGC_m_AddAppDependency, 80), (ISteamUGC_m_RemoveAppDependency, 81),
      (ISteamUGC_m_GetAppDependencies, 82), (ISteamUGC_m_DeleteItem, 83),
      (ISteamUGC_m_ShowWorkshopEULA, 84), (ISteamUGC_m_GetWorkshopEULAStatus, 85)]"

definition ISteamUGC_idxs_015 :: "(nat \<times> int) list" where
  "ISteamUGC_idxs_015 =
     [(ISteamUGC_m_CreateQueryUserUGCRequest, 0),
      (ISteamUGC_m_CreateQueryAllUGCRequestCursor, 1),
      (ISteamUGC_m_CreateQueryAllUGCRequestPage, 2),
      (ISteamUGC_m_CreateQueryUGCDetailsRequest, 3), (ISteamUGC_m_SendQueryUGCRequest, 4),
      (ISteamUGC_m_GetQueryUGCResult, 5), (ISteamUGC_m_GetQueryUGCNumTags, 6),
      (ISteamUGC_m_GetQueryUGCTag, 7), (ISteamUGC_m_GetQueryUGCTagDisplayName, 8),
      (ISteamUGC_m_GetQueryUGCPreviewURL, 9), (ISteamUGC_m_GetQueryUGCMetadata, 10),
      (ISteamUGC_m_GetQueryUGCChildren, 11), (ISteamUGC_m_GetQueryUGCStatistic, 12),
      (ISteamUGC_m_GetQueryUGCNumAdditionalPreviews, 13),
      (ISteamUGC_m_GetQueryUGCAdditionalPreview, 14),
      (ISteamUGC_m_GetQueryUGCNumKeyValueTags, 15),
      (ISteamUGC_m_GetQueryFirstUGCKeyValueTag, 16), (ISteamUGC_m_GetQueryUGCKeyValueTag, 17),
      (ISteamUGC_m_ReleaseQueryUGCRequest, 18), (ISteamUGC_m_AddRequiredTag, 19),
      (ISteamUGC_m_AddRequiredTagGroup, 20), (ISteamUGC_m_AddExcludedTag, 21),
      (ISteamUGC_m_SetReturnOnlyIDs, 22), (ISteamUGC_m_SetReturnKeyValueTags, 23),
      (ISteamUGC_m_SetReturnLongDescription, 24), (ISteamUGC_m_SetReturnMetadata, 25),
      (ISteamUGC_m_SetReturnChildren, 26), (ISteamUGC_m_SetReturnAdditionalPreviews, 27),
      (ISteamUGC_m_SetReturnTotalOnly, 28), (ISteamUGC_m_SetReturnPlaytimeStats, 29),
      (ISteamUGC_m_SetLanguage, 30), (ISteamUGC_m_SetAllowCachedResponse, 31),
      (ISteamUGC_m_SetCloudFileNameFilter, 32), (ISteamUGC_m_SetMatchAnyTag, 33),
      (ISteamUGC_m_SetSearchText, 34), (ISteamUGC_m_SetRankedByTrendDays, 35),
      (ISteamUGC_m_AddRequiredKeyValueTag, 36), (ISteamUGC_m_RequestUGCDetails, 37),
      (ISteamUGC_m_CreateItem, 38), (ISteamUGC_m_StartItemUpdate, 39),
      (ISteamUGC_m_SetItemTitle, 40), (ISteamUGC_m_SetItemDescription, 41),
      (ISteamUGC_m_SetItemUpdateLanguage, 42), (ISteamUGC_m_SetItemMetadata, 43),
      (ISteamUGC_m_SetItemVisibility, 44), (ISteamUGC_m_SetItemTags, 45),
      (ISteamUGC_m_SetItemContent, 46), (ISteamUGC_m_SetItemPreview, 47),
      (ISteamUGC_m_SetAllowLegacyUpload, 48), (ISteamUGC_m_RemoveAllItemKeyValueTags, 49),
      (ISteamUGC_m_RemoveItemKeyValueTags, 50), (ISteamUGC_m_AddItemKeyValueTag, 51),
      (ISteamUGC_m_AddItemPreviewFile, 52), (ISteamUGC_m_AddItemPreviewVideo, 53),
      (ISteamUGC_m_UpdateItemPreviewFile, 54), (ISteamUGC_m_UpdateItemPreviewVideo, 55),
      (ISteamUGC_m_RemoveItemPreview, 56), (ISteamUGC_m_SubmitItemUpdate, 57),
      (ISteamUGC_m_GetItemUpdateProgress, 58), (ISteamUGC_m_SetUserItemVote, 59),
      (ISteamUGC_m_GetUserItemVote, 60), (ISteamUGC_m_AddItemToFavorites, 61),
      (ISteamUGC_m_RemoveItemFromFavorites, 62), (ISteamUGC_m_SubscribeItem, 63),
      (ISteamUGC_m_UnsubscribeItem, 64), (ISteamUGC_m_GetNumSubscribedItems, 65),
      (ISteamUGC_m_GetSubscribedItems, 66), (ISteamUGC_m_GetItemState, 67),
      (ISteamUGC_m_GetItemInstallInfo, 68), (ISteamUGC_m_GetItemDownloadInfo, 69),
      (ISteamUGC_m_DownloadItem, 70), (ISteamUGC_m_BInitWorkshopForGameServer, 71),
      (ISteamUGC_m_SuspendDownloads, 72), (ISteamUGC_m_StartPlaytimeTracking, 73),
      (ISteamUGC_m_StopPlaytimeTracking, 74), (ISteamUGC_m_StopPlaytimeTrackingForAllItems, 75),
      (ISteamUGC_m_AddDependency, 76), (ISteamUGC_m_RemoveDependency, 77),
      (ISteamUGC_m_AddAppDependency, 78), (ISteamUGC_m_RemoveAppDependency, 79),
      (ISteamUGC_m_GetAppDependencies, 80), (ISteamUGC_m_DeleteItem, 81),
      (ISteamUGC_m_ShowWorkshopEULA, 82), (ISteamUGC_m_GetWorkshopEULAStatus, 83)]"

definition ISteamUGC_idxs_014 :: "(nat \<times> int) list" where
  "ISteamUGC_idxs_014 =
     [(ISteamUGC_m_CreateQueryUserUGCRequest, 0),
      (ISteamUGC_m_CreateQueryAllUGCRequestCursor, 1),
      (ISteamUGC_m_CreateQueryAllUGCRequestPage, 2),
      (ISteamUGC_m_CreateQueryUGCDetailsRequest, 3), (ISteamUGC_m_SendQueryUGCRequest, 4),
      (ISteamUGC_m_GetQueryUGCResult, 5), (ISteamUGC_m_GetQueryUGCPreviewURL, 6),
      (ISteamUGC_m_GetQueryUGCMetadata, 7), (ISteamUGC_m_GetQueryUGCChildren, 8),
      (ISteamUGC_m_GetQueryUGCStatistic, 9), (ISteamUGC_m_GetQueryUGCNumAdditionalPreviews, 10),
      (ISteamUGC_m_GetQueryUGCAdditionalPreview, 11),
      (ISteamUGC_m_GetQueryUGCNumKeyValueTags, 12),
      (ISteamUGC_m_GetQueryFirstUGCKeyValueTag, 13), (ISteamUGC_m_GetQueryUGCKeyValueTag, 14),
      (ISteamUGC_m_ReleaseQueryUGCRequest, 15), (ISteamUGC_m_AddRequiredTag, 16),
      (ISteamUGC_m_AddRequiredTagGroup, 17), (ISteamUGC_m_AddExcludedTag, 18),
      (ISteamUGC_m_SetReturnOnlyIDs, 19), (ISteamUGC_m_SetReturnKeyValueTags, 20),
      (ISteamUGC_m_SetReturnLongDescription, 21), (ISteamUGC_m_SetReturnMetadata, 22),
      (ISteamUGC_m_SetReturnChildren, 23), (ISteamUGC_m_SetReturnAdditionalPreviews, 24),
      (ISteamUGC_m_SetReturnTotalOnly, 25), (ISteamUGC_m_SetReturnPlaytimeStats, 26),
      (ISteamUGC_m_SetLanguage, 27), (ISteamUGC_m_SetAllowCachedResponse, 28),
      (ISteamUGC_m_SetCloudFileNameFilter, 29), (ISteamUGC_m_SetMatchAnyTag, 30),
      (ISteamUGC_m_SetSearchText, 31), (ISteamUGC_m_SetRankedByTrendDays, 32),
      (ISteamUGC_m_AddRequiredKeyValueTag, 33), (ISteamUGC_m_RequestUGCDetails, 34),
      (ISteamUGC_m_CreateItem, 35), (ISteamUGC_m_StartItemUpdate, 36),
      (ISteamUGC_m_SetItemTitle, 37), (ISteamUGC_m_SetItemDescription, 38),
      (ISteamUGC_m_SetItemUpdateLanguage, 39), (ISteamUGC_m_SetItemMetadata, 40),
      (ISteamUGC_m_SetItemVisibility, 41), (ISteamUGC_m_SetItemTags, 42),
      (ISteamUGC_m_SetItemContent, 43), (ISteamUGC_m_SetItemPreview, 44),
      (ISteamUGC_m_SetAllowLegacyUpload, 45), (ISteamUGC_m_RemoveAllItemKeyValueTags, 46),
      (ISteamUGC_m_RemoveItemKeyValueTags, 47), (ISteamUGC_m_AddItemKeyValueTag, 48),
      (ISteamUGC_m_AddItemPreviewFile, 49), (ISteamUGC_m_AddItemPreviewVideo, 50),
      (ISteamUGC_m_UpdateItemPreviewFile, 51), (ISteamUGC_m_UpdateItemPreviewVideo, 52),
      (ISteamUGC_m_RemoveItemPreview, 53), (ISteamUGC_m_SubmitItemUpdate, 54),
      (ISteamUGC_m_GetItemUpdateProgress, 55), (ISteamUGC_m_SetUserItemVote, 56),
      (ISteamUGC_m_GetUserItemVote, 57), (ISteamUGC_m_AddItemToFavorites, 58),
      (ISteamUGC_m_RemoveItemFromFavorites, 59), (ISteamUGC_m_SubscribeItem, 60),
      (ISteamUGC_m_UnsubscribeItem, 61), (ISteamUGC_m_GetNumSubscribedItems, 62),
      (ISteamUGC_m_GetSubscribedItems, 63), (ISteamUGC_m_GetItemState, 64),
      (ISteamUGC_m_GetItemInstallInfo, 65), (ISteamUGC_m_GetItemDownloadInfo, 66),
      (ISteamUGC_m_DownloadItem, 67), (ISteamUGC_m_BInitWorkshopForGameServer, 68),
      (ISteamUGC_m_SuspendDownloads, 69), (ISteamUGC_m_StartPlaytimeTracking, 70),
      (ISteamUGC_m_StopPlaytimeTracking, 71), (ISteamUGC_m_StopPlaytimeTrackingForAllItems, 72),
      (ISteamUGC_m_AddDependency, 73), (ISteamUGC_m_RemoveDependency, 74),
      (ISteamUGC_m_AddAppDependency, 75), (ISteamUGC_m_RemoveAppDependency, 76),
      (ISteamUGC_m_GetAppDependencies, 77), (ISteamUGC_m_DeleteItem, 78)]"

definition ISteamUGC_idxs_013 :: "(nat \<times> int) list" where
  "ISteamUGC_idxs_013 =
     [(ISteamUGC_m_CreateQueryUserUGCRequest, 0),
      (ISteamUGC_m_CreateQueryAllUGCRequestCursor, 1),
      (ISteamUGC_m_CreateQueryAllUGCRequestPage, 2),
      (ISteamUGC_m_CreateQueryUGCDetailsRequest, 3), (ISteamUGC_m_SendQueryUGCRequest, 4),
      (ISteamUGC_m_GetQueryUGCResult, 5), (ISteamUGC_m_GetQueryUGCPreviewURL, 6),
      (ISteamUGC_m_GetQueryUGCMetadata, 7), (ISteamUGC_m_GetQueryUGCChildren, 8),
      (ISteamUGC_m_GetQueryUGCStatistic, 9), (ISteamUGC_m_GetQueryUGCNumAdditionalPreviews, 10),
      (ISteamUGC_m_GetQueryUGCAdditionalPreview, 11),
      (ISteamUGC_m_GetQueryUGCNumKeyValueTags, 12),
      (ISteamUGC_m_GetQueryFirstUGCKeyValueTag, 13), (ISteamUGC_m_GetQueryUGCKeyValueTag, 14),
      (ISteamUGC_m_ReleaseQueryUGCRequest, 15), (ISteamUGC_m_AddRequiredTag, 16),
      (ISteamUGC_m_AddExcludedTag, 17), (ISteamUGC_m_SetReturnOnlyIDs, 18),
      (ISteamUGC_m_SetReturnKeyValueTags, 19), (ISteamUGC_m_SetReturnLongDescription, 20),
      (ISteamUGC_m_SetReturnMetadata, 21), (ISteamUGC_m_SetReturnChildren, 22),
      (ISteamUGC_m_SetReturnAdditionalPreviews, 23), (ISteamUGC_m_SetReturnTotalOnly, 24),
      (ISteamUGC_m_SetReturnPlaytimeStats, 25), (ISteamUGC_m_SetLanguage, 26),
      (ISteamUGC_m_SetAllowCachedResponse, 27), (ISteamUGC_m_SetCloudFileNameFilter, 28),
      (ISteamUGC_m_SetMatchAnyTag, 29), (ISteamUGC_m_SetSearchText, 30),
      (ISteamUGC_m_SetRankedByTrendDays, 31), (ISteamUGC_m_AddRequiredKeyValueTag, 32),
      (ISteamUGC_m_RequestUGCDetails, 33), (ISteamUGC_m_CreateItem, 34),
      (ISteamUGC_m_StartItemUpdate, 35), (ISteamUGC_m_SetItemTitle, 36),
      (ISteamUGC_m_SetItemDescription, 37), (ISteamUGC_m_SetItemUpdateLanguage, 38),
      (ISteamUGC_m_SetItemMetadata, 39), (ISteamUGC_m_SetItemVisibility, 40),
      (ISteamUGC_m_SetItemTags, 41), (ISteamUGC_m_SetItemContent, 42),
      (ISteamUGC_m_SetItemPreview, 43), (ISteamUGC_m_SetAllowLegacyUpload, 44),
      (ISteamUGC_m_RemoveAllItemKeyValueTags, 45), (ISteamUGC_m_RemoveItemKeyValueTags, 46),
      (ISteamUGC_m_AddItemKeyValueTag, 47), (ISteamUGC_m_AddItemPreviewFile, 48),
      (ISteamUGC_m_AddItemPreviewVideo, 49), (ISteamUGC_m_UpdateItemPreviewFile, 50),
      (ISteamUGC_m_UpdateItemPreviewVideo, 51), (ISteamUGC_m_RemoveItemPreview, 52),
      (ISteamUGC_m_SubmitItemUpdate, 53), (ISteamUGC_m_GetItemUpdateProgress, 54),
      (ISteamUGC_m_SetUserItemVote, 55), (ISteamUGC_m_GetUserItemVote, 56),
      (ISteamUGC_m_AddItemToFavorites, 57), (ISteamUGC_m_RemoveItemFromFavorites, 58),
      (ISteamUGC_m_SubscribeItem, 59), (ISteamUGC_m_UnsubscribeItem, 60),
      (ISteamUGC_m_GetNumSubscribedItems, 61), (ISteamUGC_m_GetSubscribedItems, 62),
      (ISteamUGC_m_GetItemState, 63), (ISteamUGC_m_GetItemInstallInfo, 64),
      (ISteamUGC_m_GetItemDownloadInfo, 65), (ISteamUGC_m_DownloadItem, 66),
      (ISteamUGC_m_BInitWorkshopForGameServer, 67), (ISteamUGC_m_SuspendDownloads, 68),
      (ISteamUGC_m_StartPlaytimeTracking, 69), (ISteamUGC_m_StopPlaytimeTracking, 70),
      (ISteamUGC_m_StopPlaytimeTrackingForAllItems, 71), (ISteamUGC_m_AddDependency, 72),
      (ISteamUGC_m_RemoveDependency, 73), (ISteamUGC_m_AddAppDependency, 74),
      (ISteamUGC_m_RemoveAppDependency, 75), (ISteamUGC_m_GetAppDependencies, 76),
      (ISteamUGC_m_DeleteItem, 77)]"

definition ISteamUGC_idxs_012 :: "(nat \<times> int) list" where
  "ISteamUGC_idxs_012 =
     [(ISteamUGC_m_CreateQueryUserUGCRequest, 0),
      (ISteamUGC_m_CreateQueryAllUGCRequestCursor, 1),
      (ISteamUGC_m_CreateQueryAllUGCRequestPage, 2),
      (ISteamUGC_m_CreateQueryUGCDetailsRequest, 3), (ISteamUGC_m_SendQueryUGCRequest, 4),
      (ISteamUGC_m_GetQueryUGCResult, 5), (ISteamUGC_m_GetQueryUGCPreviewURL, 6),
      (ISteamUGC_m_GetQueryUGCMetadata, 7), (ISteamUGC_m_GetQueryUGCChildren, 8),
      (ISteamUGC_m_GetQueryUGCStatistic, 9), (ISteamUGC_m_GetQueryUGCNumAdditionalPreviews, 10),
      (ISteamUGC_m_GetQueryUGCAdditionalPreview, 11),
      (ISteamUGC_m_GetQueryUGCNumKeyValueTags, 12), (ISteamUGC_m_GetQueryUGCKeyValueTag, 13),
      (ISteamUGC_m_ReleaseQueryUGCRequest, 14), (ISteamUGC_m_AddRequiredTag, 15),
      (ISteamUGC_m_AddExcludedTag, 16), (ISteamUGC_m_SetReturnOnlyIDs, 17),
      (ISteamUGC_m_SetReturnKeyValueTags, 18), (ISteamUGC_m_SetReturnLongDescription, 19),
      (ISteamUGC_m_SetReturnMetadata, 20), (ISteamUGC_m_SetReturnChildren, 21),
      (ISteamUGC_m_SetReturnAdditionalPreviews, 22), (ISteamUGC_m_SetReturnTotalOnly, 23),
      (ISteamUGC_m_SetReturnPlaytimeStats, 24), (ISteamUGC_m_SetLanguage, 25),
      (ISteamUGC_m_SetAllowCachedResponse, 26), (ISteamUGC_m_SetCloudFileNameFilter, 27),
      (ISteamUGC_m_SetMatchAnyTag, 28), (ISteamUGC_m_SetSearchText, 29),
      (ISteamUGC_m_SetRankedByTrendDays, 30), (ISteamUGC_m_AddRequiredKeyValueTag, 31),
      (ISteamUGC_m_RequestUGCDetails, 32), (ISteamUGC_m_CreateItem, 33),
      (ISteamUGC_m_StartItemUpdate, 34), (ISteamUGC_m_SetItemTitle, 35),
      (ISteamUGC_m_SetItemDescription, 36), (ISteamUGC_m_SetItemUpdateLanguage, 37),
      (ISteamUGC_m_SetItemMetadata, 38), (ISteamUGC_m_SetItemVisibility, 39),
      (ISteamUGC_m_SetItemTags, 40), (ISteamUGC_m_SetItemContent, 41),
      (ISteamUGC_m_SetItemPreview, 42), (ISteamUGC_m_SetAllowLegacyUpload, 43),
      (ISteamUGC_m_RemoveItemKeyValueTags, 44), (ISteamUGC_m_AddItemKeyValueTag, 45),
      (ISteamUGC_m_AddItemPreviewFile, 46), (ISteamUGC_m_AddItemPreviewVideo, 47),
      (ISteamUGC_m_UpdateItemPreviewFile, 48), (ISteamUGC_m_UpdateItemPreviewVideo, 49),
      (ISteamUGC_m_RemoveItemPreview, 50), (ISteamUGC_m_SubmitItemUpdate, 51),
      (ISteamUGC_m_GetItemUpdateProgress, 52), (ISteamUGC_m_SetUserItemVote, 53),
      (ISteamUGC_m_GetUserItemVote, 54), (ISteamUGC_m_AddItemToFavorites, 55),
      (ISteamUGC_m_RemoveItemFromFavorites, 56), (ISteamUGC_m_SubscribeItem, 57),
      (ISteamUGC_m_UnsubscribeItem, 58), (ISteamUGC_m_GetNumSubscribedItems, 59),
      (ISteamUGC_m_GetSubscribedItems, 60), (ISteamUGC_m_GetItemState, 61),
      (ISteamUGC_m_GetItemInstallInfo, 62), (ISteamUGC_m_GetItemDownloadInfo, 63),
      (ISteamUGC_m_DownloadItem, 64), (ISteamUGC_m_BInitWorkshopForGameServer, 65),
      (ISteamUGC_m_SuspendDownloads, 66), (ISteamUGC_m_StartPlaytimeTracking, 67),
      (ISteamUGC_m_StopPlaytimeTracking, 68), (ISteamUGC_m_StopPlaytimeTrackingForAllItems, 69),
      (ISteamUGC_m_AddDependency, 70), (ISteamUGC_m_RemoveDependency, 71),
      (ISteamUGC_m_AddAppDependency, 72), (ISteamUGC_m_RemoveAppDependency, 73),
      (ISteamUGC_m_GetAppDependencies, 74), (ISteamUGC_m_DeleteItem, 75)]"

definition ISteamUGC_idxs_010 :: "(nat \<times> int) list" where
  "ISteamUGC_idxs_010 =
     [(ISteamUGC_m_CreateQueryUserUGCRequest, 0), (ISteamUGC_m_CreateQueryAllUGCRequestPage, 1),
      (ISteamUGC_m_CreateQueryUGCDetailsRequest, 2), (ISteamUGC_m_SendQueryUGCRequest, 3),
      (ISteamUGC_m_GetQueryUGCResult, 4), (ISteamUGC_m_GetQueryUGCPreviewURL, 5),
      (ISteamUGC_m_GetQueryUGCMetadata, 6), (ISteamUGC_m_GetQueryUGCChildren, 7),
      (ISteamUGC_m_GetQueryUGCStatistic, 8), (ISteamUGC_m_GetQueryUGCNumAdditionalPreviews, 9),
      (ISteamUGC_m_GetQueryUGCAdditionalPreview, 10),
      (ISteamUGC_m_GetQueryUGCNumKeyValueTags, 11), (ISteamUGC_m_GetQueryUGCKeyValueTag, 12),
      (ISteamUGC_m_ReleaseQueryUGCRequest, 13), (ISteamUGC_m_AddRequiredTag, 14),
      (ISteamUGC_m_AddExcludedTag, 15), (ISteamUGC_m_SetReturnOnlyIDs, 16),
      (ISteamUGC_m_SetReturnKeyValueTags, 17), (ISteamUGC_m_SetReturnLongDescription, 18),
      (ISteamUGC_m_SetReturnMetadata, 19), (ISteamUGC_m_SetReturnChildren, 20),
      (ISteamUGC_m_SetReturnAdditionalPreviews, 21), (ISteamUGC_m_SetReturnTotalOnly, 22),
      (ISteamUGC_m_SetReturnPlaytimeStats, 23), (ISteamUGC_m_SetLanguage, 24),
      (ISteamUGC_m_SetAllowCachedResponse, 25), (ISteamUGC_m_SetCloudFileNameFilter, 26),
      (ISteamUGC_m_SetMatchAnyTag, 27), (ISteamUGC_m_SetSearchText, 28),
      (ISteamUGC_m_SetRankedByTrendDays, 29), (ISteamUGC_m_AddRequiredKeyValueTag, 30),
      (ISteamUGC_m_RequestUGCDetails, 31), (ISteamUGC_m_CreateItem, 32),
      (ISteamUGC_m_StartItemUpdate, 33), (ISteamUGC_m_SetItemTitle, 34),
      (ISteamUGC_m_SetItemDescription, 35), (ISteamUGC_m_SetItemUpdateLanguage, 36),
      (ISteamUGC_m_SetItemMetadata, 37), (ISteamUGC_m_SetItemVisibility, 38),
      (ISteamUGC_m_SetItemTags, 39), (ISteamUGC_m_SetItemContent, 40),
      (ISteamUGC_m_SetItemPreview, 41), (ISteamUGC_m_RemoveItemKeyValueTags, 42),
      (ISteamUGC_m_AddItemKeyValueTag, 43), (ISteamUGC_m_AddItemPreviewFile, 44),
      (ISteamUGC_m_AddItemPreviewVideo, 45), (ISteamUGC_m_UpdateItemPreviewFile, 46),
      (ISteamUGC_m_UpdateItemPreviewVideo, 47), (ISteamUGC_m_RemoveItemPreview, 48),
      (ISteamUGC_m_SubmitItemUpdate, 49), (ISteamUGC_m_GetItemUpdateProgress, 50),
      (ISteamUGC_m_SetUserItemVote, 51), (ISteamUGC_m_GetUserItemVote, 52),
      (ISteamUGC_m_AddItemToFavorites, 53), (ISteamUGC_m_RemoveItemFromFavorites, 54),
      (ISteamUGC_m_SubscribeItem, 55), (ISteamUGC_m_UnsubscribeItem, 56),
      (ISteamUGC_m_GetNumSubscribedItems, 57), (ISteamUGC_m_GetSubscribedItems, 58),
      (ISteamUGC_m_GetItemState, 59), (ISteamUGC_m_GetItemInstallInfo, 60),
      (ISteamUGC_m_GetItemDownloadInfo, 61), (ISteamUGC_m_DownloadItem, 62),
      (ISteamUGC_m_BInitWorkshopForGameServer, 63), (ISteamUGC_m_SuspendDownloads, 64),
      (ISteamUGC_m_StartPlaytimeTracking, 65), (ISteamUGC_m_StopPlaytimeTracking, 66),
      (ISteamUGC_m_StopPlaytimeTrackingForAllItems, 67), (ISteamUGC_m_AddDependency, 68),
      (ISteamUGC_m_RemoveDependency, 69), (ISteamUGC_m_AddAppDependency, 70),
      (ISteamUGC_m_RemoveAppDependency, 71), (ISteamUGC_m_GetAppDependencies, 72),
      (ISteamUGC_m_DeleteItem, 73)]"

definition ISteamUGC_idxs_009 :: "(nat \<times> int) list" where
  "ISteamUGC_idxs_009 =
     [(ISteamUGC_m_CreateQueryUserUGCRequest, 0), (ISteamUGC_m_CreateQueryAllUGCRequestPage, 1),
      (ISteamUGC_m_CreateQueryUGCDetailsRequest, 2), (ISteamUGC_m_SendQueryUGCRequest, 3),
      (ISteamUGC_m_GetQueryUGCResult, 4), (ISteamUGC_m_GetQueryUGCPreviewURL, 5),
      (ISteamUGC_m_GetQueryUGCMetadata, 6), (ISteamUGC_m_GetQueryUGCChildren, 7),
      (ISteamUGC_m_GetQueryUGCStatistic, 8), (ISteamUGC_m_GetQueryUGCNumAdditionalPreviews, 9),
      (ISteamUGC_m_GetQueryUGCAdditionalPreview, 10),
      (ISteamUGC_m_GetQueryUGCNumKeyValueTags, 11), (ISteamUGC_m_GetQueryUGCKeyValueTag, 12),
      (ISteamUGC_m_ReleaseQueryUGCRequest, 13), (ISteamUGC_m_AddRequiredTag, 14),
      (ISteamUGC_m_AddExcludedTag, 15), (ISteamUGC_m_SetReturnOnlyIDs, 16),
      (ISteamUGC_m_SetReturnKeyValueTags, 17), (ISteamUGC_m_SetReturnLongDescription, 18),
      (ISteamUGC_m_SetReturnMetadata, 19), (ISteamUGC_m_SetReturnChildren, 20),
      (ISteamUGC_m_SetReturnAdditionalPreviews, 21), (ISteamUGC_m_SetReturnTotalOnly, 22),
      (ISteamUGC_m_SetLanguage, 23), (ISteamUGC_m_SetAllowCachedResponse, 24),
      (ISteamUGC_m_SetCloudFileNameFilter, 25), (ISteamUGC_m_SetMatchAnyTag, 26),
      (ISteamUGC_m_SetSearchText, 27), (ISteamUGC_m_SetRankedByTrendDays, 28),
      (ISteamUGC_m_AddRequiredKeyValueTag, 29), (ISteamUGC_m_RequestUGCDetails, 30),
      (ISteamUGC_m_CreateItem, 31), (ISteamUGC_m_StartItemUpdate, 32),
      (ISteamUGC_m_SetItemTitle, 33), (ISteamUGC_m_SetItemDescription, 34),
      (ISteamUGC_m_SetItemUpdateLanguage, 35), (ISteamUGC_m_SetItemMetadata, 36),
      (ISteamUGC_m_SetItemVisibility, 37), (ISteamUGC_m_SetItemTags, 38),
      (ISteamUGC_m_SetItemContent, 39), (ISteamUGC_m_SetItemPreview, 40),
      (ISteamUGC_m_RemoveItemKeyValueTags, 41), (ISteamUGC_m_AddItemKeyValueTag, 42),
      (ISteamUGC_m_AddItemPreviewFile, 43), (ISteamUGC_m_AddItemPreviewVideo, 44),
      (ISteamUGC_m_UpdateItemPreviewFile, 45), (ISteamUGC_m_UpdateItemPreviewVideo, 46),
      (ISteamUGC_m_RemoveItemPreview, 47), (ISteamUGC_m_SubmitItemUpdate, 48),
      (ISteamUGC_m_GetItemUpdateProgress, 49), (ISteamUGC_m_SetUserItemVote, 50),
      (ISteamUGC_m_GetUserItemVote, 51), (ISteamUGC_m_AddItemToFavorites, 52),
      (ISteamUGC_m_RemoveItemFromFavorites, 53), (ISteamUGC_m_SubscribeItem, 54),
      (ISteamUGC_m_UnsubscribeItem, 55), (ISteamUGC_m_GetNumSubscribedItems, 56),
      (ISteamUGC_m_GetSubscribedItems, 57), (ISteamUGC_m_GetItemState, 58),
      (ISteamUGC_m_GetItemInstallInfo, 59), (ISteamUGC_m_GetItemDownloadInfo, 60),
      (ISteamUGC_m_DownloadItem, 61), (ISteamUGC_m_BInitWorkshopForGameServer, 62),
      (ISteamUGC_m_SuspendDownloads, 63), (ISteamUGC_m_StartPlaytimeTracking, 64),
      (ISteamUGC_m_StopPlaytimeTracking, 65), (ISteamUGC_m_StopPlaytimeTrackingForAllItems, 66)]"

definition ISteamUGC_idxs_008 :: "(nat \<times> int) list" where
  "ISteamUGC_idxs_008 =
     [(ISteamUGC_m_CreateQueryUserUGCRequest, 0), (ISteamUGC_m_CreateQueryAllUGCRequestPage, 1),
      (ISteamUGC_m_CreateQueryUGCDetailsRequest, 2), (ISteamUGC_m_SendQueryUGCRequest, 3),
      (ISteamUGC_m_GetQueryUGCResult, 4), (ISteamUGC_m_GetQueryUGCPreviewURL, 5),
      (ISteamUGC_m_GetQueryUGCMetadata, 6), (ISteamUGC_m_GetQueryUGCChildren, 7),
      (ISteamUGC_m_GetQueryUGCStatistic, 8), (ISteamUGC_m_GetQueryUGCNumAdditionalPreviews, 9),
      (ISteamUGC_m_GetQueryUGCAdditionalPreview, 10),
      (ISteamUGC_m_GetQueryUGCNumKeyValueTags, 11), (ISteamUGC_m_GetQueryUGCKeyValueTag, 12),
      (ISteamUGC_m_ReleaseQueryUGCRequest, 13), (ISteamUGC_m_AddRequiredTag, 14),
      (ISteamUGC_m_AddExcludedTag, 15), (ISteamUGC_m_SetReturnKeyValueTags, 16),
      (ISteamUGC_m_SetReturnLongDescription, 17), (ISteamUGC_m_SetReturnMetadata, 18),
      (ISteamUGC_m_SetReturnChildren, 19), (ISteamUGC_m_SetReturnAdditionalPreviews, 20),
      (ISteamUGC_m_SetReturnTotalOnly, 21), (ISteamUGC_m_SetLanguage, 22),
      (ISteamUGC_m_SetAllowCachedResponse, 23), (ISteamUGC_m_SetCloudFileNameFilter, 24),
      (ISteamUGC_m_SetMatchAnyTag, 25), (ISteamUGC_m_SetSearchText, 26),
      (ISteamUGC_m_SetRankedByTrendDays, 27), (ISteamUGC_m_AddRequiredKeyValueTag, 28),
      (ISteamUGC_m_RequestUGCDetails, 29), (ISteamUGC_m_CreateItem, 30),
      (ISteamUGC_m_StartItemUpdate, 31), (ISteamUGC_m_SetItemTitle, 32),
      (ISteamUGC_m_SetItemDescription, 33), (ISteamUGC_m_SetItemUpdateLanguage, 34),
      (ISteamUGC_m_SetItemMetadata, 35), (ISteamUGC_m_SetItemVisibility, 36),
      (ISteamUGC_m_SetItemTags, 37), (ISteamUGC_m_SetItemContent, 38),
      (ISteamUGC_m_SetItemPreview, 39), (ISteamUGC_m_RemoveItemKeyValueTags, 40),
      (ISteamUGC_m_AddItemKeyValueTag, 41), (ISteamUGC_m_AddItemPreviewFile, 42),
      (ISteamUGC_m_AddItemPreviewVideo, 43), (ISteamUGC_m_UpdateItemPreviewFile, 44),
      (ISteamUGC_m_UpdateItemPreviewVideo, 45), (ISteamUGC_m_RemoveItemPreview, 46),
      (ISteamUGC_m_SubmitItemUpdate, 47), (ISteamUGC_m_GetItemUpdateProgress, 48),
      (ISteamUGC_m_SetUserItemVote, 49), (ISteamUGC_m_GetUserItemVote, 50),
      (ISteamUGC_m_AddItemToFavorites, 51), (ISteamUGC_m_RemoveItemFromFavorites, 52),
      (ISteamUGC_m_SubscribeItem, 53), (ISteamUGC_m_UnsubscribeItem, 54),
      (ISteamUGC_m_GetNumSubscribedItems, 55), (ISteamUGC_m_GetSubscribedItems, 56),
      (ISteamUGC_m_GetItemState, 57), (ISteamUGC_m_GetItemInstallInfo, 58),
      (ISteamUGC_m_GetItemDownloadInfo, 59), (ISteamUGC_m_DownloadItem, 60),
      (ISteamUGC_m_BInitWorkshopForGameServer, 61), (ISteamUGC_m_SuspendDownloads, 62)]"

definition ISteamUGC_idxs_007 :: "(nat \<times> int) list" where
  "ISteamUGC_idxs_007 =
     [(ISteamUGC_m_CreateQueryUserUGCRequest, 0), (ISteamUGC_m_CreateQueryAllUGCRequestPage, 1),
      (ISteamUGC_m_CreateQueryUGCDetailsRequest, 2), (ISteamUGC_m_SendQueryUGCRequest, 3),
      (ISteamUGC_m_GetQueryUGCResult, 4), (ISteamUGC_m_GetQueryUGCPreviewURL, 5),
      (ISteamUGC_m_GetQueryUGCMetadata, 6), (ISteamUGC_m_GetQueryUGCChildren, 7),
      (ISteamUGC_m_GetQueryUGCStatistic, 8), (ISteamUGC_m_GetQueryUGCNumAdditionalPreviews, 9),
      (ISteamUGC_m_GetQueryUGCAdditionalPreview, 10),
      (ISteamUGC_m_GetQueryUGCNumKeyValueTags, 11), (ISteamUGC_m_GetQueryUGCKeyValueTag, 12),
      (ISteamUGC_m_ReleaseQueryUGCRequest, 13), (ISteamUGC_m_AddRequiredTag, 14),
      (ISteamUGC_m_AddExcludedTag, 15), (ISteamUGC_m_SetReturnKeyValueTags, 16),
      (ISteamUGC_m_SetReturnLongDescription, 17), (ISteamUGC_m_SetReturnMetadata, 18),
      (ISteamUGC_m_SetReturnChildren, 19), (ISteamUGC_m_SetReturnAdditionalPreviews, 20),
      (ISteamUGC_m_SetReturnTotalOnly, 21), (ISteamUGC_m_SetLanguage, 22),
      (ISteamUGC_m_SetAllowCachedResponse, 23), (ISteamUGC_m_SetCloudFileNameFilter, 24),
      (ISteamUGC_m_SetMatchAnyTag, 25), (ISteamUGC_m_SetSearchText, 26),
      (ISteamUGC_m_SetRankedByTrendDays, 27), (ISteamUGC_m_AddRequiredKeyValueTag, 28),
      (ISteamUGC_m_RequestUGCDetails, 29), (ISteamUGC_m_CreateItem, 30),
      (ISteamUGC_m_StartItemUpdate, 31), (ISteamUGC_m_SetItemTitle, 32),
      (ISteamUGC_m_SetItemDescription, 33), (ISteamUGC_m_SetItemUpdateLanguage, 34),
      (ISteamUGC_m_SetItemMetadata, 35), (ISteamUGC_m_SetItemVisibility, 36),
      (ISteamUGC_m_SetItemTags, 37), (ISteamUGC_m_SetItemContent, 38),
      (ISteamUGC_m_SetItemPreview, 39), (ISteamUGC_m_RemoveItemKeyValueTags, 40),
      (ISteamUGC_m_AddItemKeyValueTag, 41), (ISteamUGC_m_SubmitItemUpdate, 42),
      (ISteamUGC_m_GetItemUpdateProgress, 43), (ISteamUGC_m_SetUserItemVote, 44),
      (ISteamUGC_m_GetUserItemVote, 45), (ISteamUGC_m_AddItemToFavorites, 46),
      (ISteamUGC_m_RemoveItemFromFavorites, 47), (ISteamUGC_m_SubscribeItem, 48),
      (ISteamUGC_m_UnsubscribeItem, 49), (ISteamUGC_m_GetNumSubscribedItems, 50),
      (ISteamUGC_m_GetSubscribedItems, 51), (ISteamUGC_m_GetItemState, 52),
      (ISteamUGC_m_GetItemInstallInfo, 53), (ISteamUGC_m_GetItemDownloadInfo, 54),
      (ISteamUGC_m_DownloadItem, 55), (ISteamUGC_m_BInitWorkshopForGameServer, 56),
      (ISteamUGC_m_SuspendDownloads, 57)]"

definition ISteamUGC_idxs_005 :: "(nat \<times> int) list" where
  "ISteamUGC_idxs_005 =
     [(ISteamUGC_m_CreateQueryUserUGCRequest, 0), (ISteamUGC_m_CreateQueryAllUGCRequestPage, 1),
      (ISteamUGC_m_CreateQueryUGCDetailsRequest, 2), (ISteamUGC_m_SendQueryUGCRequest, 3),
      (ISteamUGC_m_GetQueryUGCResult, 4), (ISteamUGC_m_GetQueryUGCPreviewURL, 5),
      (ISteamUGC_m_GetQueryUGCMetadata, 6), (ISteamUGC_m_GetQueryUGCChildren, 7),
      (ISteamUGC_m_GetQueryUGCStatistic, 8), (ISteamUGC_m_GetQueryUGCNumAdditionalPreviews, 9),
      (ISteamUGC_m_GetQueryUGCAdditionalPreview, 10), (ISteamUGC_m_ReleaseQueryUGCRequest, 11),
      (ISteamUGC_m_AddRequiredTag, 12), (ISteamUGC_m_AddExcludedTag, 13),
      (ISteamUGC_m_SetReturnLongDescription, 14), (ISteamUGC_m_SetReturnMetadata, 15),
      (ISteamUGC_m_SetReturnChildren, 16), (ISteamUGC_m_SetReturnAdditionalPreviews, 17),
      (ISteamUGC_m_SetReturnTotalOnly, 18), (ISteamUGC_m_SetAllowCachedResponse, 19),
      (ISteamUGC_m_SetCloudFileNameFilter, 20), (ISteamUGC_m_SetMatchAnyTag, 21),
      (ISteamUGC_m_SetSearchText, 22), (ISteamUGC_m_SetRankedByTrendDays, 23),
      (ISteamUGC_m_RequestUGCDetails, 24), (ISteamUGC_m_CreateItem, 25),
      (ISteamUGC_m_StartItemUpdate, 26), (ISteamUGC_m_SetItemTitle, 27),
      (ISteamUGC_m_SetItemDescription, 28), (ISteamUGC_m_SetItemMetadata, 29),
      (ISteamUGC_m_SetItemVisibility, 30), (ISteamUGC_m_SetItemTags, 31),
      (ISteamUGC_m_SetItemContent, 32), (ISteamUGC_m_SetItemPreview, 33),
      (ISteamUGC_m_SubmitItemUpdate, 34), (ISteamUGC_m_GetItemUpdateProgress, 35),
      (ISteamUGC_m_AddItemToFavorites, 36), (ISteamUGC_m_RemoveItemFromFavorites, 37),
      (ISteamUGC_m_SubscribeItem, 38), (ISteamUGC_m_UnsubscribeItem, 39),
      (ISteamUGC_m_GetNumSubscribedItems, 40), (ISteamUGC_m_GetSubscribedItems, 41),
      (ISteamUGC_m_GetItemState, 42), (ISteamUGC_m_GetItemInstallInfo, 43),
      (ISteamUGC_m_GetItemDownloadInfo, 44), (ISteamUGC_m_DownloadItem, 45)]"

definition ISteamUGC_idxs_002 :: "(nat \<times> int) list" where
  "ISteamUGC_idxs_002 =
     [(ISteamUGC_m_CreateQueryUserUGCRequest, 0), (ISteamUGC_m_CreateQueryAllUGCRequestPage, 1),
      (ISteamUGC_m_SendQueryUGCRequest, 2), (ISteamUGC_m_GetQueryUGCResult, 3),
      (ISteamUGC_m_ReleaseQueryUGCRequest, 4), (ISteamUGC_m_AddRequiredTag, 5),
      (ISteamUGC_m_AddExcludedTag, 6), (ISteamUGC_m_SetReturnLongDescription, 7),
      (ISteamUGC_m_SetReturnTotalOnly, 8), (ISteamUGC_m_SetAllowCachedResponse, 9),
      (ISteamUGC_m_SetCloudFileNameFilter, 10), (ISteamUGC_m_SetMatchAnyTag, 11),
      (ISteamUGC_m_SetSearchText, 12), (ISteamUGC_m_SetRankedByTrendDays, 13),
      (ISteamUGC_m_RequestUGCDetails, 14), (ISteamUGC_m_CreateItem, 15),
      (ISteamUGC_m_StartItemUpdate, 16), (ISteamUGC_m_SetItemTitle, 17),
      (ISteamUGC_m_SetItemDescription, 18), (ISteamUGC_m_SetItemVisibility, 19),
      (ISteamUGC_m_SetItemTags, 20), (ISteamUGC_m_SetItemContent, 21),
      (ISteamUGC_m_SetItemPreview, 22), (ISteamUGC_m_SubmitItemUpdate, 23),
      (ISteamUGC_m_GetItemUpdateProgress, 24), (ISteamUGC_m_SubscribeItem, 25),
      (ISteamUGC_m_UnsubscribeItem, 26), (ISteamUGC_m_GetNumSubscribedItems, 27),
      (ISteamUGC_m_GetSubscribedItems, 28), (ISteamUGC_m_GetItemInstallInfo, 29),
      (ISteamUGC_m_GetItemUpdateInfo, 30)]"

definition ISteamUGC_idxs_001 :: "(nat \<times> int) list" where
  "ISteamUGC_idxs_001 =
     [(ISteamUGC_m_CreateQueryUserUGCRequest, 0), (ISteamUGC_m_CreateQueryAllUGCRequestPage, 1),
      (ISteamUGC_m_SendQueryUGCRequest, 2), (ISteamUGC_m_GetQueryUGCResult, 3),
      (ISteamUGC_m_ReleaseQueryUGCRequest, 4), (ISteamUGC_m_AddRequiredTag, 5),
      (ISteamUGC_m_AddExcludedTag, 6), (ISteamUGC_m_SetReturnLongDescription, 7),
      (ISteamUGC_m_SetReturnTotalOnly, 8), (ISteamUGC_m_SetCloudFileNameFilter, 9),
      (ISteamUGC_m_SetMatchAnyTag, 10), (ISteamUGC_m_SetSearchText, 11),
      (ISteamUGC_m_SetRankedByTrendDays, 12), (ISteamUGC_m_RequestUGCDetails, 13)]"

definition ISteamUser_idxs_021 :: "(nat \<times> int) list" where
  "ISteamUser_idxs_021 =
     [(ISteamUser_m_GetHSteamUser, 0), (ISteamUser_m_BLoggedOn, 1), (ISteamUser_m_GetSteamID, 2),
      (ISteamUser_m_InitiateGameConnection, 3), (ISteamUser_m_TerminateGameConnection, 4),
      (ISteamUser_m_TrackAppUsageEvent, 5), (ISteamUser_m_GetUserDataFolder, 6),
      (ISteamUser_m_StartVoiceRecording, 7), (ISteamUser_m_StopVoiceRecording, 8),
      (ISteamUser_m_GetAvailableVoice, 9), (ISteamUser_m_GetVoice, 10),
      (ISteamUser_m_DecompressVoice, 11), (ISteamUser_m_GetVoiceOptimalSampleRate, 12),
      (ISteamUser_m_GetAuthSessionTicket, 13), (ISteamUser_m_BeginAuthSession, 14),
      (ISteamUser_m_EndAuthSession, 15), (ISteamUser_m_CancelAuthTicket, 16),
      (ISteamUser_m_UserHasLicenseForApp, 17), (ISteamUser_m_BIsBehindNAT, 18),
      (ISteamUser_m_AdvertiseGame, 19), (ISteamUser_m_RequestEncryptedAppTicket, 20),
      (ISteamUser_m_GetEncryptedAppTicket, 21), (ISteamUser_m_GetGameBadgeLevel, 22),
      (ISteamUser_m_GetPlayerSteamLevel, 23), (ISteamUser_m_RequestStoreAuthURL, 24),
      (ISteamUser_m_BIsPhoneVerified, 25), (ISteamUser_m_BIsTwoFactorEnabled, 26),
      (ISteamUser_m_BIsPhoneIdentifying, 27), (ISteamUser_m_BIsPhoneRequiringVerification, 28),
      (ISteamUser_m_GetMarketEligibility, 29), (ISteamUser_m_GetDurationControl, 30),
      (ISteamUser_m_BSetDurationControlOnlineState, 31)]"

definition ISteamUser_idxs_020 :: "(nat \<times> int) list" where
  "ISteamUser_idxs_020 =
     [(ISteamUser_m_GetHSteamUser, 0), (ISteamUser_m_BLoggedOn, 1), (ISteamUser_m_GetSteamID, 2),
      (ISteamUser_m_InitiateGameConnection, 3), (ISteamUser_m_TerminateGameConnection, 4),
      (ISteamUser_m_TrackAppUsageEvent, 5), (ISteamUser_m_GetUserDataFolder, 6),
      (ISteamUser_m_StartVoiceRecording, 7), (ISteamUser_m_StopVoiceRecording, 8),
      (ISteamUser_m_GetAvailableVoice, 9), (ISteamUser_m_GetVoice, 10),
      (ISteamUser_m_DecompressVoice, 11), (ISteamUser_m_GetVoiceOptimalSampleRate, 12),
      (ISteamUser_m_GetAuthSessionTicket, 13), (ISteamUser_m_BeginAuthSession, 14),
      (ISteamUser_m_EndAuthSession, 15), (ISteamUser_m_CancelAuthTicket, 16),
      (ISteamUser_m_UserHasLicenseForApp, 17), (ISteamUser_m_BIsBehindNAT, 18),
      (ISteamUser_m_AdvertiseGame, 19), (ISteamUser_m_RequestEncryptedAppTicket, 20),
      (ISteamUser_m_GetEncryptedAppTicket, 21), (ISteamUser_m_GetGameBadgeLevel, 22),
      (ISteamUser_m_GetPlayerSteamLevel, 23), (ISteamUser_m_RequestStoreAuthURL, 24),
      (ISteamUser_m_BIsPhoneVerified, 25), (ISteamUser_m_BIsTwoFactorEnabled, 26),
      (ISteamUser_m_BIsPhoneIdentifying, 27), (ISteamUser_m_BIsPhoneRequiringVerification, 28),
      (ISteamUser_m_GetMarketEligibility, 29), (ISteamUser_m_GetDurationControl, 30)]"

definition ISteamUser_idxs_019 :: "(nat \<times> int) list" where
  "ISteamUser_idxs_019 =
     [(ISteamUser_m_GetHSteamUser, 0), (ISteamUser_m_BLoggedOn, 1), (ISteamUser_m_GetSteamID, 2),
      (ISteamUser_m_InitiateGameConnection, 3), (ISteamUser_m_TerminateGameConnection, 4),
      (ISteamUser_m_TrackAppUsageEvent, 5), (ISteamUser_m_GetUserDataFolder, 6),
      (ISteamUser_m_StartVoiceRecording, 7), (ISteamUser_m_StopVoiceRecording, 8),
      (ISteamUser_m_GetAvailableVoice, 9), (ISteamUser_m_GetVoice, 10),
      (ISteamUser_m_DecompressVoice, 11), (ISteamUser_m_GetVoiceOptimalSampleRate, 12),
      (ISteamUser_m_GetAuthSessionTicket, 13), (ISteamUser_m_BeginAuthSession, 14),
      (ISteamUser_m_EndAuthSession, 15), (ISteamUser_m_CancelAuthTicket, 16),
      (ISteamUser_m_UserHasLicenseForApp, 17), (ISteamUser_m_BIsBehindNAT, 18),
      (ISteamUser_m_AdvertiseGame, 19), (ISteamUser_m_RequestEncryptedAppTicket, 20),
      (ISteamUser_m_GetEncryptedAppTicket, 21), (ISteamUser_m_GetGameBadgeLevel, 22),
      (ISteamUser_m_GetPlayerSteamLevel, 23), (ISteamUser_m_RequestStoreAuthURL, 24),
      (ISteamUser_m_BIsPhoneVerified, 25), (ISteamUser_m_BIsTwoFactorEnabled, 26),
      (ISteamUser_m_BIsPhoneIdentifying, 27), (ISteamUser_m_BIsPhoneRequiringVerification, 28)]"

definition ISteamUser_idxs_018 :: "(nat \<times> int) list" where
  "ISteamUser_idxs_018 =
     [(ISteamUser_m_GetHSteamUser, 0), (ISteamUser_m_BLoggedOn, 1), (ISteamUser_m_GetSteamID, 2),
      (ISteamUser_m_InitiateGameConnection, 3), (ISteamUser_m_TerminateGameConnection, 4),
      (ISteamUser_m_TrackAppUsageEvent, 5), (ISteamUser_m_GetUserDataFolder, 6),
      (ISteamUser_m_StartVoiceRecording, 7), (ISteamUser_m_StopVoiceRecording, 8),
      (ISteamUser_m_GetAvailableVoice, 9), (ISteamUser_m_GetVoice, 10),
      (ISteamUser_m_DecompressVoice, 11), (ISteamUser_m_GetVoiceOptimalSampleRate, 12),
      (ISteamUser_m_GetAuthSessionTicket, 13), (ISteamUser_m_BeginAuthSession, 14),
      (ISteamUser_m_EndAuthSession, 15), (ISteamUser_m_CancelAuthTicket, 16),
      (ISteamUser_m_UserHasLicenseForApp, 17), (ISteamUser_m_BIsBehindNAT, 18),
      (ISteamUser_m_AdvertiseGame, 19), (ISteamUser_m_RequestEncryptedAppTicket, 20),
      (ISteamUser_m_GetEncryptedAppTicket, 21), (ISteamUser_m_GetGameBadgeLevel, 22),
      (ISteamUser_m_GetPlayerSteamLevel, 23), (ISteamUser_m_RequestStoreAuthURL, 24)]"

definition ISteamUser_idxs_017 :: "(nat \<times> int) list" where
  "ISteamUser_idxs_017 =
     [(ISteamUser_m_GetHSteamUser, 0), (ISteamUser_m_BLoggedOn, 1), (ISteamUser_m_GetSteamID, 2),
      (ISteamUser_m_InitiateGameConnection, 3), (ISteamUser_m_TerminateGameConnection, 4),
      (ISteamUser_m_TrackAppUsageEvent, 5), (ISteamUser_m_GetUserDataFolder, 6),
      (ISteamUser_m_StartVoiceRecording, 7), (ISteamUser_m_StopVoiceRecording, 8),
      (ISteamUser_m_GetAvailableVoice, 9), (ISteamUser_m_GetVoice, 10),
      (ISteamUser_m_DecompressVoice, 11), (ISteamUser_m_GetVoiceOptimalSampleRate, 12),
      (ISteamUser_m_GetAuthSessionTicket, 13), (ISteamUser_m_BeginAuthSession, 14),
      (ISteamUser_m_EndAuthSession, 15), (ISteamUser_m_CancelAuthTicket, 16),
      (ISteamUser_m_UserHasLicenseForApp, 17), (ISteamUser_m_BIsBehindNAT, 18),
      (ISteamUser_m_AdvertiseGame, 19), (ISteamUser_m_RequestEncryptedAppTicket, 20),
      (ISteamUser_m_GetEncryptedAppTicket, 21), (ISteamUser_m_GetGameBadgeLevel, 22),
      (ISteamUser_m_GetPlayerSteamLevel, 23)]"

definition ISteamUser_idxs_016 :: "(nat \<times> int) list" where
  "ISteamUser_idxs_016 =
     [(ISteamUser_m_GetHSteamUser, 0), (ISteamUser_m_BLoggedOn, 1), (ISteamUser_m_GetSteamID, 2),
      (ISteamUser_m_InitiateGameConnection, 3), (ISteamUser_m_TerminateGameConnection, 4),
      (ISteamUser_m_TrackAppUsageEvent, 5), (ISteamUser_m_GetUserDataFolder, 6),
      (ISteamUser_m_StartVoiceRecording, 7), (ISteamUser_m_StopVoiceRecording, 8),
      (ISteamUser_m_GetAvailableVoice, 9), (ISteamUser_m_GetVoice, 10),
      (ISteamUser_m_DecompressVoice, 11), (ISteamUser_m_GetVoiceOptimalSampleRate, 12),
      (ISteamUser_m_GetAuthSessionTicket, 13), (ISteamUser_m_BeginAuthSession, 14),
      (ISteamUser_m_EndAuthSession, 15), (ISteamUser_m_CancelAuthTicket, 16),
      (ISteamUser_m_UserHasLicenseForApp, 17), (ISteamUser_m_BIsBehindNAT, 18),
      (ISteamUser_m_AdvertiseGame, 19), (ISteamUser_m_RequestEncryptedAppTicket, 20),
      (ISteamUser_m_GetEncryptedAppTicket, 21)]"

definition ISteamUser_idxs_014 :: "(nat \<times> int) list" where
  "ISteamUser_idxs_014 =
     [(ISteamUser_m_GetHSteamUser, 0), (ISteamUser_m_BLoggedOn, 1), (ISteamUser_m_GetSteamID, 2),
      (ISteamUser_m_InitiateGameConnection, 3), (ISteamUser_m_TerminateGameConnection, 4),
      (ISteamUser_m_TrackAppUsageEvent, 5), (ISteamUser_m_GetUserDataFolder, 6),
      (ISteamUser_m_StartVoiceRecording, 7), (ISteamUser_m_StopVoiceRecording, 8),
      (ISteamUser_m_GetAvailableVoice, 9), (ISteamUser_m_GetVoice, 10),
      (ISteamUser_m_DecompressVoice, 11), (ISteamUser_m_GetAuthSessionTicket, 12),
      (ISteamUser_m_BeginAuthSession, 13), (ISteamUser_m_EndAuthSession, 14),
      (ISteamUser_m_CancelAuthTicket, 15), (ISteamUser_m_UserHasLicenseForApp, 16),
      (ISteamUser_m_BIsBehindNAT, 17), (ISteamUser_m_AdvertiseGame, 18),
      (ISteamUser_m_RequestEncryptedAppTicket, 19), (ISteamUser_m_GetEncryptedAppTicket, 20)]"

subsection \<open>Interface wrapper descriptors (\<^verbatim>\<open>steam_api.hpp\<close>, lines 33--51)\<close>

text \<open>
  \<^verbatim>\<open>wrapper_desc<max_num_methods>\<close>. The template parameter is the field
  \<open>max_num_methods\<close>. The member array \<^verbatim>\<open>vtable\<close> lives in the flat store:
  the field \<open>vtable\<close> is \<^verbatim>\<open>vtable.data()\<close>, the address of its first cell, and the
  array occupies \<open>max_num_methods\<close> cells from there. \<open>vm_idxs\<close> is the array of
  slot indices, \<open>-1\<close> for a method that is unavailable. A descriptor of static storage
  is zero-initialised and then constructed, which fills \<open>vm_idxs\<close> with \<open>-1\<close>.
\<close>

record wrapper_desc =
  max_num_methods :: nat
  num_methods :: nat
  orig_vtable :: addr
  iface :: addr
  vtable :: addr
  vm_idxs :: "int list"

definition new_wrapper_desc :: "nat \<Rightarrow> addr \<Rightarrow> wrapper_desc" where
  "new_wrapper_desc n a =
     \<lparr>max_num_methods = n, num_methods = 0, orig_vtable = 0, iface = 0, vtable = a,
      vm_idxs = replicate n (- 1)\<rparr>"

text \<open>\<^verbatim>\<open>desc.vm_idxs[m] = i\<close>, and a run of such assignments in source order.\<close>

definition set_idx :: "nat \<Rightarrow> int \<Rightarrow> wrapper_desc \<Rightarrow> wrapper_desc" where
  "set_idx m i d = d\<lparr>vm_idxs := (vm_idxs d)[m := i]\<rparr>"

fun assign_idxs :: "(nat \<times> int) list \<Rightarrow> wrapper_desc \<Rightarrow> wrapper_desc" where
  "assign_idxs [] d = d"
| "assign_idxs ((m, i) # rest) d = assign_idxs rest (set_idx m i d)"

text \<open>
  \<^verbatim>\<open>for (std::size_t i{}; i < desc.num_methods; ++i) desc.vm_idxs[i] = i;\<close>
  started at \<open>i\<close>.
\<close>

function identity_idxs :: "nat \<Rightarrow> wrapper_desc \<Rightarrow> wrapper_desc" where
  "identity_idxs i d =
     (if i < num_methods d then identity_idxs (Suc i) (set_idx i (int i) d) else d)"
  by pat_completeness auto
termination
  by (relation "measure (\<lambda>(i, d). num_methods d - i)") (auto simp: set_idx_def)

declare identity_idxs.simps [simp del]

subsection \<open>The store and the vtable shadow (\<^verbatim>\<open>steam_api.cpp\<close>, lines 383--387)\<close>

text \<open>\<^verbatim>\<open>std::ranges::copy_n(src, n, dst)\<close>, one cell after the other.\<close>

fun copy_n :: "store \<Rightarrow> addr \<Rightarrow> nat \<Rightarrow> addr \<Rightarrow> store" where
  "copy_n m src 0 dst = m"
| "copy_n m src (Suc n) dst = copy_n (m(dst := m src)) (Suc src) n (Suc dst)"

text \<open>
  The four statements that shadow one interface instance \<open>ptr\<close>:
  \<^verbatim>\<open>desc.orig_vtable = ptr->vtable; desc.iface = ptr;\<close>
  \<^verbatim>\<open>copy_n(ptr->vtable, desc.num_methods, desc.vtable.begin());\<close>
  \<^verbatim>\<open>ptr->vtable = desc.vtable.data();\<close>
  The instance's first cell holds its table pointer.
\<close>

definition shadow :: "addr \<Rightarrow> wrapper_desc \<Rightarrow> store \<Rightarrow> fault + (wrapper_desc \<times> store)" where
  "shadow ptr d m =
     (if ptr = 0 then Inl NullDereference
      else
        let d1 = d\<lparr>orig_vtable := m ptr\<rparr>;
            d2 = d1\<lparr>iface := ptr\<rparr>;
            m1 = copy_n m (m ptr) (num_methods d2) (vtable d2);
            m2 = m1(ptr := vtable d2)
        in Inr (d2, m2))"

text \<open>
  \<^verbatim>\<open>desc.vtable[idx] = f\<close> with an \<^verbatim>\<open>int\<close> index into the
  \<^verbatim>\<open>std::array\<close>, and \<^verbatim>\<open>desc.orig_vtable[idx]\<close>, a read of the vendor's table,
  which has \<open>num_methods\<close> entries.
\<close>

definition vtable_put :: "wrapper_desc \<Rightarrow> int \<Rightarrow> cell \<Rightarrow> store \<Rightarrow> fault + store" where
  "vtable_put d idx f m =
     (if 0 \<le> idx \<and> idx < int (max_num_methods d) then Inr (m(vtable d + nat idx := f))
      else Inl (OutOfBoundsWrite idx))"

definition orig_vtable_get :: "wrapper_desc \<Rightarrow> int \<Rightarrow> store \<Rightarrow> fault + cell" where
  "orig_vtable_get d idx m =
     (if orig_vtable d = 0 then Inl NullDereference
      else if 0 \<le> idx \<and> idx < int (num_methods d) then Inr (m (orig_vtable d + nat idx))
      else Inl (OutOfBoundsRead idx))"

text \<open>A run of overrides \<^verbatim>\<open>desc.vtable[idx] = f\<close>, in order.\<close>

fun vtable_puts :: "wrapper_desc \<Rightarrow> (int \<times> cell) list \<Rightarrow> store \<Rightarrow> fault + store" where
  "vtable_puts d [] m = Inr m"
| "vtable_puts d ((idx, f) # rest) m = and_then (vtable_put d idx f m) (vtable_puts d rest)"

subsection \<open>Shapes of the interfaces by version (\<^verbatim>\<open>steam_api.cpp\<close>, lines 392--1706)\<close>

definition ISteamMatchmaking_shape :: "version \<Rightarrow> wrapper_desc \<Rightarrow> wrapper_desc" where
  "ISteamMatchmaking_shape v d =
     (if v \<ge> 0x00010017002D005D then identity_idxs 0 (d\<lparr>num_methods := 38\<rparr>)
      else assign_idxs ISteamMatchmaking_idxs_008 (d\<lparr>num_methods := 36\<rparr>))"

definition ISteamUGC_shape :: "version \<Rightarrow> wrapper_desc \<Rightarrow> wrapper_desc" where
  "ISteamUGC_shape v d =
     (if v \<ge> 0x0009003C002C000A then identity_idxs 0 (d\<lparr>num_methods := 96\<rparr>)
      else if v \<ge> 0x0008006100630046 then identity_idxs 0 (d\<lparr>num_methods := 94\<rparr>)
      else if v \<ge> 0x0008002100090017 then assign_idxs ISteamUGC_idxs_018 (d\<lparr>num_methods := 90\<rparr>)
      else if v \<ge> 0x000700600000002C then assign_idxs ISteamUGC_idxs_017 (d\<lparr>num_methods := 89\<rparr>)
      else if v \<ge> 0x0006005B00150039 then assign_idxs ISteamUGC_idxs_016 (d\<lparr>num_methods := 86\<rparr>)
      else if v \<ge> 0x0006001C00120056 then assign_idxs ISteamUGC_idxs_015 (d\<lparr>num_methods := 84\<rparr>)
      else if v \<ge> 0x000500350021004E then assign_idxs ISteamUGC_idxs_014 (d\<lparr>num_methods := 79\<rparr>)
      else if v \<ge> 0x000500130026003E then assign_idxs ISteamUGC_idxs_013 (d\<lparr>num_methods := 78\<rparr>)
      else if v \<ge> 0x0004005F0014001E then assign_idxs ISteamUGC_idxs_012 (d\<lparr>num_methods := 76\<rparr>)
      else if v \<ge> 0x0003005C0048003A then assign_idxs ISteamUGC_idxs_010 (d\<lparr>num_methods := 74\<rparr>)
      else if v \<ge> 0x0003003E00520052 then assign_idxs ISteamUGC_idxs_009 (d\<lparr>num_methods := 67\<rparr>)
      else if v \<ge> 0x0003002A003D0042 then assign_idxs ISteamUGC_idxs_008 (d\<lparr>num_methods := 63\<rparr>)
      else if v \<ge> 0x00020059002D0004 then assign_idxs ISteamUGC_idxs_007 (d\<lparr>num_methods := 58\<rparr>)
      else if v \<ge> 0x0002004D00250052 then assign_idxs ISteamUGC_idxs_005 (d\<lparr>num_methods := 46\<rparr>)
      else if v \<ge> 0x000200130022005D then assign_idxs ISteamUGC_idxs_002 (d\<lparr>num_methods := 31\<rparr>)
      else assign_idxs ISteamUGC_idxs_001 (d\<lparr>num_methods := 14\<rparr>))"

definition ISteamUser_shape :: "version \<Rightarrow> wrapper_desc \<Rightarrow> wrapper_desc" where
  "ISteamUser_shape v d =
     (if v \<ge> 0x000800020015005F then identity_idxs 0 (d\<lparr>num_methods := 33\<rparr>)
      else if v \<ge> 0x0005005C0024004B then assign_idxs ISteamUser_idxs_021 (d\<lparr>num_methods := 32\<rparr>)
      else if v \<ge> 0x0004005F0014001E then assign_idxs ISteamUser_idxs_020 (d\<lparr>num_methods := 31\<rparr>)
      else if v \<ge> 0x0003002A003D0042 then assign_idxs ISteamUser_idxs_019 (d\<lparr>num_methods := 29\<rparr>)
      else if v \<ge> 0x0002003B0033002B then assign_idxs ISteamUser_idxs_018 (d\<lparr>num_methods := 25\<rparr>)
      else if v \<ge> 0x00010053001F0025 then assign_idxs ISteamUser_idxs_017 (d\<lparr>num_methods := 24\<rparr>)
      else if v \<ge> 0x000100060063003D then assign_idxs ISteamUser_idxs_016 (d\<lparr>num_methods := 22\<rparr>)
      else assign_idxs ISteamUser_idxs_014 (d\<lparr>num_methods := 21\<rparr>))"

definition ISteamUtils_num_methods_at :: "version \<Rightarrow> nat" where
  "ISteamUtils_num_methods_at v =
     (if v \<ge> 0x000600060063003B then 39
      else if v \<ge> 0x0003005C0048003A then 34
      else if v \<ge> 0x0003002A003D0042 then 28
      else if v \<ge> 0x000200130022005D then 26
      else if v \<ge> 0x00010053001F0025 then 25
      else 23)"

subsection \<open>Program state and the outside world\<close>

text \<open>The functions of this library whose addresses are stored into tables.\<close>

datatype wrapper_fn =
    Fn_SteamAPI_Init
  | Fn_SteamApps_BIsSubscribed
  | Fn_SteamApps_BIsSubscribedApp
  | Fn_SteamApps_BIsDlcInstalled
  | Fn_SteamApps_BIsSubscribedFromFreeWeekend
  | Fn_SteamApps_GetDLCCount
  | Fn_SteamApps_BGetDLCDataByIndex
  | Fn_SteamApps_BIsAppInstalled
  | Fn_SteamApps_GetAppOwner
  | Fn_SteamApps_BIsSubscribedFromFamilySharing
  | Fn_SteamApps_BIsTimedTrial
  | Fn_SteamUser_UserHasLicenseForApp
  | Fn_SteamUtils_GetAppID
  | Fn_SteamMatchmakingServers_RequestInternetServerList
  | Fn_SteamMatchmakingServers_ServerRules
  | Fn_SteamUGC_SubscribeItem
  | Fn_SteamUGC_GetNumSubscribedItems
  | Fn_SteamUGC_GetSubscribedItems
  | Fn_SteamUGC_GetItemInstallInfo
  | Fn_SteamUGC_GetItemUpdateInfo
  | Fn_SteamUtils_IsAPICallCompleted
  | Fn_SteamUtils_GetAPICallResult

text \<open>
  What \<^verbatim>\<open>FindResourceW\<close>, \<^verbatim>\<open>LoadResource\<close>, \<^verbatim>\<open>LockResource\<close> and
  \<^verbatim>\<open>VerQueryValueW\<close> find in \<^verbatim>\<open>steam_api64.dll\<close>: the first call that fails,
  or \<^verbatim>\<open>dwFileVersionMS\<close> and \<^verbatim>\<open>dwFileVersionLS\<close>.
\<close>

datatype version_resource =
    ResourceNotFound
  | ResourceNotLoaded
  | ResourceNotLocked
  | QueryValueFailed
  | FixedFileInfo "32 word" "32 word"

text \<open>
  Everything the wrapper asks of the vendor library, the operating system and
  tek-steamclient. The vendor's \<^verbatim>\<open>SteamAPI_Init\<close> is called at most twice; its two
  results are given. Calls through a function pointer of the vendor are functions of
  that pointer.
\<close>

record platform =
  SteamAPI_Init_orig_1st :: bool
  SteamAPI_Init_orig_2nd :: bool
  steam_api_version :: version_resource
  generic_interface :: "string \<Rightarrow> addr"
  exported_getter :: "string \<Rightarrow> addr"
  fn_addr :: "wrapper_fn \<Rightarrow> cell"
  call_GetSteamID :: "cell \<Rightarrow> addr \<Rightarrow> 64 word"
  call_BIsSubscribedApp :: "cell \<Rightarrow> addr \<Rightarrow> 32 word \<Rightarrow> bool"
  tek_sc_loads :: bool
  pics_dlc :: "(32 word \<times> string) list"
  ws_dir_exists :: bool
  ws_dir_items :: "64 word list"
  am_create_ok :: bool
  thread_starts :: bool

text \<open>The globals of \<^verbatim>\<open>tek-steamclient.cpp\<close> and of \<^verbatim>\<open>steam/346110.cpp\<close>.\<close>

record steamclient_state =
  loaded :: bool
  am :: bool
  jobs :: "64 word list"

record game_346110 =
  show_be_servers :: bool
  show_unavailable_servers :: bool
  ws_dir_path :: string
  ws_am_path :: string
  unavailable_dlc :: "string list"
  mods :: "64 word list"
  ws_descs :: "64 word \<rightharpoonup> cell"
  SteamMatchmakingServers_RequestInternetServerList_orig :: cell
  SteamMatchmakingServers_ServerRules_orig :: cell
  SteamMatchmakingServers_CancelServerQuery_orig :: cell
  SteamUtils_IsAPICallCompleted_orig :: cell
  SteamUtils_GetAPICallResult_orig :: cell

datatype message =
    Msg_SteamAPI_Init_returned_false
  | Msg_Unsupported_version version
  | Msg_Could_not_load_version

text \<open>
  The globals of \<^verbatim>\<open>steam_api.hpp\<close> and \<^verbatim>\<open>steam_api.cpp\<close>, the settings, the store,
  the environment variable \<^verbatim>\<open>SteamAppId\<close> (as the number written into it) and the
  error boxes shown so far.
\<close>

record steam_api_state =
  settings :: steam_options
  ver :: version
  steam_id :: "64 word"
  ISteamApps_desc :: wrapper_desc
  ISteamMatchmaking_desc :: wrapper_desc
  ISteamMatchmakingServers_desc :: wrapper_desc
  ISteamUGC_desc :: wrapper_desc
  ISteamUser_desc :: wrapper_desc
  ISteamUtils_desc :: wrapper_desc
  SteamApps_BIsSubscribedApp_orig :: cell
  SteamApps_BIsAppInstalled_orig :: cell
  mem :: store
  SteamAppId :: "32 word"
  shown :: "message list"
  steamclient :: steamclient_state
  game :: game_346110

subsection \<open>Installing wrappers into a shadow table\<close>

text \<open>
  \<open>install_at sel m f\<close> is the unguarded statement
  \<^verbatim>\<open>desc.vtable[desc.vm_idxs[m]] = f\<close> on the descriptor \<open>sel\<close> selects;
  \<open>install_if_available\<close> is the guarded form
  \<^verbatim>\<open>idx = desc.vm_idxs[m]; if (idx >= 0) desc.vtable[idx] = f\<close>;
  \<open>orig_at\<close> reads \<^verbatim>\<open>desc.orig_vtable[desc.vm_idxs[m]]\<close>.
\<close>

definition install_at ::
  "(steam_api_state \<Rightarrow> wrapper_desc) \<Rightarrow> nat \<Rightarrow> cell \<Rightarrow> steam_api_state
     \<Rightarrow> fault + steam_api_state" where
  "install_at sel m f st =
     and_then (vtable_put (sel st) (vm_idxs (sel st) ! m) f (mem st))
       (\<lambda>m'. Inr (st\<lparr>mem := m'\<rparr>))"

definition install_if_available ::
  "(steam_api_state \<Rightarrow> wrapper_desc) \<Rightarrow> nat \<Rightarrow> cell \<Rightarrow> steam_api_state
     \<Rightarrow> fault + steam_api_state" where
  "install_if_available sel m f st =
     (let idx = vm_idxs (sel st) ! m in
      if idx \<ge> 0 then
        and_then (vtable_put (sel st) idx f (mem st)) (\<lambda>m'. Inr (st\<lparr>mem := m'\<rparr>))
      else Inr st)"

definition orig_at ::
  "(steam_api_state \<Rightarrow> wrapper_desc) \<Rightarrow> nat \<Rightarrow> steam_api_state \<Rightarrow> fault + cell" where
  "orig_at sel m st = orig_vtable_get (sel st) (vm_idxs (sel st) ! m) (mem st)"

subsection \<open>\<^verbatim>\<open>SteamAPI_Init\<close>: the real initialisation and the spoofed application ID (lines 152--180)\<close>

text \<open>
  The wrapper writes \<^verbatim>\<open>spoof_app_id ? spoof_app_id : app_id\<close> into the environment,
  calls the vendor's \<^verbatim>\<open>SteamAPI_Init\<close>, and, when no spoof ID was configured,
  records the ID that worked: \<open>app_id\<close> after a first success, \<open>480\<close> after a
  successful second attempt.
\<close>

definition call_SteamAPI_Init_orig :: "platform \<Rightarrow> steam_api_state \<Rightarrow> bool \<times> steam_api_state" where
  "call_SteamAPI_Init_orig pf st =
     (let a = app_id (settings st);
          sp = spoof_app_id (settings st);
          st1 = st\<lparr>SteamAppId := (if sp \<noteq> 0 then sp else a)\<rparr>;
          res = SteamAPI_Init_orig_1st pf
      in if sp = 0 then
           (if res then (res, st1\<lparr>settings := (settings st1)\<lparr>spoof_app_id := a\<rparr>\<rparr>)
            else
              let st2 = st1\<lparr>SteamAppId := 480\<rparr>;
                  res2 = SteamAPI_Init_orig_2nd pf
              in if res2 then (res2, st2\<lparr>settings := (settings st2)\<lparr>spoof_app_id := 480\<rparr>\<rparr>)
                 else (res2, st2))
         else (res, st1))"

subsection \<open>The version probe (lines 181--205)\<close>

definition probe_version :: "platform \<Rightarrow> version option" where
  "probe_version pf =
     (case steam_api_version pf of
        FixedFileInfo ms ls \<Rightarrow> Some (ucast ls OR push_bit 32 (ucast ms))
      | _ \<Rightarrow> None)"

subsection \<open>Obtaining the interface pointers (lines 216--361)\<close>

definition ISteamClient_interface_ver :: "version \<Rightarrow> string" where
  "ISteamClient_interface_ver v =
     (if v \<ge> 0x0008003F000B0054 then ''SteamClient021''
      else if v \<ge> 0x000500350021004E then ''SteamClient020''
      else if v \<ge> 0x0005001900410015 then ''SteamClient019''
      else if v \<ge> 0x0004005F0014001E then ''SteamClient018''
      else ''SteamClient017'')"

definition ISteamUser_interface_ver :: "version \<Rightarrow> string" where
  "ISteamUser_interface_ver v =
     (if v \<ge> 0x000800020015005F then ''SteamUser023''
      else if v \<ge> 0x000700600000002C then ''SteamUser022''
      else if v \<ge> 0x0005005C0024004B then ''SteamUser021''
      else if v \<ge> 0x0004005F0014001E then ''SteamUser020''
      else ''SteamUser019'')"

definition ISteamUtils_interface_ver :: "version \<Rightarrow> string" where
  "ISteamUtils_interface_ver v =
     (if v \<ge> 0x000600060063003B then ''SteamUtils010''
      else if v \<ge> 0x0003005C0048003A then ''SteamUtils009''
      else ''SteamUtils008'')"

record iface_ptrs =
  ISteamApps_ptr :: addr
  ISteamMatchmaking_ptr :: addr
  ISteamMatchmakingServers_ptr :: addr
  ISteamUGC_ptr :: addr
  ISteamUser_ptr :: addr
  ISteamUtils_ptr :: addr

text \<open>
  From version 03.42.61.66 on the pointers come from
  \<^verbatim>\<open>ISteamClient::GetISteamGenericInterface\<close>, by interface version string; the
  request for ISteamUGC is made while \<^verbatim>\<open>interface_ver\<close> still holds the ISteamClient
  string (line 269), and the ISteamUGC string computed after it (lines 271--307) is
  overwritten before any use. Older versions export one getter per interface, and
  ISteamUGC exists from version 01.98.31.73 on; before that its pointer is null.
\<close>

definition obtain_interfaces :: "platform \<Rightarrow> version \<Rightarrow> iface_ptrs" where
  "obtain_interfaces pf v =
     (if v \<ge> 0x0003002A003D0042 then
        \<lparr>ISteamApps_ptr = generic_interface pf ''STEAMAPPS_INTERFACE_VERSION008'',
         ISteamMatchmaking_ptr = generic_interface pf ''SteamMatchMaking009'',
         ISteamMatchmakingServers_ptr = generic_interface pf ''SteamMatchMakingServers002'',
         ISteamUGC_ptr = generic_interface pf (ISteamClient_interface_ver v),
         ISteamUser_ptr = generic_interface pf (ISteamUser_interface_ver v),
         ISteamUtils_ptr = generic_interface pf (ISteamUtils_interface_ver v)\<rparr>
      else
        \<lparr>ISteamApps_ptr = exported_getter pf ''SteamApps'',
         ISteamMatchmaking_ptr = exported_getter pf ''SteamMatchmaking'',
         ISteamMatchmakingServers_ptr = exported_getter pf ''SteamMatchmakingServers'',
         ISteamUGC_ptr = (if v \<ge> 0x00010062001F0049 then exported_getter pf ''SteamUGC'' else 0),
         ISteamUser_ptr = exported_getter pf ''SteamUser'',
         ISteamUtils_ptr = exported_getter pf ''SteamUtils''\<rparr>)"

subsection \<open>Setting up the six interface wrappers (lines 362--1714)\<close>

text \<open>
  Each function is the source's block for one interface, in its order: the version
  chain sets \<open>num_methods\<close> (and, where the branch does so, \<open>vm_idxs\<close>), the
  instance is shadowed, and for ISteamApps, ISteamMatchmakingServers and ISteamUtils
  the identity loop over \<open>vm_idxs\<close> follows.
\<close>

definition setup_ISteamApps ::
  "version \<Rightarrow> addr \<Rightarrow> wrapper_desc \<Rightarrow> store \<Rightarrow> fault + (wrapper_desc \<times> store)" where
  "setup_ISteamApps v ptr d m =
     and_then (shadow ptr (d\<lparr>num_methods := ISteamApps_num_methods_at v\<rparr>) m)
       (\<lambda>(d1, m1). Inr (identity_idxs 0 d1, m1))"

definition setup_ISteamMatchmaking ::
  "version \<Rightarrow> addr \<Rightarrow> wrapper_desc \<Rightarrow> store \<Rightarrow> fault + (wrapper_desc \<times> store)" where
  "setup_ISteamMatchmaking v ptr d m = shadow ptr (ISteamMatchmaking_shape v d) m"

definition setup_ISteamMatchmakingServers ::
  "version \<Rightarrow> addr \<Rightarrow> wrapper_desc \<Rightarrow> store \<Rightarrow> fault + (wrapper_desc \<times> store)" where
  "setup_ISteamMatchmakingServers v ptr d m =
     and_then (shadow ptr (d\<lparr>num_methods := 17\<rparr>) m)
       (\<lambda>(d1, m1). Inr (identity_idxs 0 d1, m1))"

definition setup_ISteamUGC ::
  "version \<Rightarrow> addr \<Rightarrow> wrapper_desc \<Rightarrow> store \<Rightarrow> fault + (wrapper_desc \<times> store)" where
  "setup_ISteamUGC v ptr d m =
     (if ptr \<noteq> 0 then shadow ptr (ISteamUGC_shape v d) m else Inr (d, m))"

definition setup_ISteamUser ::
  "version \<Rightarrow> addr \<Rightarrow> wrapper_desc \<Rightarrow> store \<Rightarrow> fault + (wrapper_desc \<times> store)" where
  "setup_ISteamUser v ptr d m = shadow ptr (ISteamUser_shape v d) m"

definition setup_ISteamUtils ::
  "version \<Rightarrow> addr \<Rightarrow> wrapper_desc \<Rightarrow> store \<Rightarrow> fault + (wrapper_desc \<times> store)" where
  "setup_ISteamUtils v ptr d m =
     and_then (shadow ptr (d\<lparr>num_methods := ISteamUtils_num_methods_at v\<rparr>) m)
       (\<lambda>(d1, m1). Inr (identity_idxs 0 d1, m1))"

definition setup_interfaces :: "iface_ptrs \<Rightarrow> steam_api_state \<Rightarrow> fault + steam_api_state" where
  "setup_interfaces ps st =
     and_then (setup_ISteamApps (ver st) (ISteamApps_ptr ps) (ISteamApps_desc st) (mem st))
       (\<lambda>(d, m). let st = st\<lparr>ISteamApps_desc := d, mem := m\<rparr> in
     and_then (setup_ISteamMatchmaking (ver st) (ISteamMatchmaking_ptr ps)
                 (ISteamMatchmaking_desc st) (mem st))
       (\<lambda>(d, m). let st = st\<lparr>ISteamMatchmaking_desc := d, mem := m\<rparr> in
     and_then (setup_ISteamMatchmakingServers (ver st) (ISteamMatchmakingServers_ptr ps)
                 (ISteamMatchmakingServers_desc st) (mem st))
       (\<lambda>(d, m). let st = st\<lparr>ISteamMatchmakingServers_desc := d, mem := m\<rparr> in
     and_then (setup_ISteamUGC (ver st) (ISteamUGC_ptr ps) (ISteamUGC_desc st) (mem st))
       (\<lambda>(d, m). let st = st\<lparr>ISteamUGC_desc := d, mem := m\<rparr> in
     and_then (setup_ISteamUser (ver st) (ISteamUser_ptr ps) (ISteamUser_desc st) (mem st))
       (\<lambda>(d, m). let st = st\<lparr>ISteamUser_desc := d, mem := m\<rparr> in
     and_then (setup_ISteamUtils (ver st) (ISteamUtils_ptr ps) (ISteamUtils_desc st) (mem st))
       (\<lambda>(d, m). Inr (st\<lparr>ISteamUtils_desc := d, mem := m\<rparr>)))))))"

subsection \<open>The common wrappers (lines 1715--1776)\<close>

definition setup_common_wrappers :: "platform \<Rightarrow> steam_api_state \<Rightarrow> fault + steam_api_state" where
  "setup_common_wrappers pf st =
     and_then (orig_at ISteamUser_desc ISteamUser_m_GetSteamID st) (\<lambda>f.
     let st = st\<lparr>steam_id := call_GetSteamID pf f (iface (ISteamUser_desc st))\<rparr> in
     and_then (install_at ISteamApps_desc ISteamApps_m_BIsSubscribed
                 (fn_addr pf Fn_SteamApps_BIsSubscribed) st) (\<lambda>st.
     and_then (orig_at ISteamApps_desc ISteamApps_m_BIsSubscribedApp st) (\<lambda>f.
     let st = st\<lparr>SteamApps_BIsSubscribedApp_orig := f\<rparr> in
     and_then (install_at ISteamApps_desc ISteamApps_m_BIsSubscribedApp
                 (fn_addr pf Fn_SteamApps_BIsSubscribedApp) st) (\<lambda>st.
     and_then (install_at ISteamApps_desc ISteamApps_m_BIsDlcInstalled
                 (fn_addr pf Fn_SteamApps_BIsDlcInstalled) st) (\<lambda>st.
     and_then (install_if_available ISteamApps_desc ISteamApps_m_BIsSubscribedFromFreeWeekend
                 (fn_addr pf Fn_SteamApps_BIsSubscribedFromFreeWeekend) st) (\<lambda>st.
     and_then (install_if_available ISteamApps_desc ISteamApps_m_GetDLCCount
                 (fn_addr pf Fn_SteamApps_GetDLCCount) st) (\<lambda>st.
     and_then (install_if_available ISteamApps_desc ISteamApps_m_BGetDLCDataByIndex
                 (fn_addr pf Fn_SteamApps_BGetDLCDataByIndex) st) (\<lambda>st.
     and_then (let idx = vm_idxs (ISteamApps_desc st) ! ISteamApps_m_BIsAppInstalled in
               if idx \<ge> 0 then
                 and_then (orig_vtable_get (ISteamApps_desc st) idx (mem st)) (\<lambda>f.
                 and_then (vtable_put (ISteamApps_desc st) idx
                             (fn_addr pf Fn_SteamApps_BIsAppInstalled) (mem st)) (\<lambda>m'.
                 Inr (st\<lparr>SteamApps_BIsAppInstalled_orig := f, mem := m'\<rparr>)))
               else Inr st) (\<lambda>st.
     and_then (install_if_available ISteamApps_desc ISteamApps_m_GetAppOwner
                 (fn_addr pf Fn_SteamApps_GetAppOwner) st) (\<lambda>st.
     and_then (install_if_available ISteamApps_desc ISteamApps_m_BIsSubscribedFromFamilySharing
                 (fn_addr pf Fn_SteamApps_BIsSubscribedFromFamilySharing) st) (\<lambda>st.
     and_then (install_if_available ISteamApps_desc ISteamApps_m_BIsTimedTrial
                 (fn_addr pf Fn_SteamApps_BIsTimedTrial) st) (\<lambda>st.
     and_then (install_at ISteamUser_desc ISteamUser_m_UserHasLicenseForApp
                 (fn_addr pf Fn_SteamUser_UserHasLicenseForApp) st) (\<lambda>st.
     install_at ISteamUtils_desc ISteamUtils_m_GetAppID
       (fn_addr pf Fn_SteamUtils_GetAppID) st)))))))))))))"

subsection \<open>tek-steamclient (\<^verbatim>\<open>tek-steamclient.cpp\<close>)\<close>

definition steamclient_load :: "platform \<Rightarrow> steamclient_state \<Rightarrow> steamclient_state" where
  "steamclient_load pf sc = (if loaded sc then sc else sc\<lparr>loaded := tek_sc_loads pf\<rparr>)"

text \<open>
  \<^verbatim>\<open>update_dlc\<close>: the DLC reported for the application that the settings do not list
  yet are appended to \<open>dlc\<close> and added to \<open>installed_dlc\<close>.
\<close>

definition update_dlc :: "platform \<Rightarrow> steam_options \<Rightarrow> steam_options" where
  "update_dlc pf s =
     (let new = filter (\<lambda>(i, n). i \<notin> set (map fst (dlc s))) (pics_dlc pf)
      in s\<lparr>dlc := dlc s @ new, installed_dlc := installed_dlc s \<union> set (map fst new)\<rparr>)"

text \<open>
  \<^verbatim>\<open>install_workshop_item\<close> (lines 443--463): create the application manager if
  there is none, then start the job thread for the item.
\<close>

definition install_workshop_item ::
  "platform \<Rightarrow> 64 word \<Rightarrow> steamclient_state \<Rightarrow> bool \<times> steamclient_state" where
  "install_workshop_item pf ident sc =
     (if \<not> am sc \<and> \<not> am_create_ok pf then (False, sc)
      else
        let sc1 = sc\<lparr>am := True\<rparr> in
        if thread_starts pf then (True, sc1\<lparr>jobs := jobs sc1 @ [ident]\<rparr>) else (True, sc1))"

subsection \<open>Game-specific code for app 346110 (\<^verbatim>\<open>steam/346110.cpp\<close>)\<close>

text \<open>
  \<^verbatim>\<open>SteamUGC_SubscribeItem\<close> (lines 224--245): \<^verbatim>\<open>ws_descs.try_emplace(id)\<close>
  inserts a null descriptor pointer when the key is new, and only then the installation
  is started. The result is the ID.
\<close>

definition SteamUGC_SubscribeItem ::
  "platform \<Rightarrow> 64 word \<Rightarrow> game_346110 \<times> steamclient_state
     \<Rightarrow> 64 word \<times> game_346110 \<times> steamclient_state" where
  "SteamUGC_SubscribeItem pf ident gs =
     (let g = fst gs; sc = snd gs;
          emplaced = (ws_descs g ident = None);
          g1 = (if emplaced then g\<lparr>ws_descs := (ws_descs g)(ident \<mapsto> 0)\<rparr> else g)
      in if emplaced then (ident, g1, snd (install_workshop_item pf ident sc))
         else (ident, g1, sc))"

text \<open>
  The DLC maps \<^verbatim>\<open>steam_api_init_346110\<close> asks the original
  \<^verbatim>\<open>BIsSubscribedApp\<close> about (lines 432--465), in order, with the map names added
  for an application that is not owned.
\<close>

definition dlc_maps :: "(32 word \<times> string list) list" where
  "dlc_maps =
     [(473850, [''TheCenter'']), (512540, [''ScorchedEarth'']), (642250, [''Ragnarok'']),
      (708770, [''Aberration'']), (887380, [''Extinction'']), (1100810, [''Valguero_P'']),
      (1113410, [''Genesis'', ''Gen2'']), (1270830, [''CrystalIsles'']),
      (1691800, [''LostIsland'']), (1887560, [''Fjordur'']), (3537070, [''Aquatica''])]"

definition unowned_maps :: "(32 word \<Rightarrow> bool) \<Rightarrow> string list" where
  "unowned_maps subscribed = concat (map snd (filter (\<lambda>(i, names). \<not> subscribed i) dlc_maps))"

text \<open>
  \<^verbatim>\<open>steam_api_init_346110\<close> (lines 422--543). Every installation here is the
  unguarded statement \<^verbatim>\<open>desc.vtable[desc.vm_idxs[m]] = f\<close>.
\<close>

definition setup_matchmaking_servers_346110 ::
  "platform \<Rightarrow> steam_api_state \<Rightarrow> fault + steam_api_state" where
  "setup_matchmaking_servers_346110 pf st =
     and_then
       (if \<not> show_unavailable_servers (game st) \<and> spoof_app_id (settings st) = 346110 then
          and_then (orig_at ISteamApps_desc ISteamApps_m_BIsSubscribedApp st) (\<lambda>f.
          Inr (st\<lparr>game := (game st)\<lparr>unavailable_dlc := unavailable_dlc (game st) @
                 unowned_maps (call_BIsSubscribedApp pf f (iface (ISteamApps_desc st)))\<rparr>\<rparr>))
        else Inr st) (\<lambda>st.
     and_then (orig_at ISteamMatchmakingServers_desc
                 ISteamMatchmakingServers_m_RequestInternetServerList st) (\<lambda>f.
     let st = st\<lparr>game := (game st)
                \<lparr>SteamMatchmakingServers_RequestInternetServerList_orig := f\<rparr>\<rparr> in
     and_then (install_at ISteamMatchmakingServers_desc
                 ISteamMatchmakingServers_m_RequestInternetServerList
                 (fn_addr pf Fn_SteamMatchmakingServers_RequestInternetServerList) st) (\<lambda>st.
     and_then (orig_at ISteamMatchmakingServers_desc ISteamMatchmakingServers_m_ServerRules st)
       (\<lambda>f.
     let st = st\<lparr>game := (game st)\<lparr>SteamMatchmakingServers_ServerRules_orig := f\<rparr>\<rparr> in
     and_then (install_at ISteamMatchmakingServers_desc ISteamMatchmakingServers_m_ServerRules
                 (fn_addr pf Fn_SteamMatchmakingServers_ServerRules) st) (\<lambda>st.
     and_then (orig_at ISteamMatchmakingServers_desc
                 ISteamMatchmakingServers_m_CancelServerQuery st) (\<lambda>f.
     Inr (st\<lparr>game := (game st)\<lparr>SteamMatchmakingServers_CancelServerQuery_orig := f\<rparr>\<rparr>)))))))"

definition setup_workshop_346110 :: "platform \<Rightarrow> steam_api_state \<Rightarrow> fault + steam_api_state" where
  "setup_workshop_346110 pf st0 =
     (let st =
        (if ws_dir_path (game st0) \<noteq> [] \<and> ws_dir_exists pf then
           st0\<lparr>game := (game st0)\<lparr>mods := mods (game st0) @
                           filter (\<lambda>i. i \<noteq> 0) (ws_dir_items pf)\<rparr>,
               steamclient := steamclient_load pf (steamclient st0)\<rparr>
         else st0)
      in
      and_then (install_at ISteamUGC_desc ISteamUGC_m_GetNumSubscribedItems
                  (fn_addr pf Fn_SteamUGC_GetNumSubscribedItems) st) (\<lambda>st.
      and_then (install_at ISteamUGC_desc ISteamUGC_m_GetSubscribedItems
                  (fn_addr pf Fn_SteamUGC_GetSubscribedItems) st) (\<lambda>st.
      and_then (install_at ISteamUGC_desc ISteamUGC_m_GetItemInstallInfo
                  (fn_addr pf Fn_SteamUGC_GetItemInstallInfo) st) (\<lambda>st.
      if ws_dir_path (game st) \<noteq> [] \<and> loaded (steamclient st) then
        and_then (install_at ISteamUGC_desc ISteamUGC_m_SubscribeItem
                    (fn_addr pf Fn_SteamUGC_SubscribeItem) st) (\<lambda>st.
        and_then (install_at ISteamUGC_desc ISteamUGC_m_GetItemUpdateInfo
                    (fn_addr pf Fn_SteamUGC_GetItemUpdateInfo) st) (\<lambda>st.
        and_then (orig_at ISteamUtils_desc ISteamUtils_m_IsAPICallCompleted st) (\<lambda>f.
        let st = st\<lparr>game := (game st)\<lparr>SteamUtils_IsAPICallCompleted_orig := f\<rparr>\<rparr> in
        and_then (install_at ISteamUtils_desc ISteamUtils_m_IsAPICallCompleted
                    (fn_addr pf Fn_SteamUtils_IsAPICallCompleted) st) (\<lambda>st.
        and_then (orig_at ISteamUtils_desc ISteamUtils_m_GetAPICallResult st) (\<lambda>f.
        let st = st\<lparr>game := (game st)\<lparr>SteamUtils_GetAPICallResult_orig := f\<rparr>\<rparr> in
        install_at ISteamUtils_desc ISteamUtils_m_GetAPICallResult
          (fn_addr pf Fn_SteamUtils_GetAPICallResult) st)))))
      else Inr st))))"

definition steam_api_init_346110 :: "platform \<Rightarrow> steam_api_state \<Rightarrow> fault + steam_api_state" where
  "steam_api_init_346110 pf st =
     and_then
       (if \<not> show_be_servers (game st) \<or> \<not> show_unavailable_servers (game st)
        then setup_matchmaking_servers_346110 pf st else Inr st) (\<lambda>st.
     if spoof_app_id (settings st) \<noteq> 346110 then setup_workshop_346110 pf st else Inr st)"

text \<open>
  \<^verbatim>\<open>get_steam_api_init_cb\<close> (\<^verbatim>\<open>game_cbs.hpp\<close>) picks the callback by
  \<open>app_id\<close>. The callback of app 2399830 formats \<open>steam_id\<close> into a string of its
  own and touches nothing of this state.
\<close>

definition steam_api_init_cb :: "platform \<Rightarrow> steam_api_state \<Rightarrow> fault + steam_api_state" where
  "steam_api_init_cb pf st =
     (if app_id (settings st) = 346110 then steam_api_init_346110 pf st
      else Inr st)"

subsection \<open>\<^verbatim>\<open>SteamAPI_Init\<close>, whole (lines 152--1796)\<close>

definition SteamAPI_Init :: "platform \<Rightarrow> steam_api_state \<Rightarrow> fault + (bool \<times> steam_api_state)" where
  "SteamAPI_Init pf st0 =
     (let (res, st) = call_SteamAPI_Init_orig pf st0 in
      if \<not> res then Inr (False, st\<lparr>shown := shown st @ [Msg_SteamAPI_Init_returned_false]\<rparr>)
      else
        case probe_version pf of
          None \<Rightarrow> Inr (False, st\<lparr>shown := shown st @ [Msg_Could_not_load_version]\<rparr>)
        | Some v \<Rightarrow>
            let st = st\<lparr>ver := v\<rparr> in
            if ver st > max_supported_ver
            then Inr (False, st\<lparr>shown := shown st @ [Msg_Unsupported_version v]\<rparr>)
            else
              and_then (setup_interfaces (obtain_interfaces pf (ver st)) st) (\<lambda>st.
              and_then (setup_common_wrappers pf st) (\<lambda>st.
              let st =
                (if auto_update_dlc (settings st) then
                   let sc = steamclient_load pf (steamclient st) in
                   st\<lparr>steamclient := sc,
                      settings := (if loaded sc then update_dlc pf (settings st)
                                   else settings st)\<rparr>
                 else st)
              in and_then (steam_api_init_cb pf st) (\<lambda>st. Inr (True, st)))))"

subsection \<open>The import patcher \<^verbatim>\<open>wrap_init\<close> (\<^verbatim>\<open>steam_api.cpp\<close>, lines 1800--1870)\<close>

text \<open>
  The host image, as far as \<^verbatim>\<open>wrap_init\<close> reads and writes it. Offsets from the
  module base (\<^verbatim>\<open>&module[rva]\<close>) are \<^typ>\<open>64 word\<close>s.
  \<^item> \<open>import_directory\<close> and \<open>delay_import_directory\<close> are what
    \<^verbatim>\<open>ImageDirectoryEntryToDataEx\<close> returns: \<open>None\<close> for a null pointer, else
    the \<^verbatim>\<open>dir_size / sizeof(descriptor)\<close> descriptors of the directory;
  \<^item> \<open>cstring_at\<close> is the NUL-terminated string at an offset, \<open>None\<close> where the
    memory cannot be read;
  \<^item> \<open>thunks_at\<close> is the array of \<^verbatim>\<open>IMAGE_THUNK_DATA\<close> values that starts at an
    offset and runs to the end of the readable memory;
  \<^item> \<open>cells\<close> are the function-pointer cells of the image, by offset.
\<close>

record import_descriptor =
  OriginalFirstThunk :: "32 word"
  Name :: "32 word"
  FirstThunk :: "32 word"

record delayload_descriptor =
  DllNameRVA :: "32 word"
  ImportAddressTableRVA :: "32 word"
  ImportNameTableRVA :: "32 word"

record image =
  import_directory :: "import_descriptor list option"
  delay_import_directory :: "delayload_descriptor list option"
  cstring_at :: "64 word \<rightharpoonup> string"
  thunks_at :: "64 word \<Rightarrow> 64 word list"
  cells :: "64 word \<Rightarrow> cell"

definition IMAGE_ORDINAL_FLAG :: "64 word" where
  "IMAGE_ORDINAL_FLAG = 0x8000000000000000"

text \<open>
  \<^verbatim>\<open>std::span{base, (dir_size / sizeof *base) - 1}\<close>: all descriptors but the last.
  With no whole descriptor in the directory the unsigned subtraction wraps and the span
  runs over memory that is not the directory.
\<close>

definition descriptor_span :: "'a list \<Rightarrow> fault + 'a list" where
  "descriptor_span ds = (if ds = [] then Inl AccessViolation else Inr (butlast ds))"

text \<open>
  \<^verbatim>\<open>std::ranges::find(descs, "steam_api64.dll", name_of)\<close>: the first descriptor
  whose module name equals the string, compared character by character.
\<close>

fun find_descriptor :: "image \<Rightarrow> ('a \<Rightarrow> 32 word) \<Rightarrow> 'a list \<Rightarrow> fault + 'a option" where
  "find_descriptor img name_rva [] = Inr None"
| "find_descriptor img name_rva (d # ds) =
     (case cstring_at img (ucast (name_rva d)) of
        None \<Rightarrow> Inl AccessViolation
      | Some s \<Rightarrow> if s = ''steam_api64.dll'' then Inr (Some d)
                  else find_descriptor img name_rva ds)"

text \<open>
  The walk over the import lookup table (lines 1816--1831): stop at the zero entry; an
  entry that is not an ordinal names an \<^verbatim>\<open>IMAGE_IMPORT_BY_NAME\<close>, whose
  \<^verbatim>\<open>Name\<close> lies two bytes in. The result is the index of the entry for
  \<^verbatim>\<open>SteamAPI_Init\<close>.
\<close>

fun find_import_by_name :: "image \<Rightarrow> 64 word list \<Rightarrow> nat \<Rightarrow> fault + nat option" where
  "find_import_by_name img [] k = Inl AccessViolation"
| "find_import_by_name img (a # rest) k =
     (if a = 0 then Inr None
      else if a AND IMAGE_ORDINAL_FLAG = 0 then
        (case cstring_at img (a + 2) of
           None \<Rightarrow> Inl AccessViolation
         | Some s \<Rightarrow> if s = ''SteamAPI_Init'' then Inr (Some k)
                     else find_import_by_name img rest (Suc k))
      else find_import_by_name img rest (Suc k))"


text \<open>
  The two search strategies. Each yields the offset of the cell to patch:
  entry \<open>k\<close> of the address table, eight bytes per entry.
\<close>

definition search_regular_imports :: "image \<Rightarrow> fault + 64 word option" where
  "search_regular_imports img =
     (case import_directory img of
        None \<Rightarrow> Inr None
      | Some ds \<Rightarrow>
          and_then (descriptor_span ds) (\<lambda>import_descs.
          and_then (find_descriptor img Name import_descs) (\<lambda>import_desc.
          case import_desc of
            None \<Rightarrow> Inr None
          | Some d \<Rightarrow>
              and_then (find_import_by_name img (thunks_at img (ucast (OriginalFirstThunk d))) 0)
                (\<lambda>found. Inr (map_option (\<lambda>k. ucast (FirstThunk d) + 8 * word_of_nat k) found)))))"



subsection \<open>A concrete process for the worked examples\<close>

text \<open>
  Six interface instances at addresses 1 to 6, their tables in the vendor library at
  100, 200, \<open>\<dots>\<close>, 600, and the six descriptors' own tables at 1000, 1100, \<open>\<dots>\<close>,
  1500. A vendor table cell at address \<open>a\<close> holds the function pointer \<open>a + 5000\<close>;
  the functions of this library have the addresses 9000 and up.
\<close>

definition example_store :: store where
  "example_store a =
     (if a = 1 then 100 else if a = 2 then 200 else if a = 3 then 300
      else if a = 4 then 400 else if a = 5 then 500 else if a = 6 then 600
      else a + 5000)"

definition example_fn_addr :: "wrapper_fn \<Rightarrow> cell" where
  "example_fn_addr f =
     (case f of
        Fn_SteamAPI_Init \<Rightarrow> 9000
      | Fn_SteamApps_BIsSubscribed \<Rightarrow> 9001
      | Fn_SteamApps_BIsSubscribedApp \<Rightarrow> 9002
      | Fn_SteamApps_BIsDlcInstalled \<Rightarrow> 9003
      | Fn_SteamApps_BIsSubscribedFromFreeWeekend \<Rightarrow> 9004
      | Fn_SteamApps_GetDLCCount \<Rightarrow> 9005
      | Fn_SteamApps_BGetDLCDataByIndex \<Rightarrow> 9006
      | Fn_SteamApps_BIsAppInstalled \<Rightarrow> 9007
      | Fn_SteamApps_GetAppOwner \<Rightarrow> 9008
      | Fn_SteamApps_BIsSubscribedFromFamilySharing \<Rightarrow> 9009
      | Fn_SteamApps_BIsTimedTrial \<Rightarrow> 9010
      | Fn_SteamUser_UserHasLicenseForApp \<Rightarrow> 9011
      | Fn_SteamUtils_GetAppID \<Rightarrow> 9012
      | Fn_SteamMatchmakingServers_RequestInternetServerList \<Rightarrow> 9013
      | Fn_SteamMatchmakingServers_ServerRules \<Rightarrow> 9014
      | Fn_SteamUGC_SubscribeItem \<Rightarrow> 9015
      | Fn_SteamUGC_GetNumSubscribedItems \<Rightarrow> 9016
      | Fn_SteamUGC_GetSubscribedItems \<Rightarrow> 9017
      | Fn_SteamUGC_GetItemInstallInfo \<Rightarrow> 9018
      | Fn_SteamUGC_GetItemUpdateInfo \<Rightarrow> 9019
      | Fn_SteamUtils_IsAPICallCompleted \<Rightarrow> 9020
      | Fn_SteamUtils_GetAPICallResult \<Rightarrow> 9021)"

definition example_getter :: "string \<Rightarrow> addr" where
  "example_getter name =
     (if name = ''SteamApps'' then 1 else if name = ''SteamMatchmaking'' then 2
      else if name = ''SteamMatchmakingServers'' then 3 else if name = ''SteamUGC'' then 4
      else if name = ''SteamUser'' then 5 else if name = ''SteamUtils'' then 6 else 0)"

definition example_platform :: "bool \<Rightarrow> bool \<Rightarrow> version_resource \<Rightarrow> platform" where
  "example_platform first second res =
     \<lparr>SteamAPI_Init_orig_1st = first, SteamAPI_Init_orig_2nd = second,
      steam_api_version = res,
      generic_interface = (\<lambda>_. 0), exported_getter = example_getter,
      fn_addr = example_fn_addr,
      call_GetSteamID = (\<lambda>_ _. 76561197960287930),
      call_BIsSubscribedApp = (\<lambda>_ _ _. False),
      tek_sc_loads = False, pics_dlc = [], ws_dir_exists = False, ws_dir_items = [],
      am_create_ok = True, thread_starts = True\<rparr>"

definition example_game :: game_346110 where
  "example_game =
     \<lparr>show_be_servers = True, show_unavailable_servers = True,
      ws_dir_path = [], ws_am_path = [], unavailable_dlc = [], mods = [],
      ws_descs = Map.empty,
      SteamMatchmakingServers_RequestInternetServerList_orig = 0,
      SteamMatchmakingServers_ServerRules_orig = 0,
      SteamMatchmakingServers_CancelServerQuery_orig = 0,
      SteamUtils_IsAPICallCompleted_orig = 0,
      SteamUtils_GetAPICallResult_orig = 0\<rparr>"

text \<open>The state of a process at the time the host calls \<^verbatim>\<open>SteamAPI_Init\<close>.\<close>

definition example_state :: "32 word \<Rightarrow> 32 word \<Rightarrow> steam_api_state" where
  "example_state app spoof =
     \<lparr>settings = \<lparr>app_id = app, spoof_app_id = spoof, dlc = [(42, ''Addon'')],
                  installed_dlc = {42}, tek_sc_path = [], auto_update_dlc = False\<rparr>,
      ver = 0, steam_id = 0,
      ISteamApps_desc = new_wrapper_desc ISteamApps_num_methods 1000,
      ISteamMatchmaking_desc = new_wrapper_desc ISteamMatchmaking_num_methods 1100,
      ISteamMatchmakingServers_desc = new_wrapper_desc ISteamMatchmakingServers_num_methods 1200,
      ISteamUGC_desc = new_wrapper_desc ISteamUGC_num_methods 1300,
      ISteamUser_desc = new_wrapper_desc ISteamUser_num_methods 1400,
      ISteamUtils_desc = new_wrapper_desc ISteamUtils_num_methods 1500,
      SteamApps_BIsSubscribedApp_orig = 0, SteamApps_BIsAppInstalled_orig = 0,
      mem = example_store, SteamAppId = 0, shown = [],
      steamclient = \<lparr>loaded = False, am = False, jobs = []\<rparr>,
      game = example_game\<rparr>"

text \<open>
  Four runs of \<^verbatim>\<open>SteamAPI_Init\<close> in that process. The library's file version is
  02.19.34.93 unless said otherwise.
  \<^item> \<open>run_probe_fails\<close>: app 346110, no spoof ID, the vendor's initialisation
    succeeds, the version resource is missing;
  \<^item> \<open>run_app_zero\<close>: \<open>app_id = 0\<close>, no spoof ID, everything succeeds;
  \<^item> \<open>run_other_game\<close>: app 2399830, no spoof ID, everything succeeds;
  \<^item> \<open>run_346110_old_ugc\<close>: app 346110 with spoof ID 480 on file version
    01.98.31.73, whose ISteamUGC has 14 methods.
\<close>

definition run_probe_fails :: "fault + (bool \<times> steam_api_state)" where
  "run_probe_fails =
     SteamAPI_Init (example_platform True False ResourceNotFound) (example_state 346110 0)"

definition run_app_zero :: "fault + (bool \<times> steam_api_state)" where
  "run_app_zero =
     SteamAPI_Init (example_platform True False (FixedFileInfo 0x00020013 0x0022005D))
       (example_state 0 0)"

definition run_other_game :: "fault + (bool \<times> steam_api_state)" where
  "run_other_game =
     SteamAPI_Init (example_platform True False (FixedFileInfo 0x00020013 0x0022005D))
       (example_state 2399830 0)"

definition run_346110_old_ugc :: "fault + (bool \<times> steam_api_state)" where
  "run_346110_old_ugc =
     SteamAPI_Init (example_platform True False (FixedFileInfo 0x00010062 0x001F0049))
       (example_state 346110 480)"

text \<open>
  A fake interface, as in the shadowing test of the specification: an instance at
  address 10 whose table of five methods starts at 100, and a descriptor for five
  methods whose own table starts at 200.
\<close>

definition fake_store :: store where
  "fake_store a = (if a = 10 then 100 else a + 5000)"

definition fake_desc :: wrapper_desc where
  "fake_desc = (new_wrapper_desc 5 200)\<lparr>num_methods := 5\<rparr>"


subsection \<open>What a step leaves alone\<close>

text \<open>
  Two states agree on the configuration when they have the same settings, the same
  detected version and the same six descriptors: what only stores function pointers
  (the store, the saved originals, \<open>steam_id\<close>, the game's globals) may differ.
\<close>

definition same_config :: "steam_api_state \<Rightarrow> steam_api_state \<Rightarrow> bool" where
  "same_config st st' \<longleftrightarrow>
     settings st' = settings st \<and> ver st' = ver st
     \<and> ISteamApps_desc st' = ISteamApps_desc st
     \<and> ISteamMatchmaking_desc st' = ISteamMatchmaking_desc st
     \<and> ISteamMatchmakingServers_desc st' = ISteamMatchmakingServers_desc st
     \<and> ISteamUGC_desc st' = ISteamUGC_desc st
     \<and> ISteamUser_desc st' = ISteamUser_desc st
     \<and> ISteamUtils_desc st' = ISteamUtils_desc st"

text \<open>
  A descriptor's slot table is valid when \<open>num_methods\<close> does not exceed the size of
  the descriptor's arrays and every entry of \<open>vm_idxs\<close> is either the absent mark
  \<open>-1\<close> or an index below \<open>num_methods\<close>.
\<close>

definition slots_valid :: "wrapper_desc \<Rightarrow> bool" where
  "slots_valid d \<longleftrightarrow>
     num_methods d \<le> max_num_methods d
     \<and> (\<forall>x \<in> set (vm_idxs d). x = - 1 \<or> (0 \<le> x \<and> x < int (num_methods d)))"

section \<open>Basic facts about the embedding\<close>

lemma and_then_Inr [simp]: "and_then (Inr x) f = f x"
  by (simp add: and_then_def)

lemma and_then_Inl [simp]: "and_then (Inl e) f = Inl e"
  by (simp add: and_then_def)

lemma and_then_weak_cong [cong]: "r = r' \<Longrightarrow> and_then r f = and_then r' f"
  by simp

lemma and_then_eq_Inr:
  "and_then r f = Inr y \<longleftrightarrow> (\<exists>x. r = Inr x \<and> f x = Inr y)"
  by (cases r) simp_all

lemma set_idx_simps [simp]:
  "vm_idxs (set_idx m i d) = (vm_idxs d)[m := i]"
  "num_methods (set_idx m i d) = num_methods d"
  "max_num_methods (set_idx m i d) = max_num_methods d"
  "orig_vtable (set_idx m i d) = orig_vtable d"
  "iface (set_idx m i d) = iface d"
  "vtable (set_idx m i d) = vtable d"
  by (simp_all add: set_idx_def)

lemma assign_idxs_fields [simp]:
  "num_methods (assign_idxs as d) = num_methods d"
  "max_num_methods (assign_idxs as d) = max_num_methods d"
  "orig_vtable (assign_idxs as d) = orig_vtable d"
  "iface (assign_idxs as d) = iface d"
  "vtable (assign_idxs as d) = vtable d"
  "length (vm_idxs (assign_idxs as d)) = length (vm_idxs d)"
  by (induction as d rule: assign_idxs.induct; simp)+

lemma identity_idxs_fields [simp]:
  "num_methods (identity_idxs i d) = num_methods d"
  "max_num_methods (identity_idxs i d) = max_num_methods d"
  "orig_vtable (identity_idxs i d) = orig_vtable d"
  "iface (identity_idxs i d) = iface d"
  "vtable (identity_idxs i d) = vtable d"
  "length (vm_idxs (identity_idxs i d)) = length (vm_idxs d)"
  by (induction i d rule: identity_idxs.induct; subst identity_idxs.simps; simp)+

lemma identity_idxs_nth:
  "k < length (vm_idxs d) \<Longrightarrow>
   vm_idxs (identity_idxs i d) ! k =
     (if i \<le> k \<and> k < num_methods d then int k else vm_idxs d ! k)"
proof (induction i d rule: identity_idxs.induct)
  case (1 i d)
  show ?case
  proof (cases "i < num_methods d")
    case True
    have "vm_idxs (identity_idxs i d) ! k
            = vm_idxs (identity_idxs (Suc i) (set_idx i (int i) d)) ! k"
      using True by (subst identity_idxs.simps) simp
    also have "\<dots> = (if Suc i \<le> k \<and> k < num_methods d then int k
                      else (vm_idxs d)[i := int i] ! k)"
      using "1.IH" [OF True] "1.prems" by simp
    also have "\<dots> = (if i \<le> k \<and> k < num_methods d then int k else vm_idxs d ! k)"
      using True "1.prems" by (auto simp: nth_list_update)
    finally show ?thesis .
  next
    case False
    then show ?thesis by (subst identity_idxs.simps) auto
  qed
qed

section \<open>Properties\<close>

subsection \<open>Shape resolution for ISteamApps\<close>



lemma spec_resolve_total:
  assumes "tbl \<noteq> []" and "fst (last tbl) = 0"
  shows "\<exists>r. spec_resolve tbl v = Some r"
  using assms
proof (induction tbl)
  case Nil
  then show ?case by simp
next
  case (Cons x tbl)
  obtain t n where x: "x = (t, n)" by (cases x)
  show ?case
  proof (cases "tbl = []")
    case True
    with Cons.prems x show ?thesis by simp
  next
    case False
    with Cons show ?thesis by (auto simp: x)
  qed
qed





subsection \<open>The DLC enumeration wrapper\<close>

lemma sint_size_cast:
  assumes "n < 2 ^ 31"
  shows "sint (word_of_nat n :: 32 word) = int n"
  using assms by (simp add: signed_of_nat signed_take_bit_int_eq_self)

text \<open>
  Claim C3. For every DLC list whose size \<^verbatim>\<open>static_cast<int>\<close> represents (fewer
  than \<open>2^31\<close> entries) and every index with \<open>0 \<le> idx < dlc.size()\<close>, the wrapper
  returns false at once and leaves \<open>app_id\<close>, \<open>available\<close> and \<open>name_buf\<close> as
  they were; any other outcome, so every read of \<open>dlc[idx]\<close> and every write of the
  outputs, happens only when \<open>idx \<ge> dlc.size()\<close>.
\<close>

theorem BGetDLCDataByIndex_in_range_returns_false:
  assumes "length (dlc s) < 2 ^ 31"
  shows "(0 \<le> sint idx \<and> sint idx < int (length (dlc s))
            \<longrightarrow> SteamApps_BGetDLCDataByIndex s idx out sz = Inr (False, out))
         \<and> (SteamApps_BGetDLCDataByIndex s idx out sz \<noteq> Inr (False, out)
            \<longrightarrow> int (length (dlc s)) \<le> sint idx)"
proof -
  have c: "sint (word_of_nat (length (dlc s)) :: 32 word) = int (length (dlc s))"
    using assms by (rule sint_size_cast)
  have g: "(idx <s (word_of_nat (length (dlc s)) :: 32 word)) = (sint idx < int (length (dlc s)))"
    by (simp add: word_sless_alt c)
  show ?thesis
    by (auto simp: SteamApps_BGetDLCDataByIndex_def g)
qed

theorem BGetDLCDataByIndex_in_range_returns_false_witness:
  "SteamApps_BGetDLCDataByIndex
     \<lparr>app_id = 480, spoof_app_id = 0, dlc = [(42, ''Addon''), (43, ''Maps'')],
      installed_dlc = {}, tek_sc_path = [], auto_update_dlc = False\<rparr>
     1 \<lparr>out_app_id = 7, out_available = False, name_buf = ''xxxxxxxx''\<rparr> 8
   = Inr (False, \<lparr>out_app_id = 7, out_available = False, name_buf = ''xxxxxxxx''\<rparr>)"
  using BGetDLCDataByIndex_in_range_returns_false
    [of "\<lparr>app_id = 480, spoof_app_id = 0, dlc = [(42, ''Addon''), (43, ''Maps'')],
          installed_dlc = {}, tek_sc_path = [], auto_update_dlc = False\<rparr>"
        1 "\<lparr>out_app_id = 7, out_available = False, name_buf = ''xxxxxxxx''\<rparr>" 8]
  by simp

subsection \<open>The ownership-check wrapper\<close>

text \<open>
  Claim C8. \<^verbatim>\<open>SteamApps_BIsSubscribedApp\<close> wraps and forwards: for the configured
  application ID and for every ID in the settings DLC list it returns true and makes no
  call to the original; for every other ID it calls the captured original once, with
  the same interface pointer and ID, and returns its result unchanged.
\<close>

theorem BIsSubscribedApp_wrap_and_forward:
  "(a = app_id s \<or> a \<in> fst ` set (dlc s)
      \<longrightarrow> SteamApps_BIsSubscribedApp s orig ifc a = (True, []))
   \<and> (a \<noteq> app_id s \<and> a \<notin> fst ` set (dlc s)
      \<longrightarrow> SteamApps_BIsSubscribedApp s orig ifc a = (orig ifc a, [(ifc, a)]))"
  by (simp add: SteamApps_BIsSubscribedApp_def)

theorem BIsSubscribedApp_wrap_and_forward_witness:
  "SteamApps_BIsSubscribedApp
     \<lparr>app_id = 480, spoof_app_id = 0, dlc = [(42, ''Addon'')],
      installed_dlc = {}, tek_sc_path = [], auto_update_dlc = False\<rparr> (\<lambda>_ _. False) 1 42
     = (True, [])
   \<and> SteamApps_BIsSubscribedApp
     \<lparr>app_id = 480, spoof_app_id = 0, dlc = [(42, ''Addon'')],
      installed_dlc = {}, tek_sc_path = [], auto_update_dlc = False\<rparr> (\<lambda>_ a. a = 99) 1 99
     = (True, [(1, 99)])
   \<and> SteamApps_BIsSubscribedApp
     \<lparr>app_id = 480, spoof_app_id = 0, dlc = [(42, ''Addon'')],
      installed_dlc = {}, tek_sc_path = [], auto_update_dlc = False\<rparr> (\<lambda>_ _. False) 1 99
     = (False, [(1, 99)])"
  using
    BIsSubscribedApp_wrap_and_forward
      [of 42 "\<lparr>app_id = 480, spoof_app_id = 0, dlc = [(42, ''Addon'')],
          installed_dlc = {}, tek_sc_path = [], auto_update_dlc = False\<rparr>" "\<lambda>_ _. False" 1]
    BIsSubscribedApp_wrap_and_forward
      [of 99 "\<lparr>app_id = 480, spoof_app_id = 0, dlc = [(42, ''Addon'')],
          installed_dlc = {}, tek_sc_path = [], auto_update_dlc = False\<rparr>" "\<lambda>_ a. a = 99" 1]
    BIsSubscribedApp_wrap_and_forward
      [of 99 "\<lparr>app_id = 480, spoof_app_id = 0, dlc = [(42, ''Addon'')],
          installed_dlc = {}, tek_sc_path = [], auto_update_dlc = False\<rparr>" "\<lambda>_ _. False" 1]
  by simp

subsection \<open>The slot tables stay within bounds\<close>

lemma set_idx_entries:
  "set (vm_idxs (set_idx m i d)) \<subseteq> insert i (set (vm_idxs d))"
  by (simp add: set_update_subset_insert)

lemma assign_idxs_entries:
  assumes "list_all (\<lambda>(m, i). 0 \<le> i \<and> i < int n) as"
    and "\<forall>x \<in> set (vm_idxs d). x = - 1 \<or> (0 \<le> x \<and> x < int n)"
  shows "\<forall>x \<in> set (vm_idxs (assign_idxs as d)). x = - 1 \<or> (0 \<le> x \<and> x < int n)"
  using assms
proof (induction as d rule: assign_idxs.induct)
  case (1 d)
  then show ?case by simp
next
  case (2 m i rest d)
  have "\<forall>x \<in> set (vm_idxs (set_idx m i d)). x = - 1 \<or> (0 \<le> x \<and> x < int n)"
    using 2(2,3) set_idx_entries [of m i d] by auto
  with 2 show ?case by simp
qed

lemma identity_idxs_entries:
  assumes "\<forall>x \<in> set (vm_idxs d). x = - 1 \<or> (0 \<le> x \<and> x < int (num_methods d))"
  shows "\<forall>x \<in> set (vm_idxs (identity_idxs i d)).
           x = - 1 \<or> (0 \<le> x \<and> x < int (num_methods d))"
  using assms
proof (induction i d rule: identity_idxs.induct)
  case (1 i d)
  show ?case
  proof (cases "i < num_methods d")
    case True
    have "\<forall>x \<in> set (vm_idxs (set_idx i (int i) d)).
            x = - 1 \<or> (0 \<le> x \<and> x < int (num_methods (set_idx i (int i) d)))"
      using "1.prems" True set_idx_entries [of i "int i" d] by auto
    from "1.IH" [OF True this] True show ?thesis
      by (subst identity_idxs.simps) simp
  next
    case False
    with "1.prems" show ?thesis by (subst identity_idxs.simps) simp
  qed
qed

lemma slots_valid_assign:
  assumes "list_all (\<lambda>(m, i). 0 \<le> i \<and> i < int n) as"
    and "\<forall>x \<in> set (vm_idxs d). x = - 1" and "n \<le> max_num_methods d"
  shows "slots_valid (assign_idxs as (d\<lparr>num_methods := n\<rparr>))"
proof -
  have "\<forall>x \<in> set (vm_idxs (d\<lparr>num_methods := n\<rparr>)). x = - 1 \<or> (0 \<le> x \<and> x < int n)"
    using assms(2) by simp
  from assign_idxs_entries [OF assms(1) this] assms(3) show ?thesis
    by (simp add: slots_valid_def)
qed

lemma slots_valid_identity:
  assumes "\<forall>x \<in> set (vm_idxs d). x = - 1" and "n \<le> max_num_methods d"
  shows "slots_valid (identity_idxs 0 (d\<lparr>num_methods := n\<rparr>))"
proof -
  have "\<forall>x \<in> set (vm_idxs (d\<lparr>num_methods := n\<rparr>)).
          x = - 1 \<or> (0 \<le> x \<and> x < int (num_methods (d\<lparr>num_methods := n\<rparr>)))"
    using assms(1) by simp
  from identity_idxs_entries [OF this] assms(2) show ?thesis
    by (simp add: slots_valid_def)
qed

text \<open>Every slot a table assigns is below the \<open>num_methods\<close> of its branch.\<close>

lemma ISteamMatchmaking_idxs_008_valid:
  assumes "\<forall>x \<in> set (vm_idxs d). x = - 1" and "36 \<le> max_num_methods d"
  shows "slots_valid (assign_idxs ISteamMatchmaking_idxs_008 (d\<lparr>num_methods := 36\<rparr>))"
  by (rule slots_valid_assign [OF _ assms]) (simp add: ISteamMatchmaking_idxs_008_def)

lemma ISteamUGC_idxs_018_valid:
  assumes "\<forall>x \<in> set (vm_idxs d). x = - 1" and "90 \<le> max_num_methods d"
  shows "slots_valid (assign_idxs ISteamUGC_idxs_018 (d\<lparr>num_methods := 90\<rparr>))"
  by (rule slots_valid_assign [OF _ assms]) (simp add: ISteamUGC_idxs_018_def)

lemma ISteamUGC_idxs_017_valid:
  assumes "\<forall>x \<in> set (vm_idxs d). x = - 1" and "89 \<le> max_num_methods d"
  shows "slots_valid (assign_idxs ISteamUGC_idxs_017 (d\<lparr>num_methods := 89\<rparr>))"
  by (rule slots_valid_assign [OF _ assms]) (simp add: ISteamUGC_idxs_017_def)

lemma ISteamUGC_idxs_016_valid:
  assumes "\<forall>x \<in> set (vm_idxs d). x = - 1" and "86 \<le> max_num_methods d"
  shows "slots_valid (assign_idxs ISteamUGC_idxs_016 (d\<lparr>num_methods := 86\<rparr>))"
  by (rule slots_valid_assign [OF _ assms]) (simp add: ISteamUGC_idxs_016_def)

lemma ISteamUGC_idxs_015_valid:
  assumes "\<forall>x \<in> set (vm_idxs d). x = - 1" and "84 \<le> max_num_methods d"
  shows "slots_valid (assign_idxs ISteamUGC_idxs_015 (d\<lparr>num_methods := 84\<rparr>))"
  by (rule slots_valid_assign [OF _ assms]) (simp add: ISteamUGC_idxs_015_def)

lemma ISteamUGC_idxs_014_valid:
  assumes "\<forall>x \<in> set (vm_idxs d). x = - 1" and "79 \<le> max_num_methods d"
  shows "slots_valid (assign_idxs ISteamUGC_idxs_014 (d\<lparr>num_methods := 79\<rparr>))"
  by (rule slots_valid_assign [OF _ assms]) (simp add: ISteamUGC_idxs_014_def)

lemma ISteamUGC_idxs_013_valid:
  assumes "\<forall>x \<in> set (vm_idxs d). x = - 1" and "78 \<le> max_num_methods d"
  shows "slots_valid (assign_idxs ISteamUGC_idxs_013 (d\<lparr>num_methods := 78\<rparr>))"
  by (rule slots_valid_assign [OF _ assms]) (simp add: ISteamUGC_idxs_013_def)

lemma ISteamUGC_idxs_012_valid:
  assumes "\<forall>x \<in> set (vm_idxs d). x = - 1" and "76 \<le> max_num_methods d"
  shows "slots_valid (assign_idxs ISteamUGC_idxs_012 (d\<lparr>num_methods := 76\<rparr>))"
  by (rule slots_valid_assign [OF _ assms]) (simp add: ISteamUGC_idxs_012_def)

lemma ISteamUGC_idxs_010_valid:
  assumes "\<forall>x \<in> set (vm_idxs d). x = - 1" and "74 \<le> max_num_methods d"
  shows "slots_valid (assign_idxs ISteamUGC_idxs_010 (d\<lparr>num_methods := 74\<rparr>))"
  by (rule slots_valid_assign [OF _ assms]) (simp add: ISteamUGC_idxs_010_def)

lemma ISteamUGC_idxs_009_valid:
  assumes "\<forall>x \<in> set (vm_idxs d). x = - 1" and "67 \<le> max_num_methods d"
  shows "slots_valid (assign_idxs ISteamUGC_idxs_009 (d\<lparr>num_methods := 67\<rparr>))"
  by (rule slots_valid_assign [OF _ assms]) (simp add: ISteamUGC_idxs_009_def)

lemma ISteamUGC_idxs_008_valid:
  assumes "\<forall>x \<in> set (vm_idxs d). x = - 1" and "63 \<le> max_num_methods d"
  shows "slots_valid (assign_idxs ISteamUGC_idxs_008 (d\<lparr>num_methods := 63\<rparr>))"
  by (rule slots_valid_assign [OF _ assms]) (simp add: ISteamUGC_idxs_008_def)

lemma ISteamUGC_idxs_007_valid:
  assumes "\<forall>x \<in> set (vm_idxs d). x = - 1" and "58 \<le> max_num_methods d"
  shows "slots_valid (assign_idxs ISteamUGC_idxs_007 (d\<lparr>num_methods := 58\<rparr>))"
  by (rule slots_valid_assign [OF _ assms]) (simp add: ISteamUGC_idxs_007_def)

lemma ISteamUGC_idxs_005_valid:
  assumes "\<forall>x \<in> set (vm_idxs d). x = - 1" and "46 \<le> max_num_methods d"
  shows "slots_valid (assign_idxs ISteamUGC_idxs_005 (d\<lparr>num_methods := 46\<rparr>))"
  by (rule slots_valid_assign [OF _ assms]) (simp add: ISteamUGC_idxs_005_def)

lemma ISteamUGC_idxs_002_valid:
  assumes "\<forall>x \<in> set (vm_idxs d). x = - 1" and "31 \<le> max_num_methods d"
  shows "slots_valid (assign_idxs ISteamUGC_idxs_002 (d\<lparr>num_methods := 31\<rparr>))"
  by (rule slots_valid_assign [OF _ assms]) (simp add: ISteamUGC_idxs_002_def)

lemma ISteamUGC_idxs_001_valid:
  assumes "\<forall>x \<in> set (vm_idxs d). x = - 1" and "14 \<le> max_num_methods d"
  shows "slots_valid (assign_idxs ISteamUGC_idxs_001 (d\<lparr>num_methods := 14\<rparr>))"
  by (rule slots_valid_assign [OF _ assms]) (simp add: ISteamUGC_idxs_001_def)

lemma ISteamUser_idxs_021_valid:
  assumes "\<forall>x \<in> set (vm_idxs d). x = - 1" and "32 \<le> max_num_methods d"
  shows "slots_valid (assign_idxs ISteamUser_idxs_021 (d\<lparr>num_methods := 32\<rparr>))"
  by (rule slots_valid_assign [OF _ assms]) (simp add: ISteamUser_idxs_021_def)

lemma ISteamUser_idxs_020_valid:
  assumes "\<forall>x \<in> set (vm_idxs d). x = - 1" and "31 \<le> max_num_methods d"
  shows "slots_valid (assign_idxs ISteamUser_idxs_020 (d\<lparr>num_methods := 31\<rparr>))"
  by (rule slots_valid_assign [OF _ assms]) (simp add: ISteamUser_idxs_020_def)

lemma ISteamUser_idxs_019_valid:
  assumes "\<forall>x \<in> set (vm_idxs d). x = - 1" and "29 \<le> max_num_methods d"
  shows "slots_valid (assign_idxs ISteamUser_idxs_019 (d\<lparr>num_methods := 29\<rparr>))"
  by (rule slots_valid_assign [OF _ assms]) (simp add: ISteamUser_idxs_019_def)

lemma ISteamUser_idxs_018_valid:
  assumes "\<forall>x \<in> set (vm_idxs d). x = - 1" and "25 \<le> max_num_methods d"
  shows "slots_valid (assign_idxs ISteamUser_idxs_018 (d\<lparr>num_methods := 25\<rparr>))"
  by (rule slots_valid_assign [OF _ assms]) (simp add: ISteamUser_idxs_018_def)

lemma ISteamUser_idxs_017_valid:
  assumes "\<forall>x \<in> set (vm_idxs d). x = - 1" and "24 \<le> max_num_methods d"
  shows "slots_valid (assign_idxs ISteamUser_idxs_017 (d\<lparr>num_methods := 24\<rparr>))"
  by (rule slots_valid_assign [OF _ assms]) (simp add: ISteamUser_idxs_017_def)

lemma ISteamUser_idxs_016_valid:
  assumes "\<forall>x \<in> set (vm_idxs d). x = - 1" and "22 \<le> max_num_methods d"
  shows "slots_valid (assign_idxs ISteamUser_idxs_016 (d\<lparr>num_methods := 22\<rparr>))"
  by (rule slots_valid_assign [OF _ assms]) (simp add: ISteamUser_idxs_016_def)

lemma ISteamUser_idxs_014_valid:
  assumes "\<forall>x \<in> set (vm_idxs d). x = - 1" and "21 \<le> max_num_methods d"
  shows "slots_valid (assign_idxs ISteamUser_idxs_014 (d\<lparr>num_methods := 21\<rparr>))"
  by (rule slots_valid_assign [OF _ assms]) (simp add: ISteamUser_idxs_014_def)

lemmas ISteamMatchmaking_idxs_valid =
  ISteamMatchmaking_idxs_008_valid

lemmas ISteamUGC_idxs_valid =
  ISteamUGC_idxs_018_valid
  ISteamUGC_idxs_017_valid
  ISteamUGC_idxs_016_valid
  ISteamUGC_idxs_015_valid
  ISteamUGC_idxs_014_valid
  ISteamUGC_idxs_013_valid
  ISteamUGC_idxs_012_valid
  ISteamUGC_idxs_010_valid
  ISteamUGC_idxs_009_valid
  ISteamUGC_idxs_008_valid
  ISteamUGC_idxs_007_valid
  ISteamUGC_idxs_005_valid
  ISteamUGC_idxs_002_valid
  ISteamUGC_idxs_001_valid

lemmas ISteamUser_idxs_valid =
  ISteamUser_idxs_021_valid
  ISteamUser_idxs_020_valid
  ISteamUser_idxs_019_valid
  ISteamUser_idxs_018_valid
  ISteamUser_idxs_017_valid
  ISteamUser_idxs_016_valid
  ISteamUser_idxs_014_valid


lemma ISteamMatchmaking_shape_valid:
  assumes "\<forall>x \<in> set (vm_idxs d). x = - 1"
    and "max_num_methods d = ISteamMatchmaking_num_methods"
  shows "slots_valid (ISteamMatchmaking_shape v d)"
  unfolding ISteamMatchmaking_shape_def
  using assms
  by (simp add: ISteamMatchmaking_idxs_valid slots_valid_identity enum_defs)

lemma ISteamUGC_shape_valid:
  assumes "\<forall>x \<in> set (vm_idxs d). x = - 1"
    and "max_num_methods d = ISteamUGC_num_methods"
  shows "slots_valid (ISteamUGC_shape v d)"
  unfolding ISteamUGC_shape_def
  using assms
  by (simp add: ISteamUGC_idxs_valid slots_valid_identity enum_defs)

lemma ISteamUser_shape_valid:
  assumes "\<forall>x \<in> set (vm_idxs d). x = - 1"
    and "max_num_methods d = ISteamUser_num_methods"
  shows "slots_valid (ISteamUser_shape v d)"
  unfolding ISteamUser_shape_def
  using assms
  by (simp add: ISteamUser_idxs_valid slots_valid_identity enum_defs)

lemma shape_max_num_methods [simp]:
  "max_num_methods (ISteamMatchmaking_shape v d) = max_num_methods d"
  "max_num_methods (ISteamUGC_shape v d) = max_num_methods d"
  "max_num_methods (ISteamUser_shape v d) = max_num_methods d"
  by (simp_all add: ISteamMatchmaking_shape_def ISteamUGC_shape_def ISteamUser_shape_def)

lemma shadow_slots:
  assumes "shadow p d m = Inr (d', m')"
  shows "vm_idxs d' = vm_idxs d" and "num_methods d' = num_methods d"
    and "max_num_methods d' = max_num_methods d"
  using assms by (auto simp: shadow_def Let_def split: if_splits)

lemma shadow_slots_valid:
  "shadow p d m = Inr (d', m') \<Longrightarrow> slots_valid d \<Longrightarrow> slots_valid d'"
  by (simp add: slots_valid_def shadow_slots)

lemma shadow_then_identity_valid:
  assumes "shadow p (d\<lparr>num_methods := n\<rparr>) m = Inr (d', m')"
    and "\<forall>x \<in> set (vm_idxs d). x = - 1" and "n \<le> max_num_methods d"
  shows "slots_valid (identity_idxs 0 d')"
proof -
  from assms(1) have eq: "d' = (d'\<lparr>num_methods := n\<rparr>)" "vm_idxs d' = vm_idxs d"
    "max_num_methods d' = max_num_methods d"
    by (auto simp: shadow_def Let_def split: if_splits)
  have "slots_valid (identity_idxs 0 (d'\<lparr>num_methods := n\<rparr>))"
    using assms(2,3) eq(2,3) by (intro slots_valid_identity) simp_all
  with eq(1) show ?thesis by simp
qed

lemma new_wrapper_desc_entries:
  "\<forall>x \<in> set (vm_idxs (new_wrapper_desc n a)). x = - 1"
  "max_num_methods (new_wrapper_desc n a) = n"
  by (simp_all add: new_wrapper_desc_def)

lemma slots_valid_nth:
  assumes "slots_valid d" and "i < length (vm_idxs d)" and "vm_idxs d ! i \<noteq> - 1"
  shows "0 \<le> vm_idxs d ! i" and "vm_idxs d ! i < int (num_methods d)"
    and "num_methods d \<le> max_num_methods d"
  using assms nth_mem [OF assms(2)] by (auto simp: slots_valid_def)

text \<open>
  Claim C7. For each of the six interfaces and every version word, the descriptor that
  the interface's setup leaves behind, starting from a freshly constructed one, is
  valid: \<open>num_methods\<close> does not exceed the descriptor's compile-time size, and
  every entry of \<open>vm_idxs\<close> other than \<open>-1\<close> is at least 0 and below
  \<open>num_methods\<close>.
\<close>

theorem vm_idxs_within_num_methods:
  "(setup_ISteamApps v p (new_wrapper_desc ISteamApps_num_methods a) m = Inr (d, m')
      \<longrightarrow> slots_valid d \<and> max_num_methods d = ISteamApps_num_methods)
   \<and> (setup_ISteamMatchmaking v p (new_wrapper_desc ISteamMatchmaking_num_methods a) m
         = Inr (d, m')
      \<longrightarrow> slots_valid d \<and> max_num_methods d = ISteamMatchmaking_num_methods)
   \<and> (setup_ISteamMatchmakingServers v p
         (new_wrapper_desc ISteamMatchmakingServers_num_methods a) m = Inr (d, m')
      \<longrightarrow> slots_valid d \<and> max_num_methods d = ISteamMatchmakingServers_num_methods)
   \<and> (setup_ISteamUGC v p (new_wrapper_desc ISteamUGC_num_methods a) m = Inr (d, m')
      \<longrightarrow> slots_valid d \<and> max_num_methods d = ISteamUGC_num_methods)
   \<and> (setup_ISteamUser v p (new_wrapper_desc ISteamUser_num_methods a) m = Inr (d, m')
      \<longrightarrow> slots_valid d \<and> max_num_methods d = ISteamUser_num_methods)
   \<and> (setup_ISteamUtils v p (new_wrapper_desc ISteamUtils_num_methods a) m = Inr (d, m')
      \<longrightarrow> slots_valid d \<and> max_num_methods d = ISteamUtils_num_methods)"
proof (intro conjI impI)
  assume "setup_ISteamApps v p (new_wrapper_desc ISteamApps_num_methods a) m = Inr (d, m')"
  then obtain d1 where
    s: "shadow p ((new_wrapper_desc ISteamApps_num_methods a)
          \<lparr>num_methods := ISteamApps_num_methods_at v\<rparr>) m = Inr (d1, m')"
    and d: "d = identity_idxs 0 d1"
    by (auto simp: setup_ISteamApps_def and_then_eq_Inr)
  have "ISteamApps_num_methods_at v \<le> ISteamApps_num_methods"
    by (simp add: ISteamApps_num_methods_at_def enum_defs)
  with s d show "slots_valid d"
    by (auto intro!: shadow_then_identity_valid [OF s] simp: new_wrapper_desc_entries)
  from s d show "max_num_methods d = ISteamApps_num_methods"
    by (simp add: shadow_slots new_wrapper_desc_entries)
next
  assume s: "setup_ISteamMatchmaking v p (new_wrapper_desc ISteamMatchmaking_num_methods a) m
               = Inr (d, m')"
  have "slots_valid (ISteamMatchmaking_shape v
          (new_wrapper_desc ISteamMatchmaking_num_methods a))"
    by (intro ISteamMatchmaking_shape_valid new_wrapper_desc_entries)
  with s show "slots_valid d"
    by (auto simp: setup_ISteamMatchmaking_def dest: shadow_slots_valid)
  from s show "max_num_methods d = ISteamMatchmaking_num_methods"
    by (simp add: setup_ISteamMatchmaking_def shadow_slots new_wrapper_desc_entries)
next
  assume "setup_ISteamMatchmakingServers v p
            (new_wrapper_desc ISteamMatchmakingServers_num_methods a) m = Inr (d, m')"
  then obtain d1 where
    s: "shadow p ((new_wrapper_desc ISteamMatchmakingServers_num_methods a)
          \<lparr>num_methods := 17\<rparr>) m = Inr (d1, m')"
    and d: "d = identity_idxs 0 d1"
    by (auto simp: setup_ISteamMatchmakingServers_def and_then_eq_Inr)
  from s d show "slots_valid d"
    by (auto intro!: shadow_then_identity_valid [OF s]
          simp: new_wrapper_desc_entries enum_defs)
  from s d show "max_num_methods d = ISteamMatchmakingServers_num_methods"
    by (simp add: shadow_slots new_wrapper_desc_entries)
next
  assume s: "setup_ISteamUGC v p (new_wrapper_desc ISteamUGC_num_methods a) m = Inr (d, m')"
  have v: "slots_valid (ISteamUGC_shape v (new_wrapper_desc ISteamUGC_num_methods a))"
    by (intro ISteamUGC_shape_valid new_wrapper_desc_entries)
  have f: "slots_valid (new_wrapper_desc ISteamUGC_num_methods a)"
    by (simp add: slots_valid_def new_wrapper_desc_def)
  from s v f show "slots_valid d"
    by (auto simp: setup_ISteamUGC_def split: if_splits dest: shadow_slots_valid)
  from s show "max_num_methods d = ISteamUGC_num_methods"
    by (cases "p = 0")
       (auto simp: setup_ISteamUGC_def shadow_slots new_wrapper_desc_entries)
next
  assume s: "setup_ISteamUser v p (new_wrapper_desc ISteamUser_num_methods a) m = Inr (d, m')"
  have "slots_valid (ISteamUser_shape v (new_wrapper_desc ISteamUser_num_methods a))"
    by (intro ISteamUser_shape_valid new_wrapper_desc_entries)
  with s show "slots_valid d"
    by (auto simp: setup_ISteamUser_def dest: shadow_slots_valid)
  from s show "max_num_methods d = ISteamUser_num_methods"
    by (simp add: setup_ISteamUser_def shadow_slots new_wrapper_desc_entries)
next
  assume "setup_ISteamUtils v p (new_wrapper_desc ISteamUtils_num_methods a) m = Inr (d, m')"
  then obtain d1 where
    s: "shadow p ((new_wrapper_desc ISteamUtils_num_methods a)
          \<lparr>num_methods := ISteamUtils_num_methods_at v\<rparr>) m = Inr (d1, m')"
    and d: "d = identity_idxs 0 d1"
    by (auto simp: setup_ISteamUtils_def and_then_eq_Inr)
  have "ISteamUtils_num_methods_at v \<le> ISteamUtils_num_methods"
    by (simp add: ISteamUtils_num_methods_at_def enum_defs)
  with s d show "slots_valid d"
    by (auto intro!: shadow_then_identity_valid [OF s] simp: new_wrapper_desc_entries)
  from s d show "max_num_methods d = ISteamUtils_num_methods"
    by (simp add: shadow_slots new_wrapper_desc_entries)
qed

theorem vm_idxs_within_num_methods_witness:
  "setup_ISteamUGC 0x0008002100090017 4 (new_wrapper_desc ISteamUGC_num_methods 1300)
     example_store
     = Inr ((ISteamUGC_shape 0x0008002100090017 (new_wrapper_desc ISteamUGC_num_methods 1300))
              \<lparr>orig_vtable := 400, iface := 4\<rparr>,
            (copy_n example_store 400 90 1300)(4 := 1300))
   \<and> slots_valid
        ((ISteamUGC_shape 0x0008002100090017 (new_wrapper_desc ISteamUGC_num_methods 1300))
           \<lparr>orig_vtable := 400, iface := 4\<rparr>)
   \<and> num_methods (ISteamUGC_shape 0x0008002100090017
                     (new_wrapper_desc ISteamUGC_num_methods 1300)) = 90
   \<and> ISteamUGC_num_methods = 96"
proof -
  have n: "num_methods (ISteamUGC_shape 0x0008002100090017
             (new_wrapper_desc ISteamUGC_num_methods 1300)) = 90"
    by (simp add: ISteamUGC_shape_def)
  have v: "vtable (ISteamUGC_shape 0x0008002100090017
             (new_wrapper_desc ISteamUGC_num_methods 1300)) = 1300"
    by (simp add: ISteamUGC_shape_def new_wrapper_desc_def)
  have run:
    "setup_ISteamUGC 0x0008002100090017 4 (new_wrapper_desc ISteamUGC_num_methods 1300)
       example_store
     = Inr ((ISteamUGC_shape 0x0008002100090017 (new_wrapper_desc ISteamUGC_num_methods 1300))
              \<lparr>orig_vtable := 400, iface := 4\<rparr>,
            (copy_n example_store 400 90 1300)(4 := 1300))"
    by (simp add: setup_ISteamUGC_def shadow_def Let_def n v example_store_def)
  from vm_idxs_within_num_methods
         [of "0x0008002100090017" 4 1300 example_store
             "(ISteamUGC_shape 0x0008002100090017 (new_wrapper_desc ISteamUGC_num_methods 1300))
                \<lparr>orig_vtable := 400, iface := 4\<rparr>"
             "(copy_n example_store 400 90 1300)(4 := 1300)"]
       run n
  show ?thesis by (simp add: enum_defs)
qed

subsection \<open>Copying a table\<close>

lemma copy_n_apply:
  "src + n \<le> dst \<or> dst + n \<le> src \<Longrightarrow>
   copy_n m src n dst a = (if dst \<le> a \<and> a < dst + n then m (src + (a - dst)) else m a)"
proof (induction n arbitrary: m src dst)
  case 0
  then show ?case by simp
next
  case (Suc n)
  have "copy_n m src (Suc n) dst a = copy_n (m(dst := m src)) (Suc src) n (Suc dst) a"
    by simp
  also have "\<dots> = (if Suc dst \<le> a \<and> a < Suc dst + n
                    then (m(dst := m src)) (Suc src + (a - Suc dst)) else (m(dst := m src)) a)"
    using Suc.prems by (intro Suc.IH) auto
  also have "\<dots> = (if dst \<le> a \<and> a < dst + Suc n then m (src + (a - dst)) else m a)"
    using Suc.prems by (auto simp: Suc_diff_Suc le_Suc_eq)
  finally show ?case .
qed

subsection \<open>Shadowing preserves the original table\<close>

lemma vtable_puts_frame:
  assumes "\<forall>(idx, f) \<in> set ovs. 0 \<le> idx \<and> idx < int (max_num_methods d)"
  shows "\<exists>m2. vtable_puts d ovs m1 = Inr m2
           \<and> (\<forall>a. a \<notin> (\<lambda>(idx, f). vtable d + nat idx) ` set ovs \<longrightarrow> m2 a = m1 a)"
  using assms
proof (induction ovs arbitrary: m1)
  case Nil
  then show ?case by simp
next
  case (Cons x ovs)
  obtain idx f where x: "x = (idx, f)" by (cases x)
  with Cons.prems have r: "0 \<le> idx" "idx < int (max_num_methods d)" by auto
  from Cons.prems have "\<forall>(idx, f) \<in> set ovs. 0 \<le> idx \<and> idx < int (max_num_methods d)"
    by auto
  from Cons.IH [OF this, of "m1(vtable d + nat idx := f)"]
  obtain m2 where m2: "vtable_puts d ovs (m1(vtable d + nat idx := f)) = Inr m2"
    "\<forall>a. a \<notin> (\<lambda>(idx, f). vtable d + nat idx) ` set ovs
          \<longrightarrow> m2 a = (m1(vtable d + nat idx := f)) a"
    by blast
  have "vtable_puts d (x # ovs) m1 = Inr m2"
    using r m2(1) by (simp add: x vtable_put_def)
  moreover have "\<forall>a. a \<notin> (\<lambda>(idx, f). vtable d + nat idx) ` set (x # ovs) \<longrightarrow> m2 a = m1 a"
    using m2(2) by (auto simp: x)
  ultimately show ?case by blast
qed

text \<open>
  Claim C2. Let the instance \<open>ptr\<close> be shadowed by a descriptor with
  \<open>num_methods\<close> methods, and let any run of overrides at valid slots follow. The
  three regions involved are apart, as distinct objects are: the descriptor's own table
  does not overlap the original table, and the instance's pointer cell lies in neither.
  Then \<open>orig_vtable\<close> is the table pointer the instance had before; right after
  shadowing every entry of the shadow table equals the original entry; after the
  overrides every entry not overridden still does; the instance points at the shadow
  table; and no cell of the original table has changed.
\<close>

theorem shadow_preserves_original:
  assumes "ptr \<noteq> 0"
    and "num_methods d \<le> max_num_methods d"
    and "m ptr + num_methods d \<le> vtable d \<or> vtable d + max_num_methods d \<le> m ptr"
    and "ptr < vtable d \<or> vtable d + max_num_methods d \<le> ptr"
    and "ptr < m ptr \<or> m ptr + num_methods d \<le> ptr"
    and "\<forall>(idx, f) \<in> set ovs. 0 \<le> idx \<and> idx < int (num_methods d)"
  shows "\<exists>d' m1 m2.
           shadow ptr d m = Inr (d', m1) \<and> vtable_puts d' ovs m1 = Inr m2
           \<and> orig_vtable d' = m ptr \<and> iface d' = ptr \<and> vtable d' = vtable d
           \<and> m1 ptr = vtable d \<and> m2 ptr = vtable d
           \<and> (\<forall>i < num_methods d. m1 (vtable d + i) = m (m ptr + i))
           \<and> (\<forall>i < num_methods d. int i \<notin> fst ` set ovs
                 \<longrightarrow> m2 (vtable d + i) = m (m ptr + i))
           \<and> (\<forall>i < num_methods d. m2 (m ptr + i) = m (m ptr + i))"
proof -
  define d' where "d' = d\<lparr>orig_vtable := m ptr, iface := ptr\<rparr>"
  define m1 where "m1 = (copy_n m (m ptr) (num_methods d) (vtable d))(ptr := vtable d)"
  have sh: "shadow ptr d m = Inr (d', m1)"
    using assms(1) by (simp add: shadow_def d'_def m1_def)
  have sep: "m ptr + num_methods d \<le> vtable d \<or> vtable d + num_methods d \<le> m ptr"
    using assms(2,3) by auto
  have m1_at: "m1 a = (if a = ptr then vtable d
                       else if vtable d \<le> a \<and> a < vtable d + num_methods d
                       then m (m ptr + (a - vtable d)) else m a)" for a
    by (simp add: m1_def copy_n_apply [OF sep])
  have "\<forall>(idx, f) \<in> set ovs. 0 \<le> idx \<and> idx < int (max_num_methods d')"
    using assms(2,6) by (auto simp: d'_def)
  from vtable_puts_frame [OF this, of m1]
  obtain m2 where m2: "vtable_puts d' ovs m1 = Inr m2"
    "\<forall>a. a \<notin> (\<lambda>(idx, f). vtable d' + nat idx) ` set ovs \<longrightarrow> m2 a = m1 a"
    by blast
  have targets: "a \<in> (\<lambda>(idx, f). vtable d' + nat idx) ` set ovs
                 \<Longrightarrow> vtable d \<le> a \<and> a < vtable d + num_methods d
                     \<and> int (a - vtable d) \<in> fst ` set ovs" for a
    using assms(6) by (force simp: d'_def)
  have p1: "m1 ptr = vtable d" by (simp add: m1_at)
  have "ptr \<notin> (\<lambda>(idx, f). vtable d' + nat idx) ` set ovs"
  proof
    assume "ptr \<in> (\<lambda>(idx, f). vtable d' + nat idx) ` set ovs"
    from targets [OF this] assms(2,4) show False by auto
  qed
  with m2(2) p1 have p2: "m2 ptr = vtable d" by simp
  have c1: "\<forall>i < num_methods d. m1 (vtable d + i) = m (m ptr + i)"
    using assms(2,4) by (auto simp: m1_at)
  have c2: "\<forall>i < num_methods d. int i \<notin> fst ` set ovs
              \<longrightarrow> m2 (vtable d + i) = m (m ptr + i)"
  proof (intro allI impI)
    fix i assume i: "i < num_methods d" "int i \<notin> fst ` set ovs"
    have "vtable d + i \<notin> (\<lambda>(idx, f). vtable d' + nat idx) ` set ovs"
    proof
      assume "vtable d + i \<in> (\<lambda>(idx, f). vtable d' + nat idx) ` set ovs"
      from targets [OF this] i(2) show False by simp
    qed
    with m2(2) c1 i(1) show "m2 (vtable d + i) = m (m ptr + i)" by simp
  qed
  have c3: "\<forall>i < num_methods d. m2 (m ptr + i) = m (m ptr + i)"
  proof (intro allI impI)
    fix i assume i: "i < num_methods d"
    have out: "\<not> (vtable d \<le> m ptr + i \<and> m ptr + i < vtable d + num_methods d)"
      using assms(2,3) i by auto
    then have "m ptr + i \<notin> (\<lambda>(idx, f). vtable d' + nat idx) ` set ovs"
      using targets [of "m ptr + i"] by blast
    with m2(2) have "m2 (m ptr + i) = m1 (m ptr + i)" by simp
    also have "\<dots> = m (m ptr + i)"
      using out assms(5) i by (auto simp: m1_at)
    finally show "m2 (m ptr + i) = m (m ptr + i)" .
  qed
  from sh m2(1) p1 p2 c1 c2 c3 show ?thesis
    by (intro exI [of _ d'] exI [of _ m1] exI [of _ m2]) (simp add: d'_def)
qed

text \<open>
  The test of the specification: a fake table of five methods, shadowed, then
  overrides of slots 1 and 3. The three other slots of the shadow table hold the
  original entries, and the five original entries are still in place.
\<close>

theorem shadow_preserves_original_witness:
  "\<exists>d' m1 m2.
     shadow 10 fake_desc fake_store = Inr (d', m1)
     \<and> vtable_puts d' [(1, 9001), (3, 9002)] m1 = Inr m2
     \<and> orig_vtable d' = 100 \<and> m2 10 = 200
     \<and> map m2 [200, 202, 204] = [5100, 5102, 5104]
     \<and> map m2 [100, 101, 102, 103, 104] = [5100, 5101, 5102, 5103, 5104]"
proof -
  from shadow_preserves_original
         [of 10 fake_desc fake_store "[(1, 9001), (3, 9002)]"]
  obtain d' m1 m2 where
    run: "shadow 10 fake_desc fake_store = Inr (d', m1)"
      "vtable_puts d' [(1, 9001), (3, 9002)] m1 = Inr m2" and
    o: "orig_vtable d' = 100" "m2 10 = 200" and
    keep: "\<forall>i < 5. int i \<notin> {1, 3} \<longrightarrow> m2 (200 + i) = fake_store (100 + i)" and
    orig: "\<forall>i < 5. m2 (100 + i) = fake_store (100 + i)"
    by (auto simp: fake_desc_def fake_store_def new_wrapper_desc_def)
  from keep [rule_format, of 0] keep [rule_format, of 2] keep [rule_format, of 4]
  have k: "map m2 [200, 202, 204] = [5100, 5102, 5104]"
    by (simp add: fake_store_def)
  from orig [rule_format, of 0] orig [rule_format, of 1] orig [rule_format, of 2]
    orig [rule_format, of 3] orig [rule_format, of 4]
  have g: "map m2 [100, 101, 102, 103, 104] = [5100, 5101, 5102, 5103, 5104]"
    by (simp add: fake_store_def)
  from run o k g show ?thesis
    by (intro exI [of _ d'] exI [of _ m1] exI [of _ m2]) simp
qed

subsection \<open>Steps of \<^verbatim>\<open>SteamAPI_Init\<close> and what they change\<close>

lemma same_config_refl [simp]: "same_config st st"
  by (simp add: same_config_def)

lemma same_config_trans: "same_config a b \<Longrightarrow> same_config b c \<Longrightarrow> same_config a c"
  by (simp add: same_config_def)

lemma same_config_updates [simp]:
  "same_config st (st'\<lparr>mem := m\<rparr>) = same_config st st'"
  "same_config st (st'\<lparr>steam_id := i\<rparr>) = same_config st st'"
  "same_config st (st'\<lparr>SteamApps_BIsSubscribedApp_orig := f\<rparr>) = same_config st st'"
  "same_config st (st'\<lparr>SteamApps_BIsAppInstalled_orig := f\<rparr>) = same_config st st'"
  "same_config st (st'\<lparr>game := g\<rparr>) = same_config st st'"
  "same_config st (st'\<lparr>steamclient := sc\<rparr>) = same_config st st'"
  "same_config (st\<lparr>mem := m\<rparr>) st' = same_config st st'"
  "same_config (st\<lparr>steam_id := i\<rparr>) st' = same_config st st'"
  "same_config (st\<lparr>SteamApps_BIsSubscribedApp_orig := f\<rparr>) st' = same_config st st'"
  "same_config (st\<lparr>SteamApps_BIsAppInstalled_orig := f\<rparr>) st' = same_config st st'"
  "same_config (st\<lparr>game := g\<rparr>) st' = same_config st st'"
  "same_config (st\<lparr>steamclient := sc\<rparr>) st' = same_config st st'"
  by (simp_all add: same_config_def)

lemma install_at_same_config:
  "install_at sel m f st = Inr st' \<Longrightarrow> same_config st st'"
  by (auto simp: install_at_def and_then_eq_Inr)

lemma install_if_available_same_config:
  "install_if_available sel m f st = Inr st' \<Longrightarrow> same_config st st'"
  by (auto simp: install_if_available_def and_then_eq_Inr Let_def split: if_splits)

lemma setup_common_wrappers_same_config:
  assumes "setup_common_wrappers pf st = Inr st'"
  shows "same_config st st'"
  using assms unfolding setup_common_wrappers_def and_then_eq_Inr Let_def
  by (elim exE conjE)
     (auto split: if_splits simp: and_then_eq_Inr same_config_def
           dest!: install_at_same_config install_if_available_same_config)

lemma setup_matchmaking_servers_346110_same_config:
  assumes "setup_matchmaking_servers_346110 pf st = Inr st'"
  shows "same_config st st'"
  using assms unfolding setup_matchmaking_servers_346110_def and_then_eq_Inr Let_def
  by (elim exE conjE)
     (auto split: if_splits simp: and_then_eq_Inr same_config_def
           dest!: install_at_same_config)

lemma setup_workshop_346110_same_config:
  assumes "setup_workshop_346110 pf st = Inr st'"
  shows "same_config st st'"
  using assms unfolding setup_workshop_346110_def and_then_eq_Inr Let_def
  by (elim exE conjE)
     (auto split: if_splits simp: and_then_eq_Inr same_config_def
           dest!: install_at_same_config)

lemma steam_api_init_cb_same_config:
  assumes "steam_api_init_cb pf st = Inr st'"
  shows "same_config st st'"
  using assms
  by (auto simp: steam_api_init_cb_def steam_api_init_346110_def and_then_eq_Inr
           split: if_splits
           dest!: setup_matchmaking_servers_346110_same_config
                  setup_workshop_346110_same_config
           dest: same_config_trans)

lemma setup_interfaces_settings:
  assumes "setup_interfaces ps st = Inr st'"
  shows "settings st' = settings st"
  using assms unfolding setup_interfaces_def and_then_eq_Inr Let_def
  by (elim exE conjE) (auto split: prod.splits simp: and_then_eq_Inr)

lemma update_dlc_ids [simp]:
  "spoof_app_id (update_dlc pf s) = spoof_app_id s"
  "app_id (update_dlc pf s) = app_id s"
  by (simp_all add: update_dlc_def Let_def)

lemma call_SteamAPI_Init_orig_spoof:
  assumes "call_SteamAPI_Init_orig pf st = (res, st1)"
  shows "app_id (settings st1) = app_id (settings st)"
    and "mem st1 = mem st"
    and "res = (if spoof_app_id (settings st) = 0 \<and> \<not> SteamAPI_Init_orig_1st pf
                then SteamAPI_Init_orig_2nd pf else SteamAPI_Init_orig_1st pf)"
    and "spoof_app_id (settings st1) =
           (if spoof_app_id (settings st) \<noteq> 0 then spoof_app_id (settings st)
            else if SteamAPI_Init_orig_1st pf then app_id (settings st)
            else if SteamAPI_Init_orig_2nd pf then 480 else 0)"
  using assms by (auto simp: call_SteamAPI_Init_orig_def Let_def split: if_splits)

lemma SteamAPI_Init_spoof_kept:
  assumes "SteamAPI_Init pf st = Inr (r, st')"
    and "call_SteamAPI_Init_orig pf st = (res, st1)"
  shows "spoof_app_id (settings st') = spoof_app_id (settings st1)"
    and "r \<longrightarrow> res"
proof -
  have both: "spoof_app_id (settings st') = spoof_app_id (settings st1) \<and> (r \<longrightarrow> res)"
  proof (cases res)
    case False
    with assms show ?thesis by (auto simp: SteamAPI_Init_def)
  next
    case True
    show ?thesis
    proof (cases "probe_version pf")
      case None
      with True assms show ?thesis by (auto simp: SteamAPI_Init_def)
    next
      case (Some v)
      show ?thesis
      proof (cases "v > max_supported_ver")
        case over: True
        with True Some assms show ?thesis by (auto simp: SteamAPI_Init_def Let_def)
      next
        case under: False
        from assms True Some under obtain s2 s3 s4 where
          a: "setup_interfaces (obtain_interfaces pf v) (st1\<lparr>ver := v\<rparr>) = Inr s2" and
          b: "setup_common_wrappers pf s2 = Inr s3" and
          c: "steam_api_init_cb pf s4 = Inr st'" and
          d: "spoof_app_id (settings s4) = spoof_app_id (settings s3)"
          by (auto simp: SteamAPI_Init_def Let_def and_then_eq_Inr split: if_splits)
        from a have "settings s2 = settings st1"
          by (auto dest: setup_interfaces_settings)
        moreover from b have "settings s3 = settings s2"
          by (auto dest: setup_common_wrappers_same_config simp: same_config_def)
        moreover from c have "settings st' = settings s4"
          by (auto dest: steam_api_init_cb_same_config simp: same_config_def)
        ultimately show ?thesis using d True by simp
      qed
    qed
  qed
  from both show "spoof_app_id (settings st') = spoof_app_id (settings st1)" by simp
  from both show "r \<longrightarrow> res" by simp
qed

subsection \<open>Runs of \<^verbatim>\<open>SteamAPI_Init\<close> in the example process\<close>

lemmas run_defs =
  SteamAPI_Init_def call_SteamAPI_Init_orig_def probe_version_def obtain_interfaces_def
  setup_interfaces_def setup_ISteamApps_def setup_ISteamMatchmaking_def
  setup_ISteamMatchmakingServers_def setup_ISteamUGC_def setup_ISteamUser_def
  setup_ISteamUtils_def shadow_def max_supported_ver_def
  ISteamApps_num_methods_at_def ISteamUtils_num_methods_at_def
  ISteamMatchmaking_shape_def ISteamUGC_shape_def ISteamUser_shape_def
  setup_common_wrappers_def install_at_def install_if_available_def orig_at_def
  vtable_put_def orig_vtable_get_def steam_api_init_cb_def steam_api_init_346110_def
  setup_matchmaking_servers_346110_def setup_workshop_346110_def
  example_platform_def example_state_def example_game_def example_getter_def
  example_store_def example_fn_addr_def new_wrapper_desc_def
  identity_idxs_nth nth_list_update copy_n_apply Let_def

lemma run_probe_fails_result:
  "\<not> isl run_probe_fails \<and> \<not> fst (projr run_probe_fails)
   \<and> spoof_app_id (settings (snd (projr run_probe_fails))) = 346110"
  unfolding run_probe_fails_def
  by (simp add: run_defs cong: let_weak_cong split del: if_split)

lemma run_app_zero_result:
  "\<not> isl run_app_zero \<and> fst (projr run_app_zero)
   \<and> spoof_app_id (settings (snd (projr run_app_zero))) = 0"
  unfolding run_app_zero_def
  by (simp add: run_defs enum_defs ISteamMatchmaking_idxs_008_def ISteamUGC_idxs_002_def
        ISteamUser_idxs_017_def cong: let_weak_cong split del: if_split)

lemma run_other_game_result:
  "\<exists>st'. run_other_game = Inr (True, st')"
  unfolding run_other_game_def
  by (simp add: run_defs enum_defs ISteamMatchmaking_idxs_008_def ISteamUGC_idxs_002_def
        ISteamUser_idxs_017_def cong: let_weak_cong split del: if_split)

subsection \<open>Failing closed on version problems\<close>

text \<open>
  Claim C6. If the version resource of the vendor binary cannot be read (the resource
  is not found, not loaded, not locked, or the query for the version block fails), or
  the probed version exceeds \<open>max_supported_ver\<close> (\<open>0x0009003C002C000A\<close>), the
  init wrapper returns false and nothing is shadowed: the store, so every instance's
  table pointer and every table, is as before, and so are the six descriptors.
\<close>

theorem SteamAPI_Init_fails_closed:
  assumes "steam_api_version pf \<in>
             {ResourceNotFound, ResourceNotLoaded, ResourceNotLocked, QueryValueFailed}
           \<or> (\<exists>ms ls. steam_api_version pf = FixedFileInfo ms ls
                 \<and> (ucast ls OR push_bit 32 (ucast ms) :: version) > max_supported_ver)"
  shows "\<exists>st'. SteamAPI_Init pf st = Inr (False, st') \<and> mem st' = mem st
           \<and> ISteamApps_desc st' = ISteamApps_desc st
           \<and> ISteamMatchmaking_desc st' = ISteamMatchmaking_desc st
           \<and> ISteamMatchmakingServers_desc st' = ISteamMatchmakingServers_desc st
           \<and> ISteamUGC_desc st' = ISteamUGC_desc st
           \<and> ISteamUser_desc st' = ISteamUser_desc st
           \<and> ISteamUtils_desc st' = ISteamUtils_desc st"
  using assms
  by (auto simp: SteamAPI_Init_def call_SteamAPI_Init_orig_def probe_version_def Let_def)

theorem SteamAPI_Init_fails_closed_witness:
  "(\<exists>st'. SteamAPI_Init (example_platform True False ResourceNotFound) (example_state 480 0)
            = Inr (False, st')
          \<and> mem st' = example_store
          \<and> ISteamApps_desc st' = new_wrapper_desc ISteamApps_num_methods 1000)
   \<and> (\<exists>st'. SteamAPI_Init (example_platform True False (FixedFileInfo 0x0009003C 0x002C000B))
              (example_state 480 0) = Inr (False, st')
          \<and> mem st' = example_store
          \<and> ISteamApps_desc st' = new_wrapper_desc ISteamApps_num_methods 1000)"
  using
    SteamAPI_Init_fails_closed
      [of "example_platform True False ResourceNotFound" "example_state 480 0"]
    SteamAPI_Init_fails_closed
      [of "example_platform True False (FixedFileInfo 0x0009003C 0x002C000B)"
          "example_state 480 0"]
  by (auto simp: example_platform_def example_state_def max_supported_ver_def)

subsection \<open>The spoofed application ID\<close>

text \<open>
  Claim C9, as the code has it. For every run of the init wrapper that returns: a
  nonzero \<open>spoof_app_id\<close> is never modified; if it is zero and the first real
  initialisation succeeds it becomes \<open>app_id\<close>; if it is zero, the first attempt
  fails and the attempt with ID 480 succeeds it becomes 480; if it is zero and both
  attempts fail the wrapper returns false and it stays zero. Hence after a successful
  run it is nonzero whenever \<open>app_id\<close> is nonzero. The value set by the
  initialisation step is kept also when the wrapper fails afterwards, at the version
  probe or the version check.
\<close>

theorem SteamAPI_Init_spoof_app_id:
  assumes "SteamAPI_Init pf st = Inr (r, st')"
  shows "(spoof_app_id (settings st) \<noteq> 0
            \<longrightarrow> spoof_app_id (settings st') = spoof_app_id (settings st))
       \<and> (spoof_app_id (settings st) = 0 \<and> SteamAPI_Init_orig_1st pf
            \<longrightarrow> spoof_app_id (settings st') = app_id (settings st))
       \<and> (spoof_app_id (settings st) = 0 \<and> \<not> SteamAPI_Init_orig_1st pf
              \<and> SteamAPI_Init_orig_2nd pf
            \<longrightarrow> spoof_app_id (settings st') = 480)
       \<and> (spoof_app_id (settings st) = 0 \<and> \<not> SteamAPI_Init_orig_1st pf
              \<and> \<not> SteamAPI_Init_orig_2nd pf
            \<longrightarrow> \<not> r \<and> spoof_app_id (settings st') = 0)
       \<and> (r \<and> app_id (settings st) \<noteq> 0 \<longrightarrow> spoof_app_id (settings st') \<noteq> 0)"
proof -
  obtain res st1 where c: "call_SteamAPI_Init_orig pf st = (res, st1)"
    by (cases "call_SteamAPI_Init_orig pf st") auto
  note k = SteamAPI_Init_spoof_kept [OF assms c]
  note s = call_SteamAPI_Init_orig_spoof [OF c]
  show ?thesis
    using k s(3) by (auto simp: s(4))
qed

theorem SteamAPI_Init_spoof_app_id_witness:
  "\<exists>st'. run_other_game = Inr (True, st') \<and> spoof_app_id (settings st') = 2399830"
proof -
  obtain st' where run: "run_other_game = Inr (True, st')"
    using run_other_game_result by blast
  then have "SteamAPI_Init (example_platform True False (FixedFileInfo 0x00020013 0x0022005D))
               (example_state 2399830 0) = Inr (True, st')"
    by (simp add: run_other_game_def)
  from SteamAPI_Init_spoof_app_id [OF this]
  have "spoof_app_id (settings st') = 2399830"
    by (simp add: example_platform_def example_state_def)
  with run show ?thesis by blast
qed

text \<open>
  Claim C9 as it is written fails twice. A run that fails at the version probe has
  already set \<open>spoof_app_id\<close> (here from 0 to 346110), so a failed run does not leave
  it unchanged; and with \<open>app_id = 0\<close> a successful run leaves it zero.
\<close>

theorem SteamAPI_Init_spoof_app_id_counterexample:
  "(\<not> isl run_probe_fails \<and> \<not> fst (projr run_probe_fails)
      \<and> spoof_app_id (settings (example_state 346110 0)) = 0
      \<and> spoof_app_id (settings (snd (projr run_probe_fails))) = 346110)
   \<and> (\<not> isl run_app_zero \<and> fst (projr run_app_zero)
      \<and> spoof_app_id (settings (snd (projr run_app_zero))) = 0)"
  using run_probe_fails_result run_app_zero_result
  by (simp add: example_state_def)

subsection \<open>Absent methods and the installation of wrappers\<close>

lemma install_at_absent:
  "vm_idxs (sel st) ! m = - 1 \<Longrightarrow> install_at sel m f st = Inl (OutOfBoundsWrite (- 1))"
  by (simp add: install_at_def vtable_put_def)

lemma install_if_available_absent:
  "vm_idxs (sel st) ! m = - 1 \<Longrightarrow> install_if_available sel m f st = Inr st"
  by (simp add: install_if_available_def)

lemmas ISteamUser_idxs_defs =
  ISteamUser_idxs_021_def ISteamUser_idxs_020_def ISteamUser_idxs_019_def
  ISteamUser_idxs_018_def ISteamUser_idxs_017_def ISteamUser_idxs_016_def
  ISteamUser_idxs_014_def

text \<open>
  The methods \<^verbatim>\<open>SteamAPI_Init\<close> itself installs or calls without a test have a slot
  in every version branch: slots 0, 6 and 7 of ISteamApps, slot 9 of ISteamUtils, and
  \<^verbatim>\<open>GetSteamID\<close> and \<^verbatim>\<open>UserHasLicenseForApp\<close> of ISteamUser.
\<close>

lemma ISteamApps_unguarded_slots:
  assumes "setup_ISteamApps v p (new_wrapper_desc ISteamApps_num_methods a) m = Inr (d, m')"
  shows "vm_idxs d ! ISteamApps_m_BIsSubscribed = 0"
    and "vm_idxs d ! ISteamApps_m_BIsSubscribedApp = 6"
    and "vm_idxs d ! ISteamApps_m_BIsDlcInstalled = 7"
  using assms
  by (auto simp: setup_ISteamApps_def shadow_def Let_def new_wrapper_desc_def enum_defs
        identity_idxs_nth ISteamApps_num_methods_at_def split: if_splits)

lemma ISteamUtils_unguarded_slots:
  assumes "setup_ISteamUtils v p (new_wrapper_desc ISteamUtils_num_methods a) m = Inr (d, m')"
  shows "vm_idxs d ! ISteamUtils_m_GetAppID = 9"
  using assms
  by (auto simp: setup_ISteamUtils_def shadow_def Let_def new_wrapper_desc_def enum_defs
        identity_idxs_nth ISteamUtils_num_methods_at_def split: if_splits)

lemma ISteamUser_shape_unguarded_slots:
  "vm_idxs (ISteamUser_shape v (new_wrapper_desc ISteamUser_num_methods a))
     ! ISteamUser_m_GetSteamID = 2"
  "vm_idxs (ISteamUser_shape v (new_wrapper_desc ISteamUser_num_methods a))
     ! ISteamUser_m_UserHasLicenseForApp \<in> {16, 17, 18}"
  by (simp_all add: ISteamUser_shape_def new_wrapper_desc_def enum_defs identity_idxs_nth
        ISteamUser_idxs_defs nth_list_update)

text \<open>
  Claim C4 fails on the code. On file version 01.98.31.73 ISteamUGC is the 14-method
  \<^verbatim>\<open>STEAMUGC_INTERFACE_VERSION001\<close>, in which \<^verbatim>\<open>GetNumSubscribedItems\<close> has no
  slot: its index is \<open>-1\<close>. The callback of app 346110 installs its wrapper all the
  same, by \<^verbatim>\<open>desc.vtable[desc.vm_idxs[...]] = ...\<close> with no test of the index: the run
  \<open>run_346110_old_ugc\<close> ends in a write at index \<open>-1\<close> of the shadow table.
\<close>

theorem workshop_wrapper_installed_at_absent_slot:
  "vm_idxs (ISteamUGC_shape 0x00010062001F0049 (new_wrapper_desc ISteamUGC_num_methods 1300))
     ! ISteamUGC_m_GetNumSubscribedItems = - 1
   \<and> run_346110_old_ugc = Inl (OutOfBoundsWrite (- 1))"
proof -
  have absent:
    "vm_idxs (ISteamUGC_shape 0x00010062001F0049 (new_wrapper_desc ISteamUGC_num_methods 1300))
       ! ISteamUGC_m_GetNumSubscribedItems = - 1"
    by (simp add: ISteamUGC_shape_def ISteamUGC_idxs_001_def enum_defs new_wrapper_desc_def
          nth_list_update)
  have run: "run_346110_old_ugc = Inl (OutOfBoundsWrite (- 1))"
    unfolding run_346110_old_ugc_def
    by (simp add: run_defs enum_defs ISteamMatchmaking_idxs_008_def ISteamUGC_idxs_001_def
          ISteamUser_idxs_017_def cong: let_weak_cong split del: if_split)
  from absent run show ?thesis by simp
qed

subsection \<open>The import patcher\<close>




lemma search_regular_imports_ignores_delay [simp]:
  "search_regular_imports (img\<lparr>delay_import_directory := dd\<rparr>) = search_regular_imports img"
proof -
  have a: "find_descriptor (img\<lparr>delay_import_directory := dd\<rparr>) nm ds
             = find_descriptor img nm ds" for nm :: "import_descriptor \<Rightarrow> 32 word" and ds
    by (induction ds) (auto split: option.splits)
  have b: "find_import_by_name (img\<lparr>delay_import_directory := dd\<rparr>) ts k
             = find_import_by_name img ts k" for ts k
    by (induction ts arbitrary: k) (auto split: option.splits)
  show ?thesis
    by (simp add: search_regular_imports_def a b
          cong del: and_then_weak_cong cong: option.case_cong)
qed





subsection \<open>Subscribing to a workshop item\<close>

lemma install_workshop_item_jobs:
  "jobs (snd (install_workshop_item pf i sc)) = jobs sc
   \<or> jobs (snd (install_workshop_item pf i sc)) = jobs sc @ [i]"
  by (simp add: install_workshop_item_def Let_def)

lemma SubscribeItem_present:
  "ws_descs g i \<noteq> None \<Longrightarrow> SteamUGC_SubscribeItem pf i (g, sc) = (i, g, sc)"
  by (cases "ws_descs g i") (simp_all add: SteamUGC_SubscribeItem_def Let_def)

lemma SubscribeItem_new:
  "ws_descs g i = None \<Longrightarrow>
   SteamUGC_SubscribeItem pf i (g, sc)
     = (i, g\<lparr>ws_descs := (ws_descs g)(i \<mapsto> 0)\<rparr>, snd (install_workshop_item pf i sc))"
  by (simp add: SteamUGC_SubscribeItem_def Let_def)

text \<open>
  Claim C10. \<^verbatim>\<open>SteamUGC_SubscribeItem\<close> always returns its argument. When the ID is
  already a key of the tracked-job map nothing is inserted and nothing is started: map
  and job list are as before. When it is new, a null entry is inserted for it and the
  installation is entered, which starts at most the one job for this ID. So a job is
  started only for an ID that was not present, and a second call with the same ID,
  while the entry exists, changes nothing.
\<close>

theorem SubscribeItem_idempotent:
  "fst (SteamUGC_SubscribeItem pf i (g, sc)) = i
   \<and> (ws_descs g i \<noteq> None \<longrightarrow> SteamUGC_SubscribeItem pf i (g, sc) = (i, g, sc))
   \<and> (ws_descs g i = None \<longrightarrow>
        SteamUGC_SubscribeItem pf i (g, sc)
          = (i, g\<lparr>ws_descs := (ws_descs g)(i \<mapsto> 0)\<rparr>, snd (install_workshop_item pf i sc)))
   \<and> (jobs (snd (snd (SteamUGC_SubscribeItem pf i (g, sc)))) \<noteq> jobs sc
        \<longrightarrow> ws_descs g i = None
            \<and> jobs (snd (snd (SteamUGC_SubscribeItem pf i (g, sc)))) = jobs sc @ [i])
   \<and> SteamUGC_SubscribeItem pf i (snd (SteamUGC_SubscribeItem pf i (g, sc)))
        = (i, snd (SteamUGC_SubscribeItem pf i (g, sc)))"
proof (cases "ws_descs g i")
  case None
  have again: "SteamUGC_SubscribeItem pf i
                 (g\<lparr>ws_descs := (ws_descs g)(i \<mapsto> 0)\<rparr>, snd (install_workshop_item pf i sc))
               = (i, g\<lparr>ws_descs := (ws_descs g)(i \<mapsto> 0)\<rparr>,
                  snd (install_workshop_item pf i sc))"
    by (rule SubscribeItem_present) simp
  from install_workshop_item_jobs [of pf i sc]
  have j: "jobs (snd (install_workshop_item pf i sc)) \<noteq> jobs sc
             \<longrightarrow> jobs (snd (install_workshop_item pf i sc)) = jobs sc @ [i]"
    by blast
  show ?thesis
    using j again by (simp add: SubscribeItem_new [OF None] None)
next
  case (Some c)
  then have p: "ws_descs g i \<noteq> None" by simp
  show ?thesis
    by (simp add: SubscribeItem_present [OF p] p)
qed

theorem SubscribeItem_idempotent_witness:
  "SteamUGC_SubscribeItem (example_platform True False ResourceNotFound) 7
     (example_game, \<lparr>loaded = True, am = False, jobs = []\<rparr>)
     = (7, example_game\<lparr>ws_descs := [7 \<mapsto> 0]\<rparr>, \<lparr>loaded = True, am = True, jobs = [7]\<rparr>)
   \<and> SteamUGC_SubscribeItem (example_platform True False ResourceNotFound) 7
       (example_game\<lparr>ws_descs := [7 \<mapsto> 0]\<rparr>, \<lparr>loaded = True, am = True, jobs = [7]\<rparr>)
     = (7, example_game\<lparr>ws_descs := [7 \<mapsto> 0]\<rparr>, \<lparr>loaded = True, am = True, jobs = [7]\<rparr>)"
proof -
  let ?pf = "example_platform True False ResourceNotFound"
  let ?sc0 = "\<lparr>loaded = True, am = False, jobs = []\<rparr>"
  let ?sc1 = "\<lparr>loaded = True, am = True, jobs = [7 :: 64 word]\<rparr>"
  let ?g1 = "example_game\<lparr>ws_descs := [7 \<mapsto> 0]\<rparr>"
  have new: "ws_descs example_game 7 = None"
    by (simp add: example_game_def)
  have e: "ws_descs example_game = Map.empty"
    by (simp add: example_game_def)
  have inst: "snd (install_workshop_item ?pf 7 ?sc0) = ?sc1"
    by (simp add: install_workshop_item_def example_platform_def)
  from SubscribeItem_idempotent [of ?pf 7 example_game ?sc0] new
  have "SteamUGC_SubscribeItem ?pf 7 (example_game, ?sc0)
          = (7, example_game\<lparr>ws_descs := (ws_descs example_game)(7 \<mapsto> 0)\<rparr>,
             snd (install_workshop_item ?pf 7 ?sc0))"
    by blast
  then have first: "SteamUGC_SubscribeItem ?pf 7 (example_game, ?sc0) = (7, ?g1, ?sc1)"
    by (simp only: inst e)
  have present: "ws_descs ?g1 7 \<noteq> None"
    by simp
  from SubscribeItem_idempotent [of ?pf 7 ?g1 ?sc1] present
  have second: "SteamUGC_SubscribeItem ?pf 7 (?g1, ?sc1) = (7, ?g1, ?sc1)"
    by blast
  from first second show ?thesis by (rule conjI)
qed

end
